theory Spec2Isabelle
  imports Main
begin

section \<open>Data model\<close>

text \<open>
  The three entry points of ha-flow (selection by instance-ID list, by a single private
  address, by a peer-address list) share their data: the elastic IP, the server and the
  network interface of the provider's compute API, of which the program reads the fields
  below.  An unattached elastic IP has the zero attachment (id 0, empty name) and the
  empty private address; an interface with no elastic IP carries the zero elastic IP,
  whose public address is empty.
\<close>

record ElasticIPAttachment =
  att_ID :: int
  att_Name :: string

record ElasticIP =
  eip_ID :: int
  eip_PublicIP :: string
  eip_PrivateIP :: string
  eip_Attachment :: ElasticIPAttachment

record Server =
  srv_ID :: int
  srv_Name :: string
  srv_Status_ID :: int

record NetworkInterface =
  nic_ID :: int
  nic_PrivateIP :: string
  nic_Network_CIDR :: string
  nic_AttachedElasticIP :: ElasticIP

record Target =
  InstanceID :: int
  InstanceName :: string
  NetworkInterfaceID :: int
  AttachedEIP :: ElasticIP

text \<open>
  A Go error is a value with a message.  An error made by the program itself
  (\<open>errors.New\<close>, \<open>fmt.Errorf\<close>) is never the same value as one handed back by the
  provider's client, whatever the two messages are.
\<close>

datatype error = errors_New string | ProviderError string

fun Error :: "error \<Rightarrow> string" where
  "Error (errors_New msg) = msg"
| "Error (ProviderError msg) = msg"

section \<open>The command line\<close>

text \<open>
  Each entry point declares three string flags with \<open>flag.StringVar\<close>, all with the empty
  default, and then calls \<open>flag.Parse\<close>.  The flags belong to the package's own flag
  set, \<open>CommandLine\<close>, whose error handling is \<open>ExitOnError\<close>: \<open>flag.Parse\<close> either
  returns, having set the variables of the flags that the command line gives, or ends the
  process itself, with a status and after a text on the error stream that are the
  package's.
\<close>

record Flag =
  flag_Name :: string
  flag_DefValue :: string
  flag_Usage :: string

definition flag_StringVar :: "string \<Rightarrow> string \<Rightarrow> string \<Rightarrow> Flag" where
  "flag_StringVar name val usage = \<lparr>flag_Name = name, flag_DefValue = val, flag_Usage = usage\<rparr>"

datatype flag_outcome = os_Exit nat "string list" | flag_set "(string \<times> string) list"

text \<open>The variable of a flag after \<open>flag.Parse\<close> returned: the value set, or the default.\<close>

definition flag_value :: "Flag list \<Rightarrow> (string \<times> string) list \<Rightarrow> string \<Rightarrow> string" where
  "flag_value formal actual name =
     (case map_of actual name of
        Some val \<Rightarrow> val
      | None \<Rightarrow>
          (case find (\<lambda>f. flag_Name f = name) formal of
             Some f \<Rightarrow> flag_DefValue f
           | None \<Rightarrow> []))"

section \<open>The standard library, as a parameter\<close>

text \<open>
  The program parses its command line with Go's \<open>flag\<close> package, addresses with the
  \<open>net\<close> package and instance ids with \<open>strconv.Atoi\<close>.  None of them is code of this
  program, so all are parameters: every theorem below holds whatever they compute.
  \<open>flag_Parse\<close> is given the declared flags, the name of the program (\<open>os.Args[0]\<close>)
  and its arguments (\<open>os.Args[1:]\<close>).
\<close>

record ('ip, 'net) stdlib =
  net_ParseIP :: "string \<Rightarrow> 'ip option"
  net_IP_String :: "'ip \<Rightarrow> string"
  net_ParseCIDR :: "string \<Rightarrow> 'net option"
  net_IPNet_Contains :: "'net \<Rightarrow> 'ip \<Rightarrow> bool"
  strconv_Atoi :: "string \<Rightarrow> int option"
  flag_Parse :: "Flag list \<Rightarrow> string \<Rightarrow> string list \<Rightarrow> flag_outcome"

text \<open>\<open>strings.Split(s, ",")\<close> for a one-character separator: never the empty list.\<close>

fun strings_Split :: "string \<Rightarrow> char \<Rightarrow> string list" where
  "strings_Split [] sep = [[]]"
| "strings_Split (c # cs) sep =
     (if c = sep then [] # strings_Split cs sep
      else (case strings_Split cs sep of
              [] \<Rightarrow> [[c]]
            | w # ws \<Rightarrow> (c # w) # ws))"

text \<open>The verb \<open>%v\<close> of \<open>fmt\<close> on an \<open>int\<close>: decimal digits, a minus sign when negative.\<close>

fun fmt_nat :: "nat \<Rightarrow> string" where
  "fmt_nat n =
     (if n < 10 then [''0123456789'' ! n]
      else fmt_nat (n div 10) @ [''0123456789'' ! (n mod 10)])"

declare fmt_nat.simps [simp del]

definition fmt_int :: "int \<Rightarrow> string" where
  "fmt_int i = (if i < 0 then CHR ''-'' # fmt_nat (nat (- i)) else fmt_nat (nat i))"

definition quoted :: "string \<Rightarrow> string" where
  "quoted s = CHR 0x27 # s @ [CHR 0x27]"

section \<open>The provider\<close>

text \<open>
  The compute API the program talks to, over a provider state \<open>'w\<close>.  Listing and get
  calls observe the state; detach and attach change it, and may fail.  A failure carries
  the client's message.  \<open>ServerStatusRunning\<close> is the client's constant for the status
  of a running server.
\<close>

record 'w compute =
  ElasticIPService_List :: "'w \<Rightarrow> string + ElasticIP list"
  ServerService_Get :: "'w \<Rightarrow> int \<Rightarrow> string + Server"
  ServerService_List :: "'w \<Rightarrow> string + Server list"
  NetworkInterfaceService_List :: "'w \<Rightarrow> int \<Rightarrow> string + NetworkInterface list"
  ServerElasticIPService_Detach :: "'w \<Rightarrow> int \<Rightarrow> int \<Rightarrow> string option \<times> 'w"
  ServerElasticIPService_Attach :: "'w \<Rightarrow> int \<Rightarrow> int \<Rightarrow> int \<Rightarrow> string option \<times> 'w"
  ServerStatusRunning :: int

text \<open>
  What a run leaves behind: the provider calls it issued, in order and each with its
  outcome, and the lines it wrote to the error stream.  A line is a record of \<open>slog\<close>,
  at the level of information or of error (the \<open>slog\<close> text handler writes informational
  lines there too), or a line of plain text, which only the \<open>flag\<close> package writes.
\<close>

datatype call =
  ListElasticIPs
| GetServer int
| ListServers
| ListNetworkInterfaces int
| Detach int int
| Attach int int int

datatype log_line = INFO string | ERROR string | TEXT string

record 'w proc =
  world :: 'w
  calls :: "(call \<times> error option) list"
  stderr :: "log_line list"

definition start :: "'w \<Rightarrow> 'w proc" where
  "start w = \<lparr>world = w, calls = [], stderr = []\<rparr>"

definition slog_Info :: "string \<Rightarrow> 'w proc \<Rightarrow> 'w proc" where
  "slog_Info msg st = st\<lparr>stderr := stderr st @ [INFO msg]\<rparr>"

definition slog_Error :: "string \<Rightarrow> 'w proc \<Rightarrow> 'w proc" where
  "slog_Error msg st = st\<lparr>stderr := stderr st @ [ERROR msg]\<rparr>"

text \<open>A read: the answer of the provider in the current state, recorded in the trace.\<close>

definition observe :: "call \<Rightarrow> string + 'a \<Rightarrow> 'w proc \<Rightarrow> (error + 'a) \<times> 'w proc" where
  "observe c r st =
     (case r of
        Inl msg \<Rightarrow> (Inl (ProviderError msg), st\<lparr>calls := calls st @ [(c, Some (ProviderError msg))]\<rparr>)
      | Inr v \<Rightarrow> (Inr v, st\<lparr>calls := calls st @ [(c, None)]\<rparr>))"

text \<open>A mutation: the provider's answer and its new state, recorded in the trace.\<close>

definition mutate :: "call \<Rightarrow> string option \<times> 'w \<Rightarrow> 'w proc \<Rightarrow> (error + unit) \<times> 'w proc" where
  "mutate c r st =
     (case r of
        (None, w') \<Rightarrow> (Inr (), st\<lparr>world := w', calls := calls st @ [(c, None)]\<rparr>)
      | (Some msg, w') \<Rightarrow>
          (Inl (ProviderError msg),
           st\<lparr>world := w', calls := calls st @ [(c, Some (ProviderError msg))]\<rparr>))"

definition ElasticIP_List :: "'w compute \<Rightarrow> 'w proc \<Rightarrow> (error + ElasticIP list) \<times> 'w proc" where
  "ElasticIP_List P st = observe ListElasticIPs (ElasticIPService_List P (world st)) st"

definition Server_Get :: "'w compute \<Rightarrow> int \<Rightarrow> 'w proc \<Rightarrow> (error + Server) \<times> 'w proc" where
  "Server_Get P instanceID st = observe (GetServer instanceID) (ServerService_Get P (world st) instanceID) st"

definition Server_List :: "'w compute \<Rightarrow> 'w proc \<Rightarrow> (error + Server list) \<times> 'w proc" where
  "Server_List P st = observe ListServers (ServerService_List P (world st)) st"

definition NetworkInterfaces_List ::
  "'w compute \<Rightarrow> int \<Rightarrow> 'w proc \<Rightarrow> (error + NetworkInterface list) \<times> 'w proc" where
  "NetworkInterfaces_List P instanceID st =
     observe (ListNetworkInterfaces instanceID) (NetworkInterfaceService_List P (world st) instanceID) st"

text \<open>
  \<open>compute.NewServerElasticIPService(client, id)\<close> is the attachment service of server
  \<open>id\<close>: the service is that id.
\<close>

definition service_Detach ::
  "'w compute \<Rightarrow> int \<Rightarrow> int \<Rightarrow> 'w proc \<Rightarrow> (error + unit) \<times> 'w proc" where
  "service_Detach P service elasticIPID st =
     mutate (Detach service elasticIPID) (ServerElasticIPService_Detach P (world st) service elasticIPID) st"

definition service_Attach ::
  "'w compute \<Rightarrow> int \<Rightarrow> int \<Rightarrow> int \<Rightarrow> 'w proc \<Rightarrow> (error + unit) \<times> 'w proc" where
  "service_Attach P service elasticIPID networkInterfaceID st =
     mutate (Attach service elasticIPID networkInterfaceID)
       (ServerElasticIPService_Attach P (world st) service elasticIPID networkInterfaceID) st"

section \<open>Shared functions of the three entry points\<close>

text \<open>
  \<open>failOnErr(err)\<close> ends the process when \<open>err\<close> is an error: one line on the error
  stream, exit status 1, and nothing of the rest of \<open>main\<close> runs.  Otherwise the rest
  runs: it is the continuation \<open>rest\<close>, given the value that came with the nil error.
\<close>

definition failOnErr ::
  "(error + 'a) \<times> 'w proc \<Rightarrow> ('a \<Rightarrow> 'w proc \<Rightarrow> nat \<times> 'w proc) \<Rightarrow> nat \<times> 'w proc" where
  "failOnErr r rest =
     (case r of
        (Inl err, st) \<Rightarrow> (1, slog_Error (Error err) st)
      | (Inr v, st) \<Rightarrow> rest v st)"

definition checkFlagToken :: "string \<Rightarrow> error + string" where
  "checkFlagToken flagToken =
     (if flagToken = [] then Inl (errors_New ''missing required flag: --token'')
      else Inr flagToken)"

definition checkFlagEIP :: "('ip, 'net) stdlib \<Rightarrow> string \<Rightarrow> error + string" where
  "checkFlagEIP L flagEIP =
     (if flagEIP = [] then Inl (errors_New ''missing required flag: --eip'')
      else (case net_ParseIP L flagEIP of
              None \<Rightarrow> Inl (errors_New (''invalid eip: '' @ flagEIP))
            | Some ip \<Rightarrow> Inr flagEIP))"

fun findElasticIPID_loop :: "ElasticIP list \<Rightarrow> string \<Rightarrow> error + ElasticIP" where
  "findElasticIPID_loop [] eip = Inl (errors_New ''elastic ip not found'')"
| "findElasticIPID_loop (item # items) eip =
     (if eip_PublicIP item = eip then Inr item else findElasticIPID_loop items eip)"

definition findElasticIPID :: "'w compute \<Rightarrow> string \<Rightarrow> 'w proc \<Rightarrow> (error + ElasticIP) \<times> 'w proc" where
  "findElasticIPID P eip st =
     (case ElasticIP_List P st of
        (Inl err, st') \<Rightarrow> (Inl err, st')
      | (Inr eips, st') \<Rightarrow> (findElasticIPID_loop eips eip, st'))"

text \<open>The progress lines the entry points have in common.\<close>

definition found_message :: "ElasticIP \<Rightarrow> string" where
  "found_message elasticIP =
     ''found elastic ip '' @ quoted (eip_PublicIP elasticIP)
       @ '' attached to instance '' @ quoted (att_Name (eip_Attachment elasticIP))
       @ '' with id '' @ quoted (fmt_int (att_ID (eip_Attachment elasticIP)))"

definition detached_message :: "ElasticIP \<Rightarrow> string" where
  "detached_message elasticIP =
     ''detached elastic ip from instance '' @ quoted (att_Name (eip_Attachment elasticIP))
       @ '' with id '' @ quoted (fmt_int (att_ID (eip_Attachment elasticIP)))"

definition attached_message :: "ElasticIP \<Rightarrow> Target \<Rightarrow> string" where
  "attached_message elasticIP target =
     ''attached High-Availability elastic ip '' @ quoted (eip_PublicIP elasticIP)
       @ '' to target instance '' @ quoted (InstanceName target)
       @ '' with id '' @ quoted (fmt_int (InstanceID target))
       @ '' on network interface with id '' @ quoted (fmt_int (NetworkInterfaceID target))"

section \<open>Selection by instance-ID list (main.go)\<close>

fun checkFlagInstances_loop :: "('ip, 'net) stdlib \<Rightarrow> string list \<Rightarrow> error + int list" where
  "checkFlagInstances_loop L [] = Inr []"
| "checkFlagInstances_loop L (val # idVals) =
     (case strconv_Atoi L val of
        None \<Rightarrow> Inl (errors_New (''invalid instance_id: '' @ val))
      | Some intValue \<Rightarrow>
          (case checkFlagInstances_loop L idVals of
             Inl err \<Rightarrow> Inl err
           | Inr ids \<Rightarrow> Inr (intValue # ids)))"

definition checkFlagInstances :: "('ip, 'net) stdlib \<Rightarrow> string \<Rightarrow> error + int list" where
  "checkFlagInstances L flagInstances =
     (if flagInstances = [] then Inl (errors_New ''missing required flag: --instance_ids'')
      else checkFlagInstances_loop L (strings_Split flagInstances CHR '',''))"

fun pickNextInstance :: "'w compute \<Rightarrow> int list \<Rightarrow> int \<Rightarrow> 'w proc \<Rightarrow> (error + int) \<times> 'w proc" where
  "pickNextInstance P [] unavailableInstanceID st =
     (Inl (errors_New ''no available instance found''), st)"
| "pickNextInstance P (instanceID # haInstanceIDs) unavailableInstanceID st =
     (if instanceID = unavailableInstanceID
      then pickNextInstance P haInstanceIDs unavailableInstanceID st
      else (case Server_Get P instanceID st of
              (Inl err, st') \<Rightarrow> (Inl err, st')
            | (Inr server, st') \<Rightarrow>
                if srv_Status_ID server \<noteq> ServerStatusRunning P
                then pickNextInstance P haInstanceIDs unavailableInstanceID st'
                else (Inr instanceID, st')))"

fun pickNetworkInterface_loop ::
  "('ip, 'net) stdlib \<Rightarrow> NetworkInterface list \<Rightarrow> 'ip \<Rightarrow> error + NetworkInterface" where
  "pickNetworkInterface_loop L [] previousIP =
     Inl (errors_New ''no network interface in same network as previous private ip found'')"
| "pickNetworkInterface_loop L (nic # nics) previousIP =
     (case net_ParseCIDR L (nic_Network_CIDR nic) of
        None \<Rightarrow> Inl (errors_New ''invalid CIDR'')
      | Some ipNet \<Rightarrow>
          if net_IPNet_Contains L ipNet previousIP then Inr nic
          else pickNetworkInterface_loop L nics previousIP)"

definition pickNetworkInterface ::
  "('ip, 'net) stdlib \<Rightarrow> 'w compute \<Rightarrow> int \<Rightarrow> string \<Rightarrow> 'w proc
     \<Rightarrow> (error + NetworkInterface) \<times> 'w proc" where
  "pickNetworkInterface L P instanceID previousPrivateIP st =
     (case NetworkInterfaces_List P instanceID st of
        (Inl err, st') \<Rightarrow> (Inl err, st')
      | (Inr networkInterfaces, st') \<Rightarrow>
          (case net_ParseIP L previousPrivateIP of
             None \<Rightarrow> (Inl (errors_New ''invalid private IP''), st')
           | Some previousIP \<Rightarrow> (pickNetworkInterface_loop L networkInterfaces previousIP, st')))"

text \<open>
  \<open>main\<close> of main.go once \<open>flag.Parse\<close> has returned, from the three flag values and
  the provider's state to the exit status and what the run left behind.  The attach goes
  through \<open>serverAttachmentService\<close>, the service of the instance the elastic IP was
  attached to when the run started.  The whole of \<open>main\<close>, from the command line, is
  \<open>program\<close> below.
\<close>

definition main ::
  "('ip, 'net) stdlib \<Rightarrow> 'w compute \<Rightarrow> string \<Rightarrow> string \<Rightarrow> string \<Rightarrow> 'w \<Rightarrow> nat \<times> 'w proc" where
  "main L P flagToken flagEIP flagInstances w =
     failOnErr (checkFlagToken flagToken, start w) (\<lambda>token st.
     failOnErr (checkFlagEIP L flagEIP, st) (\<lambda>haEIP st.
     failOnErr (checkFlagInstances L flagInstances, st) (\<lambda>haInstanceIDs st.
     failOnErr (findElasticIPID P haEIP st) (\<lambda>elasticIP st.
     let st = slog_Info (found_message elasticIP) st;
         serverAttachmentService = att_ID (eip_Attachment elasticIP) in
     failOnErr (service_Detach P serverAttachmentService (eip_ID elasticIP) st) (\<lambda>_ st.
     let st = slog_Info (detached_message elasticIP) st in
     failOnErr (pickNextInstance P haInstanceIDs (att_ID (eip_Attachment elasticIP)) st) (\<lambda>instanceID st.
     let st = slog_Info (''picked next available instance with id '' @ quoted (fmt_int instanceID)) st in
     failOnErr (pickNetworkInterface L P instanceID (eip_PrivateIP elasticIP) st) (\<lambda>networkInterface st.
     let st = slog_Info (''picked target network interface (''
                @ quoted (fmt_int (nic_ID networkInterface)) @ '') to attach EIP to'') st in
     failOnErr
       (if eip_PublicIP (nic_AttachedElasticIP networkInterface) \<noteq> []
        then (let serverAttachmentService2 = instanceID in
              case service_Detach P serverAttachmentService2
                     (eip_ID (nic_AttachedElasticIP networkInterface)) st of
                (r, st) \<Rightarrow>
                  (r, if isl r then st
                      else slog_Info (''detacheded existing EIP ''
                             @ quoted (eip_PublicIP (nic_AttachedElasticIP networkInterface))
                             @ '' on target network interface ''
                             @ quoted (fmt_int (nic_ID networkInterface))) st))
        else (Inr (), st)) (\<lambda>_ st.
     failOnErr (service_Attach P serverAttachmentService (eip_ID elasticIP)
                  (nic_ID networkInterface) st) (\<lambda>_ st.
     (0, slog_Info (''attached High-Availability EIP '' @ quoted (eip_PublicIP elasticIP)
            @ '' to target network interface with id ''
            @ quoted (fmt_int (nic_ID networkInterface))) st))))))))))"

section \<open>Shared by the two address-based entry points\<close>

definition prepareTarget :: "'w compute \<Rightarrow> Target \<Rightarrow> int \<Rightarrow> 'w proc \<Rightarrow> (error + unit) \<times> 'w proc" where
  "prepareTarget P target service st =
     (if eip_PublicIP (AttachedEIP target) = [] then (Inr (), st)
      else (case service_Detach P service (eip_ID (AttachedEIP target)) st of
              (Inl err, st') \<Rightarrow> (Inl err, st')
            | (Inr u, st') \<Rightarrow>
                (Inr (), slog_Info (''detached elastic ip '' @ [CHR 0x27]
                           @ eip_PublicIP (AttachedEIP target)
                           @ '' from instance '' @ quoted (InstanceName target)
                           @ '' with id '' @ quoted (fmt_int (InstanceID target))) st')))"

section \<open>Selection by a single private address (the \<open>-ip\<close> entry point)\<close>

definition checkFlagIP :: "('ip, 'net) stdlib \<Rightarrow> string \<Rightarrow> error + string" where
  "checkFlagIP L flagIP =
     (case net_ParseIP L flagIP of
        None \<Rightarrow> Inl (errors_New ''invalid ip: <nil>'')
      | Some ip \<Rightarrow> Inr (net_IP_String L ip))"

fun findFailOverTarget_interfaces :: "Server \<Rightarrow> NetworkInterface list \<Rightarrow> string \<Rightarrow> Target option" where
  "findFailOverTarget_interfaces instance [] privateIP = None"
| "findFailOverTarget_interfaces instance (networkInterface # networkInterfaces) privateIP =
     (if nic_PrivateIP networkInterface = privateIP
      then Some \<lparr>InstanceID = srv_ID instance, InstanceName = srv_Name instance,
                 NetworkInterfaceID = nic_ID networkInterface,
                 AttachedEIP = nic_AttachedElasticIP networkInterface\<rparr>
      else findFailOverTarget_interfaces instance networkInterfaces privateIP)"

fun findFailOverTarget_loop ::
  "'w compute \<Rightarrow> Server list \<Rightarrow> string \<Rightarrow> 'w proc \<Rightarrow> (error + Target) \<times> 'w proc" where
  "findFailOverTarget_loop P [] privateIP st =
     (Inl (errors_New (''fail over instance with private ip '' @ privateIP @ '' not found'')), st)"
| "findFailOverTarget_loop P (instance # instances) privateIP st =
     (if srv_Status_ID instance \<noteq> ServerStatusRunning P
      then findFailOverTarget_loop P instances privateIP st
      else (case NetworkInterfaces_List P (srv_ID instance) st of
              (Inl err, st') \<Rightarrow> (Inl err, st')
            | (Inr networkInterfaces, st') \<Rightarrow>
                (case findFailOverTarget_interfaces instance networkInterfaces privateIP of
                   Some target \<Rightarrow> (Inr target, st')
                 | None \<Rightarrow> findFailOverTarget_loop P instances privateIP st')))"

definition findFailOverTarget :: "'w compute \<Rightarrow> string \<Rightarrow> 'w proc \<Rightarrow> (error + Target) \<times> 'w proc" where
  "findFailOverTarget P privateIP st =
     (case Server_List P st of
        (Inl err, st') \<Rightarrow> (Inl err, st')
      | (Inr instances, st') \<Rightarrow> findFailOverTarget_loop P instances privateIP st')"

definition main_ip ::
  "('ip, 'net) stdlib \<Rightarrow> 'w compute \<Rightarrow> string \<Rightarrow> string \<Rightarrow> string \<Rightarrow> 'w \<Rightarrow> nat \<times> 'w proc" where
  "main_ip L P flagToken flagEIP flagIP w =
     failOnErr (checkFlagToken flagToken, start w) (\<lambda>token st.
     failOnErr (checkFlagEIP L flagEIP, st) (\<lambda>haEIP st.
     failOnErr (checkFlagIP L flagIP, st) (\<lambda>privateIP st.
     failOnErr (findElasticIPID P haEIP st) (\<lambda>elasticIP st.
     let st = slog_Info (found_message elasticIP) st in
     if eip_PrivateIP elasticIP = privateIP
     then (0, slog_Info ''elastic ip already attached to target instance'' st)
     else
     failOnErr (service_Detach P (att_ID (eip_Attachment elasticIP)) (eip_ID elasticIP) st) (\<lambda>_ st.
     let st = slog_Info (detached_message elasticIP) st in
     failOnErr (findFailOverTarget P privateIP st) (\<lambda>target st.
     let st = slog_Info (''found target instance '' @ quoted (InstanceName target)
                @ '' with id '' @ quoted (fmt_int (InstanceID target)) @ '' for failover'') st in
     failOnErr (prepareTarget P target (InstanceID target) st) (\<lambda>_ st.
     failOnErr (service_Attach P (InstanceID target) (eip_ID elasticIP)
                  (NetworkInterfaceID target) st) (\<lambda>_ st.
     (0, slog_Info (attached_message elasticIP target) st)))))))))"

section \<open>Selection by peer-address list (the \<open>-peers\<close> entry point)\<close>

fun checkFlagIPs_loop :: "('ip, 'net) stdlib \<Rightarrow> string list \<Rightarrow> error + string list" where
  "checkFlagIPs_loop L [] = Inr []"
| "checkFlagIPs_loop L (val # ipVals) =
     (case net_ParseIP L val of
        None \<Rightarrow> Inl (errors_New (''invalid ip: '' @ val))
      | Some ip \<Rightarrow>
          (case checkFlagIPs_loop L ipVals of
             Inl err \<Rightarrow> Inl err
           | Inr ips \<Rightarrow> Inr (net_IP_String L ip # ips)))"

definition checkFlagIPs :: "('ip, 'net) stdlib \<Rightarrow> string \<Rightarrow> error + string list" where
  "checkFlagIPs L flagIPs = checkFlagIPs_loop L (strings_Split flagIPs CHR '','')"

fun filterPeers :: "string list \<Rightarrow> string \<Rightarrow> string list" where
  "filterPeers [] bannedIP = []"
| "filterPeers (ip # peersPrivateIPs) bannedIP =
     (if ip = bannedIP then filterPeers peersPrivateIPs bannedIP
      else ip # filterPeers peersPrivateIPs bannedIP)"

fun pickFailOverTarget_interfaces ::
  "Server \<Rightarrow> NetworkInterface list \<Rightarrow> string list \<Rightarrow> Target option" where
  "pickFailOverTarget_interfaces instance [] peersPrivateIPs = None"
| "pickFailOverTarget_interfaces instance (networkInterface # networkInterfaces) peersPrivateIPs =
     (let inPeers = list_ex (\<lambda>ip. nic_PrivateIP networkInterface = ip) peersPrivateIPs in
      if inPeers
      then Some \<lparr>InstanceID = srv_ID instance, InstanceName = srv_Name instance,
                 NetworkInterfaceID = nic_ID networkInterface,
                 AttachedEIP = nic_AttachedElasticIP networkInterface\<rparr>
      else pickFailOverTarget_interfaces instance networkInterfaces peersPrivateIPs)"

fun pickFailOverTarget_loop ::
  "'w compute \<Rightarrow> Server list \<Rightarrow> string list \<Rightarrow> 'w proc \<Rightarrow> (error + Target) \<times> 'w proc" where
  "pickFailOverTarget_loop P [] peersPrivateIPs st =
     (Inl (errors_New ''no available instance found''), st)"
| "pickFailOverTarget_loop P (instance # instances) peersPrivateIPs st =
     (if srv_Status_ID instance \<noteq> ServerStatusRunning P
      then pickFailOverTarget_loop P instances peersPrivateIPs st
      else (case NetworkInterfaces_List P (srv_ID instance) st of
              (Inl err, st') \<Rightarrow> (Inl err, st')
            | (Inr networkInterfaces, st') \<Rightarrow>
                (case pickFailOverTarget_interfaces instance networkInterfaces peersPrivateIPs of
                   Some target \<Rightarrow> (Inr target, st')
                 | None \<Rightarrow> pickFailOverTarget_loop P instances peersPrivateIPs st')))"

definition pickFailOverTarget ::
  "'w compute \<Rightarrow> string list \<Rightarrow> 'w proc \<Rightarrow> (error + Target) \<times> 'w proc" where
  "pickFailOverTarget P peersPrivateIPs st =
     (case Server_List P st of
        (Inl err, st') \<Rightarrow> (Inl err, st')
      | (Inr instances, st') \<Rightarrow> pickFailOverTarget_loop P instances peersPrivateIPs st')"

definition main_peers ::
  "('ip, 'net) stdlib \<Rightarrow> 'w compute \<Rightarrow> string \<Rightarrow> string \<Rightarrow> string \<Rightarrow> 'w \<Rightarrow> nat \<times> 'w proc" where
  "main_peers L P flagToken flagEIP flagIPs w =
     failOnErr (checkFlagToken flagToken, start w) (\<lambda>token st.
     failOnErr (checkFlagEIP L flagEIP, st) (\<lambda>haEIP st.
     failOnErr (checkFlagIPs L flagIPs, st) (\<lambda>haPeerIPs st.
     failOnErr (findElasticIPID P haEIP st) (\<lambda>elasticIP st.
     let st = slog_Info (found_message elasticIP) st in
     failOnErr (service_Detach P (att_ID (eip_Attachment elasticIP)) (eip_ID elasticIP) st) (\<lambda>_ st.
     let st = slog_Info (detached_message elasticIP) st;
         candidatePrivateIPs = filterPeers haPeerIPs (eip_PrivateIP elasticIP) in
     failOnErr (pickFailOverTarget P candidatePrivateIPs st) (\<lambda>target st.
     let st = slog_Info (''picked target instance '' @ quoted (InstanceName target)
                @ '' with id '' @ quoted (fmt_int (InstanceID target)) @ '' for failover'') st in
     failOnErr (prepareTarget P target (InstanceID target) st) (\<lambda>_ st.
     failOnErr (service_Attach P (InstanceID target) (eip_ID elasticIP)
                  (NetworkInterfaceID target) st) (\<lambda>_ st.
     (0, slog_Info (attached_message elasticIP target) st)))))))))"

section \<open>The entry points, from the command line\<close>

text \<open>
  The three \<open>main\<close> functions from their first line: the flags are declared, \<open>flag.Parse\<close>
  reads the command line, and either it ends the process or the rest of \<open>main\<close> runs on
  the values of the three flags.
\<close>

definition init_flags :: "Flag list" where
  "init_flags =
     [flag_StringVar ''token'' [] ''MyFlow API token'',
      flag_StringVar ''eip'' [] ''High-Availability Elastic IP'',
      flag_StringVar ''instance_ids'' [] ''High-Availability Instance IDs (comma-separated)'']"

definition program ::
  "('ip, 'net) stdlib \<Rightarrow> 'w compute \<Rightarrow> string \<Rightarrow> string list \<Rightarrow> 'w \<Rightarrow> nat \<times> 'w proc" where
  "program L P prog args w =
     (case flag_Parse L init_flags prog args of
        os_Exit code text \<Rightarrow> (code, \<lparr>world = w, calls = [], stderr = map TEXT text\<rparr>)
      | flag_set actual \<Rightarrow>
          main L P (flag_value init_flags actual ''token'') (flag_value init_flags actual ''eip'')
            (flag_value init_flags actual ''instance_ids'') w)"

definition init_flags_ip :: "Flag list" where
  "init_flags_ip =
     [flag_StringVar ''token'' [] ''MyFlow API token'',
      flag_StringVar ''eip'' [] ''High-Availability Elastic IP'',
      flag_StringVar ''ip'' [] ''Instance Private IP'']"

definition program_ip ::
  "('ip, 'net) stdlib \<Rightarrow> 'w compute \<Rightarrow> string \<Rightarrow> string list \<Rightarrow> 'w \<Rightarrow> nat \<times> 'w proc" where
  "program_ip L P prog args w =
     (case flag_Parse L init_flags_ip prog args of
        os_Exit code text \<Rightarrow> (code, \<lparr>world = w, calls = [], stderr = map TEXT text\<rparr>)
      | flag_set actual \<Rightarrow>
          main_ip L P (flag_value init_flags_ip actual ''token'')
            (flag_value init_flags_ip actual ''eip'') (flag_value init_flags_ip actual ''ip'') w)"

definition init_flags_peers :: "Flag list" where
  "init_flags_peers =
     [flag_StringVar ''token'' [] ''MyFlow API token'',
      flag_StringVar ''eip'' [] ''High-Availability Elastic IP'',
      flag_StringVar ''peers'' [] ''High-Availability Instance Private IPs (comma-separated)'']"

definition program_peers ::
  "('ip, 'net) stdlib \<Rightarrow> 'w compute \<Rightarrow> string \<Rightarrow> string list \<Rightarrow> 'w \<Rightarrow> nat \<times> 'w proc" where
  "program_peers L P prog args w =
     (case flag_Parse L init_flags_peers prog args of
        os_Exit code text \<Rightarrow> (code, \<lparr>world = w, calls = [], stderr = map TEXT text\<rparr>)
      | flag_set actual \<Rightarrow>
          main_peers L P (flag_value init_flags_peers actual ''token'')
            (flag_value init_flags_peers actual ''eip'')
            (flag_value init_flags_peers actual ''peers'') w)"

section \<open>Traces, outcomes and provider facts\<close>

text \<open>
  The vocabulary of the theorems.  A call changes the provider's state when it is a detach
  or an attach; an event of the trace succeeded when it carries no error.
\<close>

fun mutation :: "call \<Rightarrow> bool" where
  "mutation (Detach s e) = True"
| "mutation (Attach s e n) = True"
| "mutation c = False"

fun is_Attach :: "call \<Rightarrow> bool" where
  "is_Attach (Attach s e n) = True"
| "is_Attach c = False"

fun is_ERROR :: "log_line \<Rightarrow> bool" where
  "is_ERROR (ERROR msg) = True"
| "is_ERROR (INFO msg) = False"
| "is_ERROR (TEXT line) = False"

definition succeeded :: "call \<times> error option \<Rightarrow> bool" where
  "succeeded ev = (snd ev = None)"

definition reads :: "(call \<times> error option) list \<Rightarrow> bool" where
  "reads evs = list_all (\<lambda>ev. \<not> mutation (fst ev)) evs"

text \<open>
  The events of one step, against its result: no event but the last failed; when the step
  returned a value none failed; when it returned an error and its last call failed, the
  error is that call's.
\<close>

definition settled :: "error + 'a \<Rightarrow> (call \<times> error option) list \<Rightarrow> bool" where
  "settled r evs =
     (list_all succeeded (butlast evs)
      \<and> (case r of
            Inr v \<Rightarrow> list_all succeeded evs
          | Inl err \<Rightarrow> evs = [] \<or> snd (last evs) = None \<or> snd (last evs) = Some err))"

text \<open>A step that only reads: same provider state, same error stream, more events.\<close>

definition frame :: "'w proc \<Rightarrow> (error + 'a) \<times> 'w proc \<Rightarrow> bool" where
  "frame st res =
     (world (snd res) = world st \<and> stderr (snd res) = stderr st
      \<and> (\<exists>evs. calls (snd res) = calls st @ evs \<and> reads evs \<and> settled (fst res) evs))"

text \<open>Any step before the attach: it may log progress, and it issues no attach.\<close>

definition step :: "'w proc \<Rightarrow> (error + 'a) \<times> 'w proc \<Rightarrow> bool" where
  "step st res =
     ((\<exists>infos. stderr (snd res) = stderr st @ infos \<and> list_all (\<lambda>l. \<not> is_ERROR l) infos)
      \<and> (\<exists>evs. calls (snd res) = calls st @ evs \<and> settled (fst res) evs
             \<and> list_all (\<lambda>ev. \<not> is_Attach (fst ev)) evs))"

text \<open>A run still going: every call so far succeeded, none an attach, no error line.\<close>

definition going :: "'w proc \<Rightarrow> bool" where
  "going st =
     (list_all (\<lambda>ev. succeeded ev \<and> \<not> is_Attach (fst ev)) (calls st)
      \<and> list_all (\<lambda>l. \<not> is_ERROR l) (stderr st))"

definition attached :: "'w proc \<Rightarrow> bool" where
  "attached st = list_ex (\<lambda>ev. is_Attach (fst ev) \<and> succeeded ev) (calls st)"

definition already_attached :: "'w proc \<Rightarrow> bool" where
  "already_attached st =
     (stderr st \<noteq> [] \<and> last (stderr st) = INFO ''elastic ip already attached to target instance'')"

text \<open>
  How a run may end: either with status 0, no error line and every call succeeded, having
  done what counts as success; or with status 1, one error line, the last line, no call
  after a failed one, and no attach done.
\<close>

definition fail_fast :: "('w proc \<Rightarrow> bool) \<Rightarrow> nat \<times> 'w proc \<Rightarrow> bool" where
  "fail_fast success res =
     (list_all succeeded (butlast (calls (snd res)))
      \<and> (fst res = 0 \<and> list_all (\<lambda>l. \<not> is_ERROR l) (stderr (snd res))
            \<and> list_all succeeded (calls (snd res)) \<and> success (snd res)
          \<or> fst res = 1
            \<and> (\<exists>infos msg. stderr (snd res) = infos @ [ERROR msg]
                  \<and> list_all (\<lambda>l. \<not> is_ERROR l) infos
                  \<and> (\<forall>c err. calls (snd res) \<noteq> [] \<and> last (calls (snd res)) = (c, Some err)
                        \<longrightarrow> msg = Error err))
            \<and> \<not> attached (snd res)))"

text \<open>
  A run that ends with status 1 in the provider state \<open>w\<close>, after the calls \<open>tr\<close> and
  the progress lines \<open>infos\<close>, its last line the error \<open>msg\<close>.
\<close>

definition aborted ::
  "'w \<Rightarrow> (call \<times> error option) list \<Rightarrow> string list \<Rightarrow> string \<Rightarrow> nat \<times> 'w proc" where
  "aborted w tr infos msg = (1, \<lparr>world = w, calls = tr, stderr = map INFO infos @ [ERROR msg]\<rparr>)"

text \<open>The token is given, and the address of the elastic IP is given and parses.\<close>

definition flags_ok :: "('ip, 'net) stdlib \<Rightarrow> string \<Rightarrow> string \<Rightarrow> bool" where
  "flags_ok L flagToken flagEIP =
     (flagToken \<noteq> [] \<and> flagEIP \<noteq> [] \<and> net_ParseIP L flagEIP \<noteq> None)"

text \<open>
  The run gets past the checks of the token and of the elastic IP's address, and the
  locator returns \<open>elasticIP\<close> in the provider state \<open>w\<close>.
\<close>

definition located ::
  "('ip, 'net) stdlib \<Rightarrow> 'w compute \<Rightarrow> string \<Rightarrow> string \<Rightarrow> 'w \<Rightarrow> ElasticIP \<Rightarrow> bool" where
  "located L P flagToken flagEIP w elasticIP =
     (flagToken \<noteq> [] \<and> flagEIP \<noteq> [] \<and> net_ParseIP L flagEIP \<noteq> None
      \<and> (case ElasticIPService_List P w of
            Inl msg \<Rightarrow> False
          | Inr eips \<Rightarrow> findElasticIPID_loop eips flagEIP = Inr elasticIP))"

text \<open>
  What the provider says of an instance in state \<open>w\<close>: it answers and the status is
  running; it answers and the status is another one.
\<close>

definition running :: "'w compute \<Rightarrow> 'w \<Rightarrow> int \<Rightarrow> bool" where
  "running P w instanceID =
     (case ServerService_Get P w instanceID of
        Inl msg \<Rightarrow> False
      | Inr server \<Rightarrow> srv_Status_ID server = ServerStatusRunning P)"

definition not_running :: "'w compute \<Rightarrow> 'w \<Rightarrow> int \<Rightarrow> bool" where
  "not_running P w instanceID =
     (case ServerService_Get P w instanceID of
        Inl msg \<Rightarrow> False
      | Inr server \<Rightarrow> srv_Status_ID server \<noteq> ServerStatusRunning P)"

text \<open>
  An interface whose subnet parses and contains the address; one whose subnet parses and
  does not contain it.  An interface whose subnet does not parse is neither.
\<close>

definition in_subnet :: "('ip, 'net) stdlib \<Rightarrow> 'ip \<Rightarrow> NetworkInterface \<Rightarrow> bool" where
  "in_subnet L previousIP nic =
     (case net_ParseCIDR L (nic_Network_CIDR nic) of
        None \<Rightarrow> False
      | Some ipNet \<Rightarrow> net_IPNet_Contains L ipNet previousIP)"

definition outside_subnet :: "('ip, 'net) stdlib \<Rightarrow> 'ip \<Rightarrow> NetworkInterface \<Rightarrow> bool" where
  "outside_subnet L previousIP nic =
     (case net_ParseCIDR L (nic_Network_CIDR nic) of
        None \<Rightarrow> False
      | Some ipNet \<Rightarrow> \<not> net_IPNet_Contains L ipNet previousIP)"

text \<open>
  The target of the instance-ID policy in the words of the specification: the first
  entry of the list, the failed instance left out, that is running and has an interface
  whose subnet contains the previously attached private address.
\<close>

definition spec_eligible ::
  "('ip, 'net) stdlib \<Rightarrow> 'w compute \<Rightarrow> 'w \<Rightarrow> string \<Rightarrow> int \<Rightarrow> bool" where
  "spec_eligible L P w previousPrivateIP instanceID =
     (running P w instanceID
      \<and> (case (NetworkInterfaceService_List P w instanceID, net_ParseIP L previousPrivateIP) of
            (Inr nics, Some previousIP) \<Rightarrow> list_ex (in_subnet L previousIP) nics
          | _ \<Rightarrow> False))"

definition spec_target ::
  "('ip, 'net) stdlib \<Rightarrow> 'w compute \<Rightarrow> 'w \<Rightarrow> int list \<Rightarrow> int \<Rightarrow> string \<Rightarrow> int option" where
  "spec_target L P w candidates failed previousPrivateIP =
     find (spec_eligible L P w previousPrivateIP) (filter (\<lambda>instanceID. instanceID \<noteq> failed) candidates)"

text \<open>
  The order of the calls of a run that reaches the attach: the listing of the elastic
  IPs, the detach of the elastic IP \<open>e\<close>, reads, at most one more detach, the attach of
  \<open>e\<close>.  The stages of a run on its way there: nothing called yet; the elastic IP
  listed; \<open>e\<close> detached and a target being selected; the target prepared.
\<close>

definition optional_detach :: "(call \<times> error option) list \<Rightarrow> bool" where
  "optional_detach prep = (prep = [] \<or> (\<exists>i occupant. prep = [(Detach i occupant, None)]))"

definition ordered :: "(call \<times> error option) list \<Rightarrow> bool" where
  "ordered tr =
     (\<exists>f e rds prep s n outcome.
        tr = (ListElasticIPs, None) # (Detach f e, None) # rds @ prep @ [(Attach s e n, outcome)]
        \<and> reads rds \<and> optional_detach prep)"

definition attach_ordered :: "nat \<times> 'w proc \<Rightarrow> bool" where
  "attach_ordered res =
     (list_ex (\<lambda>ev. is_Attach (fst ev)) (calls (snd res)) \<longrightarrow> ordered (calls (snd res)))"

definition nothing_called :: "'w proc \<Rightarrow> bool" where
  "nothing_called st = (calls st = [])"

definition listed :: "'w proc \<Rightarrow> bool" where
  "listed st = (calls st = [(ListElasticIPs, None)])"

definition detached :: "int \<Rightarrow> 'w proc \<Rightarrow> bool" where
  "detached e st =
     (\<exists>f rds. calls st = (ListElasticIPs, None) # (Detach f e, None) # rds \<and> reads rds)"

definition prepared :: "int \<Rightarrow> 'w proc \<Rightarrow> bool" where
  "prepared e st =
     (\<exists>f rds prep. calls st = (ListElasticIPs, None) # (Detach f e, None) # rds @ prep
        \<and> reads rds \<and> optional_detach prep)"

definition no_attach :: "'w proc \<Rightarrow> bool" where
  "no_attach st = list_all (\<lambda>ev. \<not> is_Attach (fst ev)) (calls st)"

text \<open>
  An instance of the listing that the peer-address policy passes over: it is not running,
  or its interfaces are listed and none has an address of the peer list.
\<close>

definition passed_over :: "'w compute \<Rightarrow> 'w \<Rightarrow> string list \<Rightarrow> Server \<Rightarrow> bool" where
  "passed_over P w peersPrivateIPs server =
     (srv_Status_ID server \<noteq> ServerStatusRunning P
      \<or> (case NetworkInterfaceService_List P w (srv_ID server) of
            Inl msg \<Rightarrow> False
          | Inr nics \<Rightarrow> list_all (\<lambda>nic. nic_PrivateIP nic \<notin> set peersPrivateIPs) nics))"

definition target_of :: "Server \<Rightarrow> NetworkInterface \<Rightarrow> Target" where
  "target_of server nic =
     \<lparr>InstanceID = srv_ID server, InstanceName = srv_Name server,
      NetworkInterfaceID = nic_ID nic, AttachedEIP = nic_AttachedElasticIP nic\<rparr>"

text \<open>The calls of a state begin with the given ones.\<close>

definition begins_with :: "call list \<Rightarrow> 'w proc \<Rightarrow> bool" where
  "begins_with pfx st = (take (length pfx) (map fst (calls st)) = pfx)"

section \<open>Concrete inputs\<close>

text \<open>
  To run the program on concrete inputs the parameters need values.  For the standard
  library: dotted-quad IPv4 addresses, CIDR blocks over them and decimal integers, read
  the way Go reads them (no empty field, no leading zero in an address field, a field at
  most 255, a prefix length at most 32).  IPv6 text is not covered: it is unparsable here.
\<close>

definition is_digit :: "char \<Rightarrow> bool" where
  "is_digit c = (48 \<le> (of_char c :: int) \<and> (of_char c :: int) \<le> 57)"

definition parse_decimal :: "string \<Rightarrow> int option" where
  "parse_decimal s =
     (if s \<noteq> [] \<and> list_all is_digit s
      then Some (foldl (\<lambda>n c. 10 * n + (of_char c - 48)) 0 s)
      else None)"

definition ipv4_field :: "string \<Rightarrow> int option" where
  "ipv4_field s =
     (case parse_decimal s of
        None \<Rightarrow> None
      | Some n \<Rightarrow>
          if 3 < length s \<or> (1 < length s \<and> hd s = CHR ''0'') \<or> 255 < n then None
          else Some n)"

definition ipv4_ParseIP :: "string \<Rightarrow> int list option" where
  "ipv4_ParseIP s =
     (case map ipv4_field (strings_Split s CHR ''.'') of
        [Some a, Some b, Some c, Some d] \<Rightarrow> Some [a, b, c, d]
      | _ \<Rightarrow> None)"

fun ipv4_String :: "int list \<Rightarrow> string" where
  "ipv4_String [] = []"
| "ipv4_String [a] = fmt_int a"
| "ipv4_String (a # b # bs) = fmt_int a @ CHR ''.'' # ipv4_String (b # bs)"

definition ipv4_bits :: "int list \<Rightarrow> int" where
  "ipv4_bits ip = foldl (\<lambda>n b. 256 * n + b) 0 ip"

definition ipv4_ParseCIDR :: "string \<Rightarrow> (int \<times> int) option" where
  "ipv4_ParseCIDR s =
     (case strings_Split s CHR ''/'' of
        [addr, bits] \<Rightarrow>
          (case (ipv4_ParseIP addr, parse_decimal bits) of
             (Some ip, Some n) \<Rightarrow>
               if n \<le> 32 then Some (ipv4_bits ip div 2 ^ nat (32 - n), n) else None
           | _ \<Rightarrow> None)
      | _ \<Rightarrow> None)"

definition ipv4_Contains :: "int \<times> int \<Rightarrow> int list \<Rightarrow> bool" where
  "ipv4_Contains ipNet ip = (ipv4_bits ip div 2 ^ nat (32 - snd ipNet) = fst ipNet)"

definition decimal_Atoi :: "string \<Rightarrow> int option" where
  "decimal_Atoi s =
     (if s \<noteq> [] \<and> hd s = CHR ''-'' then map_option uminus (parse_decimal (tl s))
      else if s \<noteq> [] \<and> hd s = CHR ''+'' then parse_decimal (tl s)
      else parse_decimal s)"

text \<open>
  The \<open>flag\<close> package on string flags, as Go has it.  An argument is a flag when it has
  at least two characters and starts with a minus sign; one or two minus signs are the
  same; the value follows an equals sign or is the next argument; the first argument
  that is not a flag, or the argument \<open>--\<close>, ends the flags.  A flag that is not declared
  is an error, unless it is \<open>-h\<close> or \<open>-help\<close>, which asks for the usage text.  On an
  error the package writes the message and the usage text and ends the process with
  status 2; asked for help, it writes the usage text and ends the process with status 0.
  The usage text names the program and lists the flags in the order of their names, two
  lines for each.
\<close>

datatype flag_error = ErrHelp | failf string

definition flag_split :: "string \<Rightarrow> string \<times> string option" where
  "flag_split name =
     (case name of
        [] \<Rightarrow> ([], None)
      | c # cs \<Rightarrow>
          (case dropWhile (\<lambda>x. x \<noteq> CHR ''='') cs of
             [] \<Rightarrow> (name, None)
           | eq # val \<Rightarrow> (c # takeWhile (\<lambda>x. x \<noteq> CHR ''='') cs, Some val)))"

fun FlagSet_parse ::
  "string list \<Rightarrow> (string \<times> string) list \<Rightarrow> string list
     \<Rightarrow> flag_error + (string \<times> string) list" where
  "FlagSet_parse formal actual [] = Inr actual"
| "FlagSet_parse formal actual (s # args) =
     (if length s < 2 \<or> hd s \<noteq> CHR ''-'' then Inr actual
      else if s = ''--'' then Inr actual
      else
        (let name = (if s ! 1 = CHR ''-'' then drop 2 s else drop 1 s) in
         if name = [] \<or> hd name = CHR ''-'' \<or> hd name = CHR ''=''
         then Inl (failf (''bad flag syntax: '' @ s))
         else if fst (flag_split name) \<notin> set formal
         then (if fst (flag_split name) = ''help'' \<or> fst (flag_split name) = ''h''
               then Inl ErrHelp
               else Inl (failf (''flag provided but not defined: -'' @ fst (flag_split name))))
         else
           (case snd (flag_split name) of
              Some val \<Rightarrow> FlagSet_parse formal ((fst (flag_split name), val) # actual) args
            | None \<Rightarrow>
                (case args of
                   [] \<Rightarrow> Inl (failf (''flag needs an argument: -'' @ fst (flag_split name)))
                 | val # args' \<Rightarrow>
                     FlagSet_parse formal ((fst (flag_split name), val) # actual) args'))))"

fun string_le :: "string \<Rightarrow> string \<Rightarrow> bool" where
  "string_le [] t = True"
| "string_le (c # s) [] = False"
| "string_le (c # s) (d # t) =
     ((of_char c :: nat) < of_char d \<or> (c = d \<and> string_le s t))"

fun insert_Flag :: "Flag \<Rightarrow> Flag list \<Rightarrow> Flag list" where
  "insert_Flag f [] = [f]"
| "insert_Flag f (g # gs) =
     (if string_le (flag_Name f) (flag_Name g) then f # g # gs else g # insert_Flag f gs)"

definition sortFlags :: "Flag list \<Rightarrow> Flag list" where
  "sortFlags formal = foldr insert_Flag formal []"

definition flag_PrintDefaults :: "Flag list \<Rightarrow> string list" where
  "flag_PrintDefaults formal =
     concat (map (\<lambda>f. [''  -'' @ flag_Name f @ '' string'', ''    '' @ [CHR 0x09] @ flag_Usage f])
               (sortFlags formal))"

definition flag_Usage_text :: "Flag list \<Rightarrow> string \<Rightarrow> string list" where
  "flag_Usage_text formal prog = (''Usage of '' @ prog @ '':'') # flag_PrintDefaults formal"

definition go_flag_Parse :: "Flag list \<Rightarrow> string \<Rightarrow> string list \<Rightarrow> flag_outcome" where
  "go_flag_Parse formal prog args =
     (case FlagSet_parse (map flag_Name formal) [] args of
        Inr actual \<Rightarrow> flag_set actual
      | Inl ErrHelp \<Rightarrow> os_Exit 0 (flag_Usage_text formal prog)
      | Inl (failf msg) \<Rightarrow> os_Exit 2 (msg # flag_Usage_text formal prog))"

definition ipv4 :: "(int list, int \<times> int) stdlib" where
  "ipv4 = \<lparr>net_ParseIP = ipv4_ParseIP, net_IP_String = ipv4_String,
           net_ParseCIDR = ipv4_ParseCIDR, net_IPNet_Contains = ipv4_Contains,
           strconv_Atoi = decimal_Atoi, flag_Parse = go_flag_Parse\<rparr>"

text \<open>
  For the provider: a scripted one.  Its state counts the detach and attach calls made so
  far; the listings are tables indexed by that count; every detach and attach succeeds.
  A provider that fails at some call is such a one with that operation replaced.
\<close>

definition scripted ::
  "(nat \<Rightarrow> ElasticIP list) \<Rightarrow> (nat \<Rightarrow> Server list) \<Rightarrow> (nat \<Rightarrow> (int \<times> NetworkInterface list) list)
     \<Rightarrow> nat compute" where
  "scripted eips servers nics =
     \<lparr>ElasticIPService_List = (\<lambda>w. Inr (eips w)),
      ServerService_Get = (\<lambda>w i.
        case find (\<lambda>s. srv_ID s = i) (servers w) of
          None \<Rightarrow> Inl ''server not found'' | Some s \<Rightarrow> Inr s),
      ServerService_List = (\<lambda>w. Inr (servers w)),
      NetworkInterfaceService_List = (\<lambda>w i.
        case map_of (nics w) i of
          None \<Rightarrow> Inl ''server not found'' | Some ns \<Rightarrow> Inr ns),
      ServerElasticIPService_Detach = (\<lambda>w i e. (None, Suc w)),
      ServerElasticIPService_Attach = (\<lambda>w i e n. (None, Suc w)),
      ServerStatusRunning = 1\<rparr>"

definition no_eip :: ElasticIP where
  "no_eip = \<lparr>eip_ID = 0, eip_PublicIP = [], eip_PrivateIP = [],
             eip_Attachment = \<lparr>att_ID = 0, att_Name = []\<rparr>\<rparr>"

text \<open>
  The running example: elastic IP 203.0.113.9 on instance A (id 1, private address
  10.0.0.1); B (id 2) is stopped; C (id 3) runs, with one interface 10.0.0.3 in
  10.0.0.0/24.  A second elastic IP of the account is attached nowhere.
\<close>

definition ha_eip :: ElasticIP where
  "ha_eip = \<lparr>eip_ID = 7, eip_PublicIP = ''203.0.113.9'', eip_PrivateIP = ''10.0.0.1'',
             eip_Attachment = \<lparr>att_ID = 1, att_Name = ''A''\<rparr>\<rparr>"

definition spare_eip :: ElasticIP where
  "spare_eip = \<lparr>eip_ID = 8, eip_PublicIP = ''198.51.100.4'', eip_PrivateIP = [],
                eip_Attachment = \<lparr>att_ID = 0, att_Name = []\<rparr>\<rparr>"

definition servers_ABC :: "Server list" where
  "servers_ABC =
     [\<lparr>srv_ID = 1, srv_Name = ''A'', srv_Status_ID = 1\<rparr>,
      \<lparr>srv_ID = 2, srv_Name = ''B'', srv_Status_ID = 2\<rparr>,
      \<lparr>srv_ID = 3, srv_Name = ''C'', srv_Status_ID = 1\<rparr>]"

definition nic_A :: NetworkInterface where
  "nic_A = \<lparr>nic_ID = 10, nic_PrivateIP = ''10.0.0.1'', nic_Network_CIDR = ''10.0.0.0/24'',
            nic_AttachedElasticIP = no_eip\<rparr>"

definition nic_B :: NetworkInterface where
  "nic_B = \<lparr>nic_ID = 20, nic_PrivateIP = ''10.0.0.2'', nic_Network_CIDR = ''10.0.0.0/24'',
            nic_AttachedElasticIP = no_eip\<rparr>"

definition nic_C :: NetworkInterface where
  "nic_C = \<lparr>nic_ID = 30, nic_PrivateIP = ''10.0.0.3'', nic_Network_CIDR = ''10.0.0.0/24'',
            nic_AttachedElasticIP = no_eip\<rparr>"

definition example :: "nat compute" where
  "example =
     scripted (\<lambda>w. [spare_eip, ha_eip]) (\<lambda>w. servers_ABC)
       (\<lambda>w. [(1, [nic_A]), (2, [nic_B]), (3, [nic_C])])"

text \<open>
  A detour: the candidates are A, D (id 4) and C, all running; D's one interface is in
  192.168.0.0/24, where the elastic IP's private address 10.0.0.1 is not.
\<close>

definition nic_D :: NetworkInterface where
  "nic_D = \<lparr>nic_ID = 40, nic_PrivateIP = ''192.168.0.4'', nic_Network_CIDR = ''192.168.0.0/24'',
            nic_AttachedElasticIP = no_eip\<rparr>"

definition servers_ADC :: "Server list" where
  "servers_ADC =
     [\<lparr>srv_ID = 1, srv_Name = ''A'', srv_Status_ID = 1\<rparr>,
      \<lparr>srv_ID = 4, srv_Name = ''D'', srv_Status_ID = 1\<rparr>,
      \<lparr>srv_ID = 3, srv_Name = ''C'', srv_Status_ID = 1\<rparr>]"

definition detour :: "nat compute" where
  "detour =
     scripted (\<lambda>w. [ha_eip]) (\<lambda>w. servers_ADC)
       (\<lambda>w. [(1, [nic_A]), (4, [nic_D]), (3, [nic_C])])"

text \<open>
  Malformed subnet data: C has two interfaces, and the first one's subnet has the prefix
  length 33.
\<close>

definition nic_malformed :: NetworkInterface where
  "nic_malformed = \<lparr>nic_ID = 31, nic_PrivateIP = ''10.0.0.9'', nic_Network_CIDR = ''10.0.0.0/33'',
                    nic_AttachedElasticIP = no_eip\<rparr>"

definition malformed :: "nat compute" where
  "malformed =
     scripted (\<lambda>w. [spare_eip, ha_eip]) (\<lambda>w. servers_ABC)
       (\<lambda>w. [(1, [nic_A]), (2, [nic_B]), (3, [nic_malformed, nic_C])])"

text \<open>All three instances of the example running.\<close>

definition servers_up :: "Server list" where
  "servers_up =
     [\<lparr>srv_ID = 1, srv_Name = ''A'', srv_Status_ID = 1\<rparr>,
      \<lparr>srv_ID = 2, srv_Name = ''B'', srv_Status_ID = 1\<rparr>,
      \<lparr>srv_ID = 3, srv_Name = ''C'', srv_Status_ID = 1\<rparr>]"

definition all_up :: "nat compute" where
  "all_up =
     scripted (\<lambda>w. [spare_eip, ha_eip]) (\<lambda>w. servers_up)
       (\<lambda>w. [(1, [nic_A]), (2, [nic_B]), (3, [nic_C])])"

text \<open>
  A race: as in the example, but once the elastic IP is detached from A, the interface of
  C is listed with that same elastic IP on it (a peer has moved it there meanwhile).
\<close>

definition ha_eip_on_C :: ElasticIP where
  "ha_eip_on_C = \<lparr>eip_ID = 7, eip_PublicIP = ''203.0.113.9'', eip_PrivateIP = ''10.0.0.3'',
                  eip_Attachment = \<lparr>att_ID = 3, att_Name = ''C''\<rparr>\<rparr>"

definition nic_C_taken :: NetworkInterface where
  "nic_C_taken = nic_C\<lparr>nic_AttachedElasticIP := ha_eip_on_C\<rparr>"

definition raced :: "nat compute" where
  "raced =
     scripted (\<lambda>w. [spare_eip, ha_eip]) (\<lambda>w. servers_ABC)
       (\<lambda>w. [(1, [nic_A]), (2, [nic_B]), (3, [if w = 0 then nic_C else nic_C_taken])])"

text \<open>
  An occupied target: as in the example, but the interface of C carries another elastic
  IP, 198.51.100.9.
\<close>

definition busy_eip :: ElasticIP where
  "busy_eip = \<lparr>eip_ID = 9, eip_PublicIP = ''198.51.100.9'', eip_PrivateIP = ''10.0.0.3'',
               eip_Attachment = \<lparr>att_ID = 3, att_Name = ''C''\<rparr>\<rparr>"

definition busy :: "nat compute" where
  "busy =
     scripted (\<lambda>w. [busy_eip, ha_eip]) (\<lambda>w. servers_ABC)
       (\<lambda>w. [(1, [nic_A]), (2, [nic_B]), (3, [nic_C\<lparr>nic_AttachedElasticIP := busy_eip\<rparr>])])"

text \<open>
  The elastic IP already on C, at 10.0.0.3.  And a twin: the elastic IP on C, and an
  instance D whose interface has the same private address 10.0.0.3 in a network of the
  same range.
\<close>

definition moved :: "nat compute" where
  "moved =
     scripted (\<lambda>w. [ha_eip_on_C]) (\<lambda>w. servers_ABC)
       (\<lambda>w. [(1, [nic_A]), (2, [nic_B]), (3, [nic_C_taken])])"

definition nic_twin :: NetworkInterface where
  "nic_twin = \<lparr>nic_ID = 41, nic_PrivateIP = ''10.0.0.3'', nic_Network_CIDR = ''10.0.0.0/24'',
               nic_AttachedElasticIP = no_eip\<rparr>"

definition twin :: "nat compute" where
  "twin =
     scripted (\<lambda>w. [ha_eip_on_C]) (\<lambda>w. servers_ADC)
       (\<lambda>w. [(1, [nic_A]), (4, [nic_twin]), (3, [nic_C_taken])])"

text \<open>
  A provider that refuses to detach an elastic IP from the instance 0, that is, an
  elastic IP that is attached nowhere, and is the running example otherwise.
\<close>

definition strict :: "nat compute" where
  "strict =
     example\<lparr>ServerElasticIPService_Detach :=
       (\<lambda>w i e. if i = 0 then (Some ''elastic ip is not attached'', w) else (None, Suc w))\<rparr>"

section \<open>Reasoning about steps and traces\<close>

subsection \<open>The locator\<close>

lemma findElasticIPID_loop_first:
  "\<forall>x\<in>set pre. eip_PublicIP x \<noteq> eip \<Longrightarrow> eip_PublicIP item = eip
    \<Longrightarrow> findElasticIPID_loop (pre @ item # post) eip = Inr item"
  by (induction pre) auto

lemma findElasticIPID_loop_not_found:
  "findElasticIPID_loop items eip = Inl e
     \<longleftrightarrow> e = errors_New ''elastic ip not found'' \<and> (\<forall>item\<in>set items. eip_PublicIP item \<noteq> eip)"
  by (induction items) auto

lemma findElasticIPID_unfold:
  "findElasticIPID P eip st =
     (case ElasticIPService_List P (world st) of
        Inl msg \<Rightarrow>
          (Inl (ProviderError msg),
           st\<lparr>calls := calls st @ [(ListElasticIPs, Some (ProviderError msg))]\<rparr>)
      | Inr items \<Rightarrow>
          (findElasticIPID_loop items eip, st\<lparr>calls := calls st @ [(ListElasticIPs, None)]\<rparr>))"
  by (simp add: findElasticIPID_def ElasticIP_List_def observe_def split: sum.splits)

subsection \<open>Steps that only read\<close>

lemma failOnErr_Inl [simp]: "failOnErr (Inl err, st) rest = (1, slog_Error (Error err) st)"
  by (simp add: failOnErr_def)

lemma failOnErr_Inr [simp]: "failOnErr (Inr v, st) rest = rest v st"
  by (simp add: failOnErr_def)

lemmas read_unfold =
  ElasticIP_List_def Server_Get_def Server_List_def NetworkInterfaces_List_def

lemma reads_Nil [simp]: "reads []"
  by (simp add: reads_def)

lemma reads_Cons [simp]: "reads (ev # evs) \<longleftrightarrow> \<not> mutation (fst ev) \<and> reads evs"
  by (simp add: reads_def)

lemma reads_append [simp]: "reads (xs @ ys) \<longleftrightarrow> reads xs \<and> reads ys"
  by (simp add: reads_def)

lemma settled_Nil [simp]: "settled r []"
  by (simp add: settled_def split: sum.splits)

lemma settled_single_ok [simp]: "settled r [(c, None)]"
  by (simp add: settled_def succeeded_def split: sum.splits)

lemma settled_single_err [simp]: "settled (Inl e) [(c, Some e)]"
  by (simp add: settled_def)

lemma list_all_butlast: "list_all Q xs \<Longrightarrow> list_all Q (butlast xs)"
  by (induction xs) auto

lemma list_all_last: "list_all Q xs \<Longrightarrow> xs \<noteq> [] \<Longrightarrow> Q (last xs)"
  by (induction xs) auto

lemma settled_all: "list_all succeeded evs \<Longrightarrow> settled r evs"
  using list_all_last [of succeeded evs]
  by (auto simp: settled_def list_all_butlast succeeded_def split: sum.splits)

lemma settled_Inr [simp]: "settled (Inr v) evs \<longleftrightarrow> list_all succeeded evs"
  by (auto simp: settled_def list_all_butlast)

lemma settled_append:
  assumes "list_all succeeded xs" "settled r ys"
  shows "settled r (xs @ ys)"
proof (cases "ys = []")
  case True
  with assms show ?thesis by (simp add: settled_all)
next
  case False
  with assms show ?thesis
    by (auto simp: settled_def butlast_append split: sum.splits)
qed

lemma settled_Inl:
  "settled (Inl e :: error + 'a) evs \<Longrightarrow> settled (Inl e :: error + 'b) evs"
  by (simp add: settled_def)

lemma frame_refl [simp]: "frame st (r, st)"
  by (simp add: frame_def)

lemma frame_observe [simp]: "\<not> mutation c \<Longrightarrow> frame st (observe c r st)"
  by (simp add: frame_def observe_def succeeded_def split: sum.splits)

lemma frame_trans:
  assumes "frame st (Inr v, st1)" "frame st1 res"
  shows "frame st res"
proof -
  from assms(1) obtain xs where xs: "world st1 = world st" "stderr st1 = stderr st"
      "calls st1 = calls st @ xs" "reads xs" "list_all succeeded xs"
    by (auto simp: frame_def)
  from assms(2) obtain ys where ys: "world (snd res) = world st1" "stderr (snd res) = stderr st1"
      "calls (snd res) = calls st1 @ ys" "reads ys" "settled (fst res) ys"
    by (auto simp: frame_def)
  from xs ys have "calls (snd res) = calls st @ (xs @ ys)" "reads (xs @ ys)" "settled (fst res) (xs @ ys)"
    by (simp_all add: settled_append)
  with xs ys show ?thesis unfolding frame_def by metis
qed

lemma frame_Inl:
  "frame st (Inl e :: error + 'a, st') \<Longrightarrow> frame st (Inl e :: error + 'b, st')"
  by (simp add: frame_def settled_def)

lemma frame_Inr:
  "frame st (Inr v :: error + 'a, st') \<Longrightarrow> frame st (r :: error + 'b, st')"
  by (auto simp: frame_def settled_all)

lemma pickNextInstance_frame: "frame st (pickNextInstance P ids u st)"
proof (induction P ids u st rule: pickNextInstance.induct)
  case (1 P u st)
  show ?case by simp
next
  case (2 P i ids u st)
  have obs: "frame st (Server_Get P i st)"
    by (simp add: Server_Get_def)
  show ?case
  proof (cases "i = u")
    case True
    with 2 show ?thesis by simp
  next
    case False
    obtain r st1 where r: "Server_Get P i st = (r, st1)" by (cases "Server_Get P i st")
    show ?thesis
    proof (cases r)
      case (Inl err)
      with False r obs show ?thesis by (auto intro: frame_Inl)
    next
      case (Inr s)
      show ?thesis
      proof (cases "srv_Status_ID s = ServerStatusRunning P")
        case True
        with False Inr r obs show ?thesis by (auto intro: frame_Inr)
      next
        case ns: False
        from 2(2) [OF False r [symmetric]] Inr ns
        have "frame st1 (pickNextInstance P ids u st1)" by simp
        with obs r Inr have "frame st (pickNextInstance P ids u st1)"
          by (auto intro: frame_trans)
        with False r Inr ns show ?thesis by simp
      qed
    qed
  qed
qed


lemma findElasticIPID_frame: "frame st (findElasticIPID P eip st)"
proof -
  have obs: "frame st (ElasticIP_List P st)" by (simp add: ElasticIP_List_def)
  obtain r st1 where r: "ElasticIP_List P st = (r, st1)" by (cases "ElasticIP_List P st")
  with obs show ?thesis
    by (cases r) (auto simp: findElasticIPID_def intro: frame_Inl frame_Inr)
qed

lemma pickNetworkInterface_frame: "frame st (pickNetworkInterface L P i prev st)"
proof -
  have obs: "frame st (NetworkInterfaces_List P i st)" by (simp add: NetworkInterfaces_List_def)
  obtain r st1 where r: "NetworkInterfaces_List P i st = (r, st1)"
    by (cases "NetworkInterfaces_List P i st")
  with obs show ?thesis
    by (cases r) (auto simp: pickNetworkInterface_def intro: frame_Inl frame_Inr split: option.splits)
qed

lemma findFailOverTarget_loop_frame: "frame st (findFailOverTarget_loop P insts privateIP st)"
proof (induction insts arbitrary: st)
  case Nil
  show ?case by simp
next
  case (Cons inst insts)
  have obs: "frame st (NetworkInterfaces_List P (srv_ID inst) st)"
    by (simp add: NetworkInterfaces_List_def)
  obtain r st1 where r: "NetworkInterfaces_List P (srv_ID inst) st = (r, st1)"
    by (cases "NetworkInterfaces_List P (srv_ID inst) st")
  show ?case
  proof (cases "srv_Status_ID inst \<noteq> ServerStatusRunning P")
    case True
    with Cons show ?thesis by simp
  next
    case False
    show ?thesis
    proof (cases r)
      case (Inl err)
      with False r obs show ?thesis by (auto intro: frame_Inl)
    next
      case (Inr nics)
      show ?thesis
      proof (cases "findFailOverTarget_interfaces inst nics privateIP")
        case None
        from obs r Inr Cons.IH [of st1]
        have "frame st (findFailOverTarget_loop P insts privateIP st1)"
          by (auto intro: frame_trans)
        with False r Inr None show ?thesis by simp
      next
        case (Some target)
        with False r Inr obs show ?thesis by (auto intro: frame_Inr)
      qed
    qed
  qed
qed

lemma findFailOverTarget_frame: "frame st (findFailOverTarget P privateIP st)"
proof -
  have obs: "frame st (Server_List P st)" by (simp add: Server_List_def)
  obtain r st1 where r: "Server_List P st = (r, st1)" by (cases "Server_List P st")
  show ?thesis
  proof (cases r)
    case (Inl err)
    with r obs show ?thesis by (auto simp: findFailOverTarget_def intro: frame_Inl)
  next
    case (Inr insts)
    with r obs findFailOverTarget_loop_frame [of st1 P insts privateIP] show ?thesis
      by (auto simp: findFailOverTarget_def intro: frame_trans)
  qed
qed

lemma pickFailOverTarget_loop_frame: "frame st (pickFailOverTarget_loop P insts peers st)"
proof (induction insts arbitrary: st)
  case Nil
  show ?case by simp
next
  case (Cons inst insts)
  have obs: "frame st (NetworkInterfaces_List P (srv_ID inst) st)"
    by (simp add: NetworkInterfaces_List_def)
  obtain r st1 where r: "NetworkInterfaces_List P (srv_ID inst) st = (r, st1)"
    by (cases "NetworkInterfaces_List P (srv_ID inst) st")
  show ?case
  proof (cases "srv_Status_ID inst \<noteq> ServerStatusRunning P")
    case True
    with Cons show ?thesis by simp
  next
    case False
    show ?thesis
    proof (cases r)
      case (Inl err)
      with False r obs show ?thesis by (auto intro: frame_Inl)
    next
      case (Inr nics)
      show ?thesis
      proof (cases "pickFailOverTarget_interfaces inst nics peers")
        case None
        from obs r Inr Cons.IH [of st1]
        have "frame st (pickFailOverTarget_loop P insts peers st1)"
          by (auto intro: frame_trans)
        with False r Inr None show ?thesis by simp
      next
        case (Some target)
        with False r Inr obs show ?thesis by (auto intro: frame_Inr)
      qed
    qed
  qed
qed

lemma pickFailOverTarget_frame: "frame st (pickFailOverTarget P peers st)"
proof -
  have obs: "frame st (Server_List P st)" by (simp add: Server_List_def)
  obtain r st1 where r: "Server_List P st = (r, st1)" by (cases "Server_List P st")
  show ?thesis
  proof (cases r)
    case (Inl err)
    with r obs show ?thesis by (auto simp: pickFailOverTarget_def intro: frame_Inl)
  next
    case (Inr insts)
    with r obs pickFailOverTarget_loop_frame [of st1 P insts peers] show ?thesis
      by (auto simp: pickFailOverTarget_def intro: frame_trans)
  qed
qed


subsection \<open>Detach, attach and the error stream\<close>

lemma service_Detach_unfold:
  "service_Detach P s e st =
     (case ServerElasticIPService_Detach P (world st) s e of
        (None, w') \<Rightarrow> (Inr (), st\<lparr>world := w', calls := calls st @ [(Detach s e, None)]\<rparr>)
      | (Some msg, w') \<Rightarrow>
          (Inl (ProviderError msg),
           st\<lparr>world := w', calls := calls st @ [(Detach s e, Some (ProviderError msg))]\<rparr>))"
  by (simp add: service_Detach_def mutate_def)

lemma service_Attach_unfold:
  "service_Attach P s e n st =
     (case ServerElasticIPService_Attach P (world st) s e n of
        (None, w') \<Rightarrow> (Inr (), st\<lparr>world := w', calls := calls st @ [(Attach s e n, None)]\<rparr>)
      | (Some msg, w') \<Rightarrow>
          (Inl (ProviderError msg),
           st\<lparr>world := w', calls := calls st @ [(Attach s e n, Some (ProviderError msg))]\<rparr>))"
  by (simp add: service_Attach_def mutate_def)

lemma not_mutation_not_Attach: "\<not> mutation c \<Longrightarrow> \<not> is_Attach c"
  by (cases c) auto

lemma reads_not_Attach: "reads evs \<Longrightarrow> list_all (\<lambda>ev. \<not> is_Attach (fst ev)) evs"
  by (induction evs) (auto simp: not_mutation_not_Attach)

lemma frame_step: "frame st res \<Longrightarrow> step st res"
  by (auto simp: frame_def step_def reads_not_Attach)

lemma step_pure: "step st (r, st)"
  by (simp add: step_def)

lemma step_Detach: "step st (service_Detach P s e st)"
  by (simp add: step_def service_Detach_unfold succeeded_def split: prod.splits option.splits)

lemma step_prepareTarget: "step st (prepareTarget P target service st)"
  by (simp add: step_def prepareTarget_def service_Detach_unfold slog_Info_def succeeded_def
           split: prod.splits option.splits)

lemma step_prepare_inline:
  "step st (if occupied
            then (case service_Detach P s e st of
                    (r, st') \<Rightarrow> (r, if isl r then st' else slog_Info msg st'))
            else (Inr (), st))"
  by (auto simp: step_def service_Detach_unfold slog_Info_def succeeded_def
           split: prod.splits option.splits)

lemmas step_reads =
  frame_step [OF findElasticIPID_frame] frame_step [OF pickNextInstance_frame]
  frame_step [OF pickNetworkInterface_frame] frame_step [OF findFailOverTarget_frame]
  frame_step [OF pickFailOverTarget_frame]

lemma going_start: "going (start w)"
  by (simp add: going_def start_def)

lemma going_slog_Info: "going st \<Longrightarrow> going (slog_Info msg st)"
  by (simp add: going_def slog_Info_def)

lemma attached_slog_Info [simp]: "attached (slog_Info msg st) = attached st"
  by (simp add: attached_def slog_Info_def)

lemma list_all_conj: "list_all (\<lambda>x. Q x \<and> R x) xs \<longleftrightarrow> list_all Q xs \<and> list_all R xs"
  by (induction xs) auto

lemma going_step:
  assumes "going st" "step st (Inr v, st')"
  shows "going st'"
  using assms by (auto simp: going_def step_def list_all_conj)

subsection \<open>Every exit of a run is fail-fast\<close>

lemma abort_fail_fast:
  assumes "going st" "step st (Inl err :: error + 'v, st')"
  shows "fail_fast success (1, slog_Error (Error err) st')"
proof -
  from assms(2) obtain infos evs where s: "stderr st' = stderr st @ infos"
     "list_all (\<lambda>l. \<not> is_ERROR l) infos" "calls st' = calls st @ evs"
     "settled (Inl err :: error + 'v) evs" "list_all (\<lambda>ev. \<not> is_Attach (fst ev)) evs"
    by (auto simp: step_def)
  from assms(1) have g: "list_all succeeded (calls st)"
     "list_all (\<lambda>ev. \<not> is_Attach (fst ev)) (calls st)"
     "list_all (\<lambda>l. \<not> is_ERROR l) (stderr st)"
    by (simp_all add: going_def list_all_conj)
  from g(1) s(4) have "settled (Inl err :: error + 'v) (calls st @ evs)"
    by (rule settled_append)
  with s(3) have st: "settled (Inl err :: error + 'v) (calls st')" by simp
  then have 1: "list_all succeeded (butlast (calls st'))"
    by (simp add: settled_def)
  have 2: "\<not> attached st'"
    using s g by (auto simp: attached_def list_ex_iff list_all_iff)
  have 3: "\<forall>c e. calls st' \<noteq> [] \<and> last (calls st') = (c, Some e) \<longrightarrow> Error err = Error e"
    using st by (auto simp: settled_def)
  from 1 2 3 s g show ?thesis
    by (simp add: fail_fast_def slog_Error_def attached_def)
qed

lemma failOnErr_going:
  assumes "step st r" "going st" "\<And>v st'. going st' \<Longrightarrow> fail_fast success (rest v st')"
  shows "fail_fast success (failOnErr r rest)"
proof (cases r)
  case (Pair x st')
  show ?thesis
  proof (cases x)
    case (Inl err)
    from Pair assms(1) have s: "step st (x, st')" by simp
    from assms(2) s [unfolded Inl] have "fail_fast success (1, slog_Error (Error err) st')"
      by (rule abort_fail_fast)
    with Pair Inl show ?thesis by (simp add: failOnErr_def)
  next
    case (Inr v)
    with Pair assms(1,2) have "going st'" by (auto dest: going_step [rotated])
    with Pair Inr assms(3) show ?thesis by (simp add: failOnErr_def)
  qed
qed

lemma attach_fail_fast:
  assumes "going st" "\<And>st'. attached st' \<Longrightarrow> success (slog_Info msg st')"
  shows "fail_fast success (failOnErr (service_Attach P s e n st) (\<lambda>u st. (0, slog_Info msg st)))"
proof -
  from assms(1) have g: "list_all succeeded (calls st)"
     "list_all (\<lambda>ev. \<not> is_Attach (fst ev)) (calls st)"
     "list_all (\<lambda>l. \<not> is_ERROR l) (stderr st)"
    by (simp_all add: going_def list_all_conj)
  obtain r w' where r: "ServerElasticIPService_Attach P (world st) s e n = (r, w')"
    by (cases "ServerElasticIPService_Attach P (world st) s e n")
  show ?thesis
  proof (cases r)
    case None
    let ?st = "st\<lparr>world := w', calls := calls st @ [(Attach s e n, None)]\<rparr>"
    have "attached ?st" by (simp add: attached_def succeeded_def)
    then have "success (slog_Info msg ?st)" by (rule assms(2))
    with None r g show ?thesis
      by (simp add: failOnErr_def service_Attach_unfold fail_fast_def slog_Info_def succeeded_def)
  next
    case (Some m)
    with r g show ?thesis
      by (auto simp: failOnErr_def service_Attach_unfold fail_fast_def slog_Error_def
            attached_def succeeded_def list_ex_iff list_all_iff)
  qed
qed

lemma noop_fail_fast:
  assumes "going st" "success (slog_Info msg st)"
  shows "fail_fast success (0, slog_Info msg st)"
  using assms by (simp add: fail_fast_def going_def list_all_conj slog_Info_def list_all_butlast)

lemma main_fail_fast: "fail_fast attached (main L P flagToken flagEIP flagInstances w)"
  unfolding main_def Let_def
  apply (rule failOnErr_going, rule step_pure, rule going_start)
  apply (rule failOnErr_going, rule step_pure, assumption)
  apply (rule failOnErr_going, rule step_pure, assumption)
  apply (rule failOnErr_going, rule step_reads, assumption)
  apply (rule failOnErr_going, rule step_Detach, erule going_slog_Info)
  apply (rule failOnErr_going, rule step_reads, erule going_slog_Info)
  apply (rule failOnErr_going, rule step_reads, erule going_slog_Info)
  apply (rule failOnErr_going, rule step_prepare_inline, erule going_slog_Info)
  apply (rule attach_fail_fast, assumption)
  apply simp
  done

lemma main_peers_fail_fast: "fail_fast attached (main_peers L P flagToken flagEIP flagIPs w)"
  unfolding main_peers_def Let_def
  apply (rule failOnErr_going, rule step_pure, rule going_start)
  apply (rule failOnErr_going, rule step_pure, assumption)
  apply (rule failOnErr_going, rule step_pure, assumption)
  apply (rule failOnErr_going, rule step_reads, assumption)
  apply (rule failOnErr_going, rule step_Detach, erule going_slog_Info)
  apply (rule failOnErr_going, rule step_reads, erule going_slog_Info)
  apply (rule failOnErr_going, rule step_prepareTarget, erule going_slog_Info)
  apply (rule attach_fail_fast, assumption)
  apply simp
  done

lemma main_ip_fail_fast:
  "fail_fast (\<lambda>st. attached st \<or> already_attached st) (main_ip L P flagToken flagEIP flagIP w)"
  unfolding main_ip_def Let_def
  apply (rule failOnErr_going, rule step_pure, rule going_start)
  apply (rule failOnErr_going, rule step_pure, assumption)
  apply (rule failOnErr_going, rule step_pure, assumption)
  apply (rule failOnErr_going, rule step_reads, assumption)
  apply (split if_split, intro conjI impI)
   apply (rule noop_fail_fast, erule going_slog_Info)
   apply (simp add: already_attached_def slog_Info_def)
  apply (rule failOnErr_going, rule step_Detach, erule going_slog_Info)
  apply (rule failOnErr_going, rule step_reads, erule going_slog_Info)
  apply (rule failOnErr_going, rule step_prepareTarget, erule going_slog_Info)
  apply (rule attach_fail_fast, assumption)
  apply simp
  done

section \<open>The selection functions\<close>

lemma Server_Get_unfold:
  "Server_Get P i st =
     (case ServerService_Get P (world st) i of
        Inl msg \<Rightarrow>
          (Inl (ProviderError msg),
           st\<lparr>calls := calls st @ [(GetServer i, Some (ProviderError msg))]\<rparr>)
      | Inr s \<Rightarrow> (Inr s, st\<lparr>calls := calls st @ [(GetServer i, None)]\<rparr>))"
  by (simp add: Server_Get_def observe_def split: sum.splits)

lemma NetworkInterfaces_List_unfold:
  "NetworkInterfaces_List P i st =
     (case NetworkInterfaceService_List P (world st) i of
        Inl msg \<Rightarrow>
          (Inl (ProviderError msg),
           st\<lparr>calls := calls st @ [(ListNetworkInterfaces i, Some (ProviderError msg))]\<rparr>)
      | Inr ns \<Rightarrow> (Inr ns, st\<lparr>calls := calls st @ [(ListNetworkInterfaces i, None)]\<rparr>))"
  by (simp add: NetworkInterfaces_List_def observe_def split: sum.splits)

lemma Server_List_unfold:
  "Server_List P st =
     (case ServerService_List P (world st) of
        Inl msg \<Rightarrow>
          (Inl (ProviderError msg), st\<lparr>calls := calls st @ [(ListServers, Some (ProviderError msg))]\<rparr>)
      | Inr ss \<Rightarrow> (Inr ss, st\<lparr>calls := calls st @ [(ListServers, None)]\<rparr>))"
  by (simp add: Server_List_def observe_def split: sum.splits)

subsection \<open>pickNextInstance\<close>

lemma pickNextInstance_skips:
  assumes "\<forall>j\<in>set pre. j = u \<or> not_running P (world st) j"
  shows "pickNextInstance P (pre @ rest) u st =
           pickNextInstance P rest u
             (st\<lparr>calls := calls st @ map (\<lambda>j. (GetServer j, None)) (filter (\<lambda>j. j \<noteq> u) pre)\<rparr>)"
  using assms
proof (induction pre arbitrary: st)
  case Nil
  then show ?case by simp
next
  case (Cons a pre)
  show ?case
  proof (cases "a = u")
    case True
    with Cons show ?thesis by simp
  next
    case False
    with Cons.prems obtain s where s: "ServerService_Get P (world st) a = Inr s"
        "srv_Status_ID s \<noteq> ServerStatusRunning P"
      by (auto simp: not_running_def split: sum.splits)
    let ?st = "st\<lparr>calls := calls st @ [(GetServer a, None)]\<rparr>"
    have "\<forall>j\<in>set pre. j = u \<or> not_running P (world ?st) j"
      using Cons.prems by simp
    from Cons.IH [OF this] False s show ?thesis
      by (simp add: Server_Get_unfold)
  qed
qed

lemma pickNextInstance_running:
  assumes "i \<noteq> u" "running P (world st) i"
  shows "pickNextInstance P (i # post) u st = (Inr i, st\<lparr>calls := calls st @ [(GetServer i, None)]\<rparr>)"
  using assms by (auto simp: Server_Get_unfold running_def split: sum.splits)

lemma pickNextInstance_first_running:
  assumes "\<forall>j\<in>set pre. j = u \<or> not_running P (world st) j" "i \<noteq> u" "running P (world st) i"
  shows "pickNextInstance P (pre @ i # post) u st =
           (Inr i, st\<lparr>calls := calls st
              @ map (\<lambda>j. (GetServer j, None)) (filter (\<lambda>j. j \<noteq> u) pre @ [i])\<rparr>)"
proof -
  let ?st = "st\<lparr>calls := calls st
               @ map (\<lambda>j. (GetServer j, None)) (filter (\<lambda>j. j \<noteq> u) pre)\<rparr>"
  have "pickNextInstance P (pre @ i # post) u st = pickNextInstance P (i # post) u ?st"
    by (rule pickNextInstance_skips [OF assms(1)])
  also from assms(2,3) have "\<dots> = (Inr i, ?st\<lparr>calls := calls ?st @ [(GetServer i, None)]\<rparr>)"
    by (intro pickNextInstance_running) simp_all
  finally show ?thesis by simp
qed

lemma pickNextInstance_none:
  assumes "\<forall>j\<in>set ids. j = u \<or> not_running P (world st) j"
  shows "pickNextInstance P ids u st =
           (Inl (errors_New ''no available instance found''),
            st\<lparr>calls := calls st @ map (\<lambda>j. (GetServer j, None)) (filter (\<lambda>j. j \<noteq> u) ids)\<rparr>)"
  using pickNextInstance_skips [OF assms, of "[]"] by simp

lemma pickNextInstance_Inr:
  assumes "pickNextInstance P ids u st = (Inr i, st')"
  shows "\<exists>pre post. ids = pre @ i # post \<and> i \<noteq> u
           \<and> (\<forall>j\<in>set pre. j = u \<or> not_running P (world st) j) \<and> running P (world st) i"
  using assms
proof (induction ids arbitrary: st)
  case Nil
  then show ?case by simp
next
  case (Cons a ids)
  show ?case
  proof (cases "a = u")
    case True
    with Cons.prems have "pickNextInstance P ids u st = (Inr i, st')" by simp
    from Cons.IH [OF this] obtain pre post where
      "ids = pre @ i # post" "i \<noteq> u" "\<forall>j\<in>set pre. j = u \<or> not_running P (world st) j"
      "running P (world st) i" by blast
    with True show ?thesis
      by (intro exI [of _ "a # pre"] exI [of _ post]) simp
  next
    case False
    show ?thesis
    proof (cases "ServerService_Get P (world st) a")
      case (Inl msg)
      with False Cons.prems show ?thesis by (simp add: Server_Get_unfold)
    next
      case (Inr s)
      show ?thesis
      proof (cases "srv_Status_ID s = ServerStatusRunning P")
        case True
        with False Inr Cons.prems have "a = i" by (simp add: Server_Get_unfold)
        with False Inr True show ?thesis
          by (intro exI [of _ "[]"] exI [of _ ids]) (simp add: running_def)
      next
        case ns: False
        let ?st = "st\<lparr>calls := calls st @ [(GetServer a, None)]\<rparr>"
        from False Inr ns Cons.prems have "pickNextInstance P ids u ?st = (Inr i, st')"
          by (simp add: Server_Get_unfold)
        from Cons.IH [OF this] obtain pre post where
          "ids = pre @ i # post" "i \<noteq> u" "\<forall>j\<in>set pre. j = u \<or> not_running P (world st) j"
          "running P (world st) i" by auto
        with False Inr ns show ?thesis
          by (intro exI [of _ "a # pre"] exI [of _ post]) (simp add: not_running_def)
      qed
    qed
  qed
qed

subsection \<open>pickNetworkInterface\<close>

lemma pickNetworkInterface_unfold:
  "pickNetworkInterface L P i prev st =
     (case NetworkInterfaceService_List P (world st) i of
        Inl msg \<Rightarrow>
          (Inl (ProviderError msg),
           st\<lparr>calls := calls st @ [(ListNetworkInterfaces i, Some (ProviderError msg))]\<rparr>)
      | Inr nics \<Rightarrow>
          (case net_ParseIP L prev of
             None \<Rightarrow> Inl (errors_New ''invalid private IP'')
           | Some ip \<Rightarrow> pickNetworkInterface_loop L nics ip,
           st\<lparr>calls := calls st @ [(ListNetworkInterfaces i, None)]\<rparr>))"
  by (simp add: pickNetworkInterface_def NetworkInterfaces_List_unfold split: sum.splits option.splits)

lemma pickNetworkInterface_loop_first:
  "\<forall>x\<in>set pre. outside_subnet L ip x \<Longrightarrow> in_subnet L ip nic
     \<Longrightarrow> pickNetworkInterface_loop L (pre @ nic # post) ip = Inr nic"
  by (induction pre) (auto simp: outside_subnet_def in_subnet_def split: option.splits)

lemma pickNetworkInterface_loop_invalid:
  "\<forall>x\<in>set pre. outside_subnet L ip x \<Longrightarrow> net_ParseCIDR L (nic_Network_CIDR nic) = None
     \<Longrightarrow> pickNetworkInterface_loop L (pre @ nic # post) ip = Inl (errors_New ''invalid CIDR'')"
  by (induction pre) (auto simp: outside_subnet_def split: option.splits)

lemma pickNetworkInterface_loop_none:
  "\<forall>x\<in>set nics. outside_subnet L ip x
     \<Longrightarrow> pickNetworkInterface_loop L nics ip =
           Inl (errors_New ''no network interface in same network as previous private ip found'')"
  by (induction nics) (auto simp: outside_subnet_def split: option.splits)

lemma pickNetworkInterface_loop_Inr:
  "pickNetworkInterface_loop L nics ip = Inr nic
     \<Longrightarrow> \<exists>pre post. nics = pre @ nic # post \<and> (\<forall>x\<in>set pre. outside_subnet L ip x)
           \<and> in_subnet L ip nic"
proof (induction nics)
  case Nil
  then show ?case by simp
next
  case (Cons a nics)
  show ?case
  proof (cases "in_subnet L ip a")
    case True
    with Cons.prems have "a = nic"
      by (auto simp: in_subnet_def split: option.splits)
    with True show ?thesis by (intro exI [of _ "[]"] exI [of _ nics]) simp
  next
    case False
    with Cons.prems have o: "outside_subnet L ip a" and r: "pickNetworkInterface_loop L nics ip = Inr nic"
      by (auto simp: in_subnet_def outside_subnet_def split: option.splits if_splits)
    from Cons.IH [OF r] obtain pre post where
      "nics = pre @ nic # post" "\<forall>x\<in>set pre. outside_subnet L ip x" "in_subnet L ip nic" by blast
    with o show ?thesis by (intro exI [of _ "a # pre"] exI [of _ post]) simp
  qed
qed

section \<open>The order of the calls\<close>

lemma no_attach_nothing: "nothing_called st \<Longrightarrow> no_attach st"
  by (simp add: nothing_called_def no_attach_def)

lemma no_attach_listed: "listed st \<Longrightarrow> no_attach st"
  by (simp add: listed_def no_attach_def)

lemma no_attach_detached: "detached e st \<Longrightarrow> no_attach st"
  by (auto simp: detached_def no_attach_def reads_not_Attach)

lemma no_attach_prepared: "prepared e st \<Longrightarrow> no_attach st"
  by (auto simp: prepared_def no_attach_def optional_detach_def reads_not_Attach)

lemma stage_slog_Info [simp]:
  "nothing_called (slog_Info msg st) = nothing_called st"
  "listed (slog_Info msg st) = listed st"
  "detached e (slog_Info msg st) = detached e st"
  "prepared e (slog_Info msg st) = prepared e st"
  "no_attach (slog_Info msg st) = no_attach st"
  by (simp_all add: nothing_called_def listed_def detached_def prepared_def no_attach_def slog_Info_def)

lemma nothing_called_start: "nothing_called (start w)"
  by (simp add: nothing_called_def start_def)

lemma listed_locate:
  "nothing_called st \<Longrightarrow> findElasticIPID P x st = (Inr eip, st') \<Longrightarrow> listed st'"
  by (auto simp: nothing_called_def listed_def findElasticIPID_unfold split: sum.splits)

lemma detached_Detach:
  "listed st \<Longrightarrow> service_Detach P f e st = (Inr u, st') \<Longrightarrow> detached e st'"
  by (auto simp: listed_def detached_def service_Detach_unfold split: prod.splits option.splits)

lemma detached_frame:
  "detached e st \<Longrightarrow> frame st (Inr v, st') \<Longrightarrow> detached e st'"
  by (auto simp: detached_def frame_def)

lemma prepareTarget_Inr:
  "prepareTarget P t svc st = (Inr u, st') \<Longrightarrow> \<exists>prep. calls st' = calls st @ prep \<and> optional_detach prep"
  by (auto simp: prepareTarget_def service_Detach_unfold slog_Info_def optional_detach_def
           split: prod.splits option.splits if_splits)

lemma prepare_inline_Inr:
  "(if occupied
    then (case service_Detach P s x st of
            (r, st') \<Rightarrow> (r, if isl r then st' else slog_Info msg st'))
    else (Inr (), st)) = (Inr u, st')
   \<Longrightarrow> \<exists>prep. calls st' = calls st @ prep \<and> optional_detach prep"
  by (auto simp: service_Detach_unfold slog_Info_def optional_detach_def
           split: prod.splits option.splits if_splits)

lemma prepared_append:
  assumes "detached e st" "calls st' = calls st @ prep" "optional_detach prep"
  shows "prepared e st'"
proof -
  from assms(1) obtain f rds where
    "calls st = (ListElasticIPs, None) # (Detach f e, None) # rds" "reads rds"
    by (auto simp: detached_def)
  with assms(2,3) have "calls st' = (ListElasticIPs, None) # (Detach f e, None) # rds @ prep
      \<and> reads rds \<and> optional_detach prep" by simp
  then show ?thesis unfolding prepared_def by blast
qed

lemma prepared_prepareTarget:
  "detached e st \<Longrightarrow> prepareTarget P t svc st = (Inr u, st') \<Longrightarrow> prepared e st'"
  by (auto dest!: prepareTarget_Inr intro: prepared_append)

lemma prepared_inline:
  "detached e st \<Longrightarrow>
   (if occupied
    then (case service_Detach P s x st of
            (r, st') \<Rightarrow> (r, if isl r then st' else slog_Info msg st'))
    else (Inr (), st)) = (Inr u, st') \<Longrightarrow> prepared e st'"
  by (auto dest!: prepare_inline_Inr intro: prepared_append)

lemma list_ex_not_all: "list_all (\<lambda>x. \<not> Q x) xs \<Longrightarrow> \<not> list_ex Q xs"
  by (induction xs) auto

lemma attach_ordered_no_attach: "no_attach st \<Longrightarrow> attach_ordered (c, slog_Info msg st)"
  by (simp add: attach_ordered_def no_attach_def slog_Info_def list_ex_not_all)

lemma attach_ordered_abort:
  assumes "no_attach st" "step st (Inl err :: error + 'v, st')"
  shows "attach_ordered (c, slog_Error msg st')"
proof -
  from assms have "list_all (\<lambda>ev. \<not> is_Attach (fst ev)) (calls st')"
    by (auto simp: no_attach_def step_def)
  then show ?thesis
    by (simp add: attach_ordered_def slog_Error_def list_ex_not_all)
qed

lemma failOnErr_ordered:
  assumes "step st r" "no_attach st" "\<And>v st'. r = (Inr v, st') \<Longrightarrow> attach_ordered (rest v st')"
  shows "attach_ordered (failOnErr r rest)"
proof (cases r)
  case (Pair x st')
  show ?thesis
  proof (cases x)
    case (Inl err)
    from Pair assms(1) have s: "step st (x, st')" by simp
    from assms(2) s [unfolded Inl] have "attach_ordered (1, slog_Error (Error err) st')"
      by (rule attach_ordered_abort)
    with Pair Inl show ?thesis by (simp add: failOnErr_def)
  next
    case (Inr v)
    with Pair assms(3) show ?thesis by (simp add: failOnErr_def)
  qed
qed

lemma attach_ordered_Attach:
  assumes "prepared e st"
  shows "attach_ordered (failOnErr (service_Attach P s e n st) (\<lambda>u st. (0, slog_Info msg st)))"
proof -
  from assms obtain f rds prep where
    c: "calls st = (ListElasticIPs, None) # (Detach f e, None) # rds @ prep"
       "reads rds" "optional_detach prep"
    by (auto simp: prepared_def)
  obtain r w' where r: "ServerElasticIPService_Attach P (world st) s e n = (r, w')"
    by (cases "ServerElasticIPService_Attach P (world st) s e n")
  have "ordered (calls st @ [(Attach s e n, outcome)])" for outcome
    unfolding ordered_def using c by auto
  with r show ?thesis
    by (cases r) (simp_all add: attach_ordered_def failOnErr_def service_Attach_unfold
         slog_Info_def slog_Error_def)
qed

lemma to_frame:
  "pickNextInstance P ids u st = (r1, st1) \<Longrightarrow> frame st (r1, st1)"
  "pickNetworkInterface L P i prev st = (r2, st2) \<Longrightarrow> frame st (r2, st2)"
  "findFailOverTarget P ip st = (r3, st3) \<Longrightarrow> frame st (r3, st3)"
  "pickFailOverTarget P peers st = (r3, st4) \<Longrightarrow> frame st (r3, st4)"
  using pickNextInstance_frame [of st P ids u] pickNetworkInterface_frame [of st L P i prev]
    findFailOverTarget_frame [of st P ip] pickFailOverTarget_frame [of st P peers]
  by simp_all

lemma main_peers_ordered: "attach_ordered (main_peers L P flagToken flagEIP flagIPs w)"
  unfolding main_peers_def Let_def
  apply (rule failOnErr_ordered, rule step_pure, rule no_attach_nothing, rule nothing_called_start)
  apply (rule failOnErr_ordered, rule step_pure, simp add: no_attach_nothing nothing_called_start)
  apply (rule failOnErr_ordered, rule step_pure, simp add: no_attach_nothing nothing_called_start)
  apply (rule failOnErr_ordered, rule step_reads, simp add: no_attach_nothing nothing_called_start)
  apply (clarsimp)
  apply (drule listed_locate [rotated], rule nothing_called_start)
  apply (rule failOnErr_ordered, rule step_Detach, simp add: no_attach_listed)
  apply (drule detached_Detach [rotated], simp)
  apply (rule failOnErr_ordered, rule step_reads, simp add: no_attach_detached)
  apply (drule to_frame, drule detached_frame [rotated], simp)
  apply (rule failOnErr_ordered, rule step_prepareTarget, simp add: no_attach_detached)
  apply (drule prepared_prepareTarget [rotated], simp)
  apply (erule attach_ordered_Attach)
  done

lemma main_ordered: "attach_ordered (main L P flagToken flagEIP flagInstances w)"
  unfolding main_def Let_def
  apply (rule failOnErr_ordered, rule step_pure, rule no_attach_nothing, rule nothing_called_start)
  apply (rule failOnErr_ordered, rule step_pure, simp add: no_attach_nothing nothing_called_start)
  apply (rule failOnErr_ordered, rule step_pure, simp add: no_attach_nothing nothing_called_start)
  apply (rule failOnErr_ordered, rule step_reads, simp add: no_attach_nothing nothing_called_start)
  apply (clarsimp)
  apply (drule listed_locate [rotated], rule nothing_called_start)
  apply (rule failOnErr_ordered, rule step_Detach, simp add: no_attach_listed)
  apply (drule detached_Detach [rotated], simp)
  apply (rule failOnErr_ordered, rule step_reads, simp add: no_attach_detached)
  apply (drule to_frame, drule detached_frame [rotated], simp)
  apply (rule failOnErr_ordered, rule step_reads, simp add: no_attach_detached)
  apply (drule to_frame, drule detached_frame [rotated], simp)
  apply (rule failOnErr_ordered, rule step_prepare_inline, simp add: no_attach_detached)
  apply (drule prepared_inline [rotated], simp)
  apply (erule attach_ordered_Attach)
  done

lemma main_ip_ordered: "attach_ordered (main_ip L P flagToken flagEIP flagIP w)"
  unfolding main_ip_def Let_def
  apply (rule failOnErr_ordered, rule step_pure, rule no_attach_nothing, rule nothing_called_start)
  apply (rule failOnErr_ordered, rule step_pure, simp add: no_attach_nothing nothing_called_start)
  apply (rule failOnErr_ordered, rule step_pure, simp add: no_attach_nothing nothing_called_start)
  apply (rule failOnErr_ordered, rule step_reads, simp add: no_attach_nothing nothing_called_start)
  apply (clarsimp split del: if_split)
  apply (drule listed_locate [rotated], rule nothing_called_start)
  apply (split if_split, intro conjI impI)
   apply (rule attach_ordered_no_attach, simp add: no_attach_listed)
  apply (rule failOnErr_ordered, rule step_Detach, simp add: no_attach_listed)
  apply (drule detached_Detach [rotated], simp)
  apply (rule failOnErr_ordered, rule step_reads, simp add: no_attach_detached)
  apply (drule to_frame, drule detached_frame [rotated], simp)
  apply (rule failOnErr_ordered, rule step_prepareTarget, simp add: no_attach_detached)
  apply (drule prepared_prepareTarget [rotated], simp)
  apply (erule attach_ordered_Attach)
  done

section \<open>Runs that get past the locator\<close>

lemma located_flags:
  assumes "located L P flagToken flagEIP w eip"
  shows "checkFlagToken flagToken = Inr flagToken" "checkFlagEIP L flagEIP = Inr flagEIP"
    "findElasticIPID P flagEIP (start w) =
       (Inr eip, \<lparr>world = w, calls = [(ListElasticIPs, None)], stderr = []\<rparr>)"
  using assms
  by (auto simp: located_def checkFlagToken_def checkFlagEIP_def findElasticIPID_unfold start_def
           split: sum.splits option.splits)

lemma fail_fast_summary:
  assumes ff: "fail_fast success res"
    and success: "\<And>st. success st \<Longrightarrow> attached st \<or> already_attached st"
  shows "(fst res = 0 \<or> fst res = 1)
    \<and> list_all succeeded (butlast (calls (snd res)))
    \<and> (fst res = 1 \<longleftrightarrow> (\<exists>infos msg. stderr (snd res) = infos @ [ERROR msg]
                              \<and> list_all (\<lambda>l. \<not> is_ERROR l) infos))
    \<and> (fst res = 0 \<longleftrightarrow> list_all (\<lambda>l. \<not> is_ERROR l) (stderr (snd res)))
    \<and> (\<forall>c err. calls (snd res) \<noteq> [] \<and> last (calls (snd res)) = (c, Some err)
           \<longrightarrow> fst res = 1 \<and> last (stderr (snd res)) = ERROR (Error err))
    \<and> (fst res = 0 \<longleftrightarrow> attached (snd res) \<or> already_attached (snd res))
    \<and> (fst res = 0 \<longrightarrow> list_all succeeded (calls (snd res)))"
proof -
  from ff have bl: "list_all succeeded (butlast (calls (snd res)))"
    by (simp add: fail_fast_def)
  from ff have "fst res = 0 \<and> list_all (\<lambda>l. \<not> is_ERROR l) (stderr (snd res))
        \<and> list_all succeeded (calls (snd res)) \<and> success (snd res)
      \<or> fst res = 1
        \<and> (\<exists>infos msg. stderr (snd res) = infos @ [ERROR msg]
              \<and> list_all (\<lambda>l. \<not> is_ERROR l) infos
              \<and> (\<forall>c err. calls (snd res) \<noteq> [] \<and> last (calls (snd res)) = (c, Some err)
                    \<longrightarrow> msg = Error err))
        \<and> \<not> attached (snd res)"
    by (simp add: fail_fast_def)
  then consider
      (ok) "fst res = 0" "list_all (\<lambda>l. \<not> is_ERROR l) (stderr (snd res))"
        "list_all succeeded (calls (snd res))" "success (snd res)"
    | (failed) infos msg where "fst res = 1" "stderr (snd res) = infos @ [ERROR msg]"
        "list_all (\<lambda>l. \<not> is_ERROR l) infos"
        "\<forall>c err. calls (snd res) \<noteq> [] \<and> last (calls (snd res)) = (c, Some err) \<longrightarrow> msg = Error err"
        "\<not> attached (snd res)"
    by (elim disjE conjE exE) blast+
  then show ?thesis
  proof cases
    case ok
    from ok(3) have "\<And>c err. calls (snd res) \<noteq> [] \<Longrightarrow> last (calls (snd res)) \<noteq> (c, Some err)"
      using list_all_last [of succeeded "calls (snd res)"] by (auto simp: succeeded_def)
    moreover from ok(2) have "\<not> (\<exists>infos msg. stderr (snd res) = infos @ [ERROR msg])"
      by auto
    moreover from ok(4) have "attached (snd res) \<or> already_attached (snd res)"
      by (rule success)
    ultimately show ?thesis using ok bl by auto
  next
    case failed
    from failed(2) have "\<not> already_attached (snd res)" "\<not> list_all (\<lambda>l. \<not> is_ERROR l) (stderr (snd res))"
      by (simp_all add: already_attached_def)
    with failed bl show ?thesis by auto
  qed
qed

subsection \<open>Instance-ID list: runs that fail in the selection\<close>

lemma main_no_interface:
  assumes loc: "located L P flagToken flagEIP w eip"
    and ids: "checkFlagInstances L flagInstances = Inr (pre @ i # post)"
    and det: "ServerElasticIPService_Detach P w (att_ID (eip_Attachment eip)) (eip_ID eip) = (None, w')"
    and pre: "\<forall>j\<in>set pre. j = att_ID (eip_Attachment eip) \<or> not_running P w' j"
    and i: "i \<noteq> att_ID (eip_Attachment eip)" "running P w' i"
    and nics: "NetworkInterfaceService_List P w' i = Inr nics"
    and ip: "net_ParseIP L (eip_PrivateIP eip) = Some ip"
    and out: "\<forall>x\<in>set nics. outside_subnet L ip x"
  shows "fst (main L P flagToken flagEIP flagInstances w) = 1
     \<and> last (stderr (snd (main L P flagToken flagEIP flagInstances w)))
         = ERROR ''no network interface in same network as previous private ip found''
     \<and> map fst (calls (snd (main L P flagToken flagEIP flagInstances w)))
         = [ListElasticIPs, Detach (att_ID (eip_Attachment eip)) (eip_ID eip)]
           @ map GetServer (filter (\<lambda>j. j \<noteq> att_ID (eip_Attachment eip)) pre)
           @ [GetServer i, ListNetworkInterfaces i]"
  using ids det pre i nics ip out
  by (simp add: main_def located_flags [OF loc] Let_def service_Detach_unfold slog_Info_def
        pickNextInstance_first_running pickNetworkInterface_unfold pickNetworkInterface_loop_none
        slog_Error_def comp_def)

lemma main_invalid_CIDR:
  assumes loc: "located L P flagToken flagEIP w eip"
    and ids: "checkFlagInstances L flagInstances = Inr (pre @ i # post)"
    and det: "ServerElasticIPService_Detach P w (att_ID (eip_Attachment eip)) (eip_ID eip) = (None, w')"
    and pre: "\<forall>j\<in>set pre. j = att_ID (eip_Attachment eip) \<or> not_running P w' j"
    and i: "i \<noteq> att_ID (eip_Attachment eip)" "running P w' i"
    and nics: "NetworkInterfaceService_List P w' i = Inr (npre @ nic # npost)"
    and ip: "net_ParseIP L (eip_PrivateIP eip) = Some ip"
    and out: "\<forall>x\<in>set npre. outside_subnet L ip x"
    and bad: "net_ParseCIDR L (nic_Network_CIDR nic) = None"
  shows "fst (main L P flagToken flagEIP flagInstances w) = 1
     \<and> last (stderr (snd (main L P flagToken flagEIP flagInstances w))) = ERROR ''invalid CIDR''
     \<and> map fst (calls (snd (main L P flagToken flagEIP flagInstances w)))
         = [ListElasticIPs, Detach (att_ID (eip_Attachment eip)) (eip_ID eip)]
           @ map GetServer (filter (\<lambda>j. j \<noteq> att_ID (eip_Attachment eip)) pre)
           @ [GetServer i, ListNetworkInterfaces i]"
  using ids det pre i nics ip out bad
  by (simp add: main_def located_flags [OF loc] Let_def service_Detach_unfold slog_Info_def
        pickNextInstance_first_running pickNetworkInterface_unfold pickNetworkInterface_loop_invalid
        slog_Error_def comp_def)

lemma main_only_failed:
  assumes loc: "located L P flagToken flagEIP w eip"
    and ids: "checkFlagInstances L flagInstances = Inr only"
    and only: "set only \<subseteq> {att_ID (eip_Attachment eip)}"
    and det: "ServerElasticIPService_Detach P w (att_ID (eip_Attachment eip)) (eip_ID eip) = (None, w')"
  shows "fst (main L P flagToken flagEIP flagInstances w) = 1
     \<and> last (stderr (snd (main L P flagToken flagEIP flagInstances w)))
         = ERROR ''no available instance found''
     \<and> map fst (calls (snd (main L P flagToken flagEIP flagInstances w)))
         = [ListElasticIPs, Detach (att_ID (eip_Attachment eip)) (eip_ID eip)]"
proof -
  from only have a: "\<forall>j\<in>set only. j = att_ID (eip_Attachment eip) \<or> not_running P w' j" for w'
    by auto
  from only have f: "filter (\<lambda>j. j \<noteq> att_ID (eip_Attachment eip)) only = []"
    by (auto simp: filter_empty_conv)
  from ids det a f show ?thesis
    by (simp add: main_def located_flags [OF loc] Let_def service_Detach_unfold slog_Info_def
        pickNextInstance_none slog_Error_def)
qed

lemma main_unparsable:
  assumes loc: "located L P flagToken flagEIP w eip"
    and ids: "checkFlagInstances L flagInstances = Inr ids"
    and ip: "net_ParseIP L (eip_PrivateIP eip) = None"
  shows "fst (main L P flagToken flagEIP flagInstances w) = 1
    \<and> (\<exists>outcome rest.
          calls (snd (main L P flagToken flagEIP flagInstances w))
            = (ListElasticIPs, None)
              # (Detach (att_ID (eip_Attachment eip)) (eip_ID eip), outcome) # rest
          \<and> reads rest)"
proof -
  let ?st0 = "\<lparr>world = w, calls = [(ListElasticIPs, None)], stderr = [INFO (found_message eip)]\<rparr>"
  let ?f = "att_ID (eip_Attachment eip)"
  note m = main_def located_flags [OF loc] ids Let_def
  obtain o1 w1 where d: "ServerElasticIPService_Detach P w ?f (eip_ID eip) = (o1, w1)"
    by (cases "ServerElasticIPService_Detach P w ?f (eip_ID eip)")
  show ?thesis
  proof (cases o1)
    case (Some msg)
    with d show ?thesis
      by (simp add: m service_Detach_unfold slog_Error_def slog_Info_def)
  next
    case None
    let ?st1 = "?st0\<lparr>world := w1, calls := calls ?st0 @ [(Detach ?f (eip_ID eip), None)]\<rparr>"
    let ?st1' = "slog_Info (detached_message eip) ?st1"
    obtain r2 st2 where p: "pickNextInstance P ids ?f ?st1' = (r2, st2)"
      by (cases "pickNextInstance P ids ?f ?st1'")
    from to_frame(1) [OF p] obtain evs where
      evs: "calls st2 = calls ?st1' @ evs" "reads evs"
      by (auto simp: frame_def)
    show ?thesis
    proof (cases r2)
      case (Inl err)
      with d None p evs show ?thesis
        by (simp add: m service_Detach_unfold slog_Error_def slog_Info_def)
    next
      case (Inr i)
      let ?st2' = "slog_Info (''picked next available instance with id '' @ quoted (fmt_int i)) st2"
      obtain r3 st3 where n: "pickNetworkInterface L P i (eip_PrivateIP eip) ?st2' = (r3, st3)"
        by (cases "pickNetworkInterface L P i (eip_PrivateIP eip) ?st2'")
      from to_frame(2) [OF n] obtain evs' where
        evs': "calls st3 = calls ?st2' @ evs'" "reads evs'"
        by (auto simp: frame_def)
      from n ip obtain err where "r3 = Inl err"
        by (auto simp: pickNetworkInterface_unfold split: sum.splits)
      with d None p Inr n evs evs' show ?thesis
        by (simp add: m service_Detach_unfold slog_Error_def slog_Info_def)
    qed
  qed
qed

subsection \<open>Instance-ID list: when the selection succeeds\<close>

lemma not_running_not_running: "not_running P w j \<Longrightarrow> \<not> running P w j"
  by (simp add: not_running_def running_def split: sum.splits)

lemma find_first:
  "\<forall>x\<in>set xs. \<not> Q x \<Longrightarrow> Q y \<Longrightarrow> find Q (xs @ y # ys) = Some y"
  by (induction xs) auto

lemma pickNetworkInterface_Inr:
  assumes "pickNetworkInterface L P i prev st = (Inr nic, st')"
  shows "\<exists>npre npost ip. NetworkInterfaceService_List P (world st) i = Inr (npre @ nic # npost)
           \<and> net_ParseIP L prev = Some ip
           \<and> (\<forall>x\<in>set npre. outside_subnet L ip x) \<and> in_subnet L ip nic"
proof -
  from assms obtain nics ip where
    l: "NetworkInterfaceService_List P (world st) i = Inr nics" "net_ParseIP L prev = Some ip"
       "pickNetworkInterface_loop L nics ip = Inr nic"
    by (auto simp: pickNetworkInterface_unfold split: sum.splits option.splits)
  from pickNetworkInterface_loop_Inr [OF l(3)] l(1,2) show ?thesis by blast
qed

lemma spec_target_first:
  assumes "\<forall>j\<in>set pre. j = failed \<or> not_running P w j" "i \<noteq> failed"
    and "spec_eligible L P w prev i"
  shows "spec_target L P w (pre @ i # post) failed prev = Some i"
proof -
  have "\<forall>x\<in>set (filter (\<lambda>j. j \<noteq> failed) pre). \<not> spec_eligible L P w prev x"
    using assms(1) by (auto simp: spec_eligible_def dest: not_running_not_running)
  from find_first [OF this assms(3)] assms(2) show ?thesis
    by (simp add: spec_target_def)
qed

section \<open>The peer-address policy\<close>

lemma filterPeers_filter: "filterPeers peers banned = filter (\<lambda>ip. ip \<noteq> banned) peers"
  by (induction peers) auto

lemma pickFailOverTarget_interfaces_None:
  "pickFailOverTarget_interfaces server nics peers = None
     \<longleftrightarrow> list_all (\<lambda>nic. nic_PrivateIP nic \<notin> set peers) nics"
  by (induction nics) (auto simp: list_ex_iff)

lemma pickFailOverTarget_interfaces_Some:
  "pickFailOverTarget_interfaces server nics peers = Some t
     \<Longrightarrow> \<exists>npre nic npost. nics = npre @ nic # npost \<and> nic_PrivateIP nic \<in> set peers
           \<and> (\<forall>x\<in>set npre. nic_PrivateIP x \<notin> set peers) \<and> t = target_of server nic"
proof (induction nics)
  case Nil
  then show ?case by simp
next
  case (Cons a nics)
  show ?case
  proof (cases "nic_PrivateIP a \<in> set peers")
    case True
    with Cons.prems have "t = target_of server a"
      by (auto simp: list_ex_iff target_of_def)
    with True show ?thesis by (intro exI [of _ "[]"] exI [of _ a] exI [of _ nics]) simp
  next
    case False
    with Cons.prems have "pickFailOverTarget_interfaces server nics peers = Some t"
      by (auto simp: list_ex_iff)
    from Cons.IH [OF this] obtain npre nic npost where
      "nics = npre @ nic # npost" "nic_PrivateIP nic \<in> set peers"
      "\<forall>x\<in>set npre. nic_PrivateIP x \<notin> set peers" "t = target_of server nic" by blast
    with False show ?thesis
      by (intro exI [of _ "a # npre"] exI [of _ nic] exI [of _ npost]) simp
  qed
qed

lemma pickFailOverTarget_loop_Inr:
  assumes "pickFailOverTarget_loop P insts peers st = (Inr t, st')"
  shows "\<exists>ipre server ipost nics. insts = ipre @ server # ipost
           \<and> srv_Status_ID server = ServerStatusRunning P
           \<and> NetworkInterfaceService_List P (world st) (srv_ID server) = Inr nics
           \<and> pickFailOverTarget_interfaces server nics peers = Some t
           \<and> (\<forall>j\<in>set ipre. passed_over P (world st) peers j)"
  using assms
proof (induction insts arbitrary: st)
  case Nil
  then show ?case by simp
next
  case (Cons a insts)
  show ?case
  proof (cases "srv_Status_ID a \<noteq> ServerStatusRunning P")
    case True
    with Cons.prems have "pickFailOverTarget_loop P insts peers st = (Inr t, st')" by simp
    from Cons.IH [OF this] obtain ipre server ipost nics where
      "insts = ipre @ server # ipost" "srv_Status_ID server = ServerStatusRunning P"
      "NetworkInterfaceService_List P (world st) (srv_ID server) = Inr nics"
      "pickFailOverTarget_interfaces server nics peers = Some t"
      "\<forall>j\<in>set ipre. passed_over P (world st) peers j" by blast
    with True show ?thesis
      by (intro exI [of _ "a # ipre"] exI [of _ server] exI [of _ ipost] exI [of _ nics])
         (simp add: passed_over_def)
  next
    case False
    show ?thesis
    proof (cases "NetworkInterfaceService_List P (world st) (srv_ID a)")
      case (Inl msg)
      with False Cons.prems show ?thesis by (simp add: NetworkInterfaces_List_unfold)
    next
      case (Inr ns)
      show ?thesis
      proof (cases "pickFailOverTarget_interfaces a ns peers")
        case (Some t')
        with False Inr Cons.prems have "t' = t" by (simp add: NetworkInterfaces_List_unfold)
        with False Inr Some show ?thesis
          by (intro exI [of _ "[]"] exI [of _ a] exI [of _ insts] exI [of _ ns]) simp
      next
        case None
        let ?st = "st\<lparr>calls := calls st @ [(ListNetworkInterfaces (srv_ID a), None)]\<rparr>"
        from False Inr None Cons.prems
        have "pickFailOverTarget_loop P insts peers ?st = (Inr t, st')"
          by (simp add: NetworkInterfaces_List_unfold)
        from Cons.IH [OF this] obtain ipre server ipost nics where
          "insts = ipre @ server # ipost" "srv_Status_ID server = ServerStatusRunning P"
          "NetworkInterfaceService_List P (world st) (srv_ID server) = Inr nics"
          "pickFailOverTarget_interfaces server nics peers = Some t"
          "\<forall>j\<in>set ipre. passed_over P (world st) peers j" by auto
        with Inr None show ?thesis
          by (intro exI [of _ "a # ipre"] exI [of _ server] exI [of _ ipost] exI [of _ nics])
             (simp add: passed_over_def pickFailOverTarget_interfaces_None)
      qed
    qed
  qed
qed

lemma pickFailOverTarget_Inr:
  assumes "fst (pickFailOverTarget P peers st) = Inr t"
  shows "\<exists>ipre server ipost npre nic npost.
           ServerService_List P (world st) = Inr (ipre @ server # ipost)
           \<and> srv_Status_ID server = ServerStatusRunning P
           \<and> NetworkInterfaceService_List P (world st) (srv_ID server) = Inr (npre @ nic # npost)
           \<and> nic_PrivateIP nic \<in> set peers
           \<and> (\<forall>x\<in>set npre. nic_PrivateIP x \<notin> set peers)
           \<and> (\<forall>j\<in>set ipre. passed_over P (world st) peers j)
           \<and> t = target_of server nic"
proof -
  from assms obtain insts st' where
    l: "ServerService_List P (world st) = Inr insts"
       "pickFailOverTarget_loop P insts peers (st\<lparr>calls := calls st @ [(ListServers, None)]\<rparr>)
          = (Inr t, st')"
    by (cases "pickFailOverTarget_loop P (projr (ServerService_List P (world st))) peers
                 (st\<lparr>calls := calls st @ [(ListServers, None)]\<rparr>)")
       (auto simp: pickFailOverTarget_def Server_List_unfold split: sum.splits)
  from pickFailOverTarget_loop_Inr [OF l(2)] obtain ipre server ipost nics where
    i: "insts = ipre @ server # ipost" "srv_Status_ID server = ServerStatusRunning P"
       "NetworkInterfaceService_List P (world st) (srv_ID server) = Inr nics"
       "pickFailOverTarget_interfaces server nics peers = Some t"
       "\<forall>j\<in>set ipre. passed_over P (world st) peers j" by auto
  from pickFailOverTarget_interfaces_Some [OF i(4)] obtain npre nic npost where
    "nics = npre @ nic # npost" "nic_PrivateIP nic \<in> set peers"
    "\<forall>x\<in>set npre. nic_PrivateIP x \<notin> set peers" "t = target_of server nic" by blast
  with l(1) i show ?thesis by blast
qed

lemma no_Attach_member:
  "list_all (\<lambda>ev. \<not> is_Attach (fst ev)) xs \<Longrightarrow> (Attach s e n, outcome) \<notin> set xs"
  by (induction xs) auto

lemma main_peers_attach:
  assumes loc: "located L P flagToken flagEIP w eip"
    and ips: "checkFlagIPs L flagIPs = Inr peers"
    and det: "ServerElasticIPService_Detach P w (att_ID (eip_Attachment eip)) (eip_ID eip) = (None, w')"
    and att: "(Attach s e n, outcome) \<in> set (calls (snd (main_peers L P flagToken flagEIP flagIPs w)))"
  shows "\<exists>target. fst (pickFailOverTarget P (filterPeers peers (eip_PrivateIP eip))
                          \<lparr>world = w',
                           calls = [(ListElasticIPs, None),
                                    (Detach (att_ID (eip_Attachment eip)) (eip_ID eip), None)],
                           stderr = [INFO (found_message eip), INFO (detached_message eip)]\<rparr>)
                   = Inr target
           \<and> s = InstanceID target \<and> e = eip_ID eip \<and> n = NetworkInterfaceID target"
proof -
  let ?st1 = "\<lparr>world = w',
               calls = [(ListElasticIPs, None),
                        (Detach (att_ID (eip_Attachment eip)) (eip_ID eip), None)],
               stderr = [INFO (found_message eip), INFO (detached_message eip)]\<rparr>"
  let ?sel = "pickFailOverTarget P (filterPeers peers (eip_PrivateIP eip)) ?st1"
  note m = main_peers_def located_flags [OF loc] ips Let_def service_Detach_unfold det
    slog_Info_def slog_Error_def
  obtain r2 st2 where p: "?sel = (r2, st2)" by (cases ?sel)
  from to_frame(4) [OF p] obtain evs where
    evs: "calls st2 = calls ?st1 @ evs" "reads evs"
    by (auto simp: frame_def)
  from evs have na2: "list_all (\<lambda>ev. \<not> is_Attach (fst ev)) (calls st2)"
    by (simp add: reads_not_Attach)
  show ?thesis
  proof (cases r2)
    case (Inl err)
    with p have "calls (snd (main_peers L P flagToken flagEIP flagIPs w)) = calls st2"
      by (simp add: m)
    with att no_Attach_member [OF na2] show ?thesis by simp
  next
    case (Inr t)
    let ?st2' = "slog_Info (''picked target instance '' @ quoted (InstanceName t)
                @ '' with id '' @ quoted (fmt_int (InstanceID t)) @ '' for failover'') st2"
    obtain r3 st3 where q: "prepareTarget P t (InstanceID t) ?st2' = (r3, st3)"
      by (cases "prepareTarget P t (InstanceID t) ?st2'")
    from step_prepareTarget [of ?st2' P t "InstanceID t"] q obtain prep where
      prep: "calls st3 = calls st2 @ prep" "list_all (\<lambda>ev. \<not> is_Attach (fst ev)) prep"
      by (auto simp: step_def slog_Info_def)
    with na2 have na3: "list_all (\<lambda>ev. \<not> is_Attach (fst ev)) (calls st3)" by simp
    show ?thesis
    proof (cases r3)
      case (Inl err)
      with p Inr q have "calls (snd (main_peers L P flagToken flagEIP flagIPs w)) = calls st3"
        by (simp add: m)
      with att no_Attach_member [OF na3] show ?thesis by simp
    next
      case r3: (Inr u)
      from p Inr q r3
      have "\<exists>o3. calls (snd (main_peers L P flagToken flagEIP flagIPs w))
               = calls st3 @ [(Attach (InstanceID t) (eip_ID eip) (NetworkInterfaceID t), o3)]"
        by (simp add: m service_Attach_unfold split: prod.splits option.splits)
      with att no_Attach_member [OF na3, of s e n outcome]
      have "s = InstanceID t \<and> e = eip_ID eip \<and> n = NetworkInterfaceID t"
        by auto
      with p Inr show ?thesis by simp
    qed
  qed
qed

section \<open>Runs that end on an error of the program\<close>

lemma flags_ok_checks:
  assumes "flags_ok L flagToken flagEIP"
  shows "checkFlagToken flagToken = Inr flagToken" "checkFlagEIP L flagEIP = Inr flagEIP"
  using assms by (auto simp: flags_ok_def checkFlagToken_def checkFlagEIP_def)

lemma located_flags_ok: "located L P flagToken flagEIP w eip \<Longrightarrow> flags_ok L flagToken flagEIP"
  by (simp add: located_def flags_ok_def)

lemma config_token:
  assumes "flagToken = []"
  shows "main L P flagToken flagEIP flagInstances w = aborted w [] [] ''missing required flag: --token''"
    "main_ip L P flagToken flagEIP flagIP w = aborted w [] [] ''missing required flag: --token''"
    "main_peers L P flagToken flagEIP flagIPs w = aborted w [] [] ''missing required flag: --token''"
  using assms
  by (simp_all add: main_def main_ip_def main_peers_def checkFlagToken_def aborted_def start_def
        slog_Error_def)

lemma config_eip_missing:
  assumes "flagToken \<noteq> []" "flagEIP = []"
  shows "main L P flagToken flagEIP flagInstances w = aborted w [] [] ''missing required flag: --eip''"
    "main_ip L P flagToken flagEIP flagIP w = aborted w [] [] ''missing required flag: --eip''"
    "main_peers L P flagToken flagEIP flagIPs w = aborted w [] [] ''missing required flag: --eip''"
  using assms
  by (simp_all add: main_def main_ip_def main_peers_def checkFlagToken_def checkFlagEIP_def
        aborted_def start_def slog_Error_def)

lemma config_eip_invalid:
  assumes "flagToken \<noteq> []" "flagEIP \<noteq> []" "net_ParseIP L flagEIP = None"
  shows "main L P flagToken flagEIP flagInstances w = aborted w [] [] (''invalid eip: '' @ flagEIP)"
    "main_ip L P flagToken flagEIP flagIP w = aborted w [] [] (''invalid eip: '' @ flagEIP)"
    "main_peers L P flagToken flagEIP flagIPs w = aborted w [] [] (''invalid eip: '' @ flagEIP)"
  using assms
  by (simp_all add: main_def main_ip_def main_peers_def checkFlagToken_def checkFlagEIP_def
        aborted_def start_def slog_Error_def)

lemma checkFlagInstances_loop_invalid:
  "\<forall>v\<in>set vpre. strconv_Atoi L v \<noteq> None \<Longrightarrow> strconv_Atoi L val = None
     \<Longrightarrow> checkFlagInstances_loop L (vpre @ val # vpost)
           = Inl (errors_New (''invalid instance_id: '' @ val))"
  by (induction vpre) auto

lemma checkFlagIPs_loop_invalid:
  "\<forall>v\<in>set vpre. net_ParseIP L v \<noteq> None \<Longrightarrow> net_ParseIP L val = None
     \<Longrightarrow> checkFlagIPs_loop L (vpre @ val # vpost) = Inl (errors_New (''invalid ip: '' @ val))"
  by (induction vpre) auto

lemma config_third_flag:
  assumes "flags_ok L flagToken flagEIP"
  shows "checkFlagInstances L flagInstances = Inl err
           \<Longrightarrow> main L P flagToken flagEIP flagInstances w = aborted w [] [] (Error err)"
    "checkFlagIP L flagIP = Inl err
           \<Longrightarrow> main_ip L P flagToken flagEIP flagIP w = aborted w [] [] (Error err)"
    "checkFlagIPs L flagIPs = Inl err
           \<Longrightarrow> main_peers L P flagToken flagEIP flagIPs w = aborted w [] [] (Error err)"
  by (simp_all add: main_def main_ip_def main_peers_def flags_ok_checks [OF assms]
        aborted_def start_def slog_Error_def)

lemma config_instances_missing:
  assumes "flags_ok L flagToken flagEIP" "flagInstances = []"
  shows "main L P flagToken flagEIP flagInstances w
           = aborted w [] [] ''missing required flag: --instance_ids''"
  using assms(2) by (simp add: config_third_flag(1) [OF assms(1)] checkFlagInstances_def)

lemma config_instances_invalid:
  assumes "flags_ok L flagToken flagEIP" "flagInstances \<noteq> []"
    "strings_Split flagInstances CHR '','' = vpre @ val # vpost"
    "\<forall>v\<in>set vpre. strconv_Atoi L v \<noteq> None" "strconv_Atoi L val = None"
  shows "main L P flagToken flagEIP flagInstances w
           = aborted w [] [] (''invalid instance_id: '' @ val)"
  using assms(2-)
  by (simp add: config_third_flag(1) [OF assms(1)] checkFlagInstances_def
        checkFlagInstances_loop_invalid)

lemma config_ip_invalid:
  assumes "flags_ok L flagToken flagEIP" "net_ParseIP L flagIP = None"
  shows "main_ip L P flagToken flagEIP flagIP w = aborted w [] [] ''invalid ip: <nil>''"
  using assms(2) by (simp add: config_third_flag(2) [OF assms(1)] checkFlagIP_def)

lemma config_ips_invalid:
  assumes "flags_ok L flagToken flagEIP"
    "strings_Split flagIPs CHR '','' = vpre @ val # vpost"
    "\<forall>v\<in>set vpre. net_ParseIP L v \<noteq> None" "net_ParseIP L val = None"
  shows "main_peers L P flagToken flagEIP flagIPs w = aborted w [] [] (''invalid ip: '' @ val)"
  using assms(2-)
  by (simp add: config_third_flag(3) [OF assms(1)] checkFlagIPs_def checkFlagIPs_loop_invalid)

lemma findElasticIPID_loop_none:
  "\<forall>x\<in>set eips. eip_PublicIP x \<noteq> eip
     \<Longrightarrow> findElasticIPID_loop eips eip = Inl (errors_New ''elastic ip not found'')"
  by (induction eips) auto

lemma not_found:
  assumes "flags_ok L flagToken flagEIP" "ElasticIPService_List P w = Inr eips"
    "\<forall>x\<in>set eips. eip_PublicIP x \<noteq> flagEIP"
  shows "checkFlagInstances L flagInstances = Inr ids
           \<Longrightarrow> main L P flagToken flagEIP flagInstances w
                 = aborted w [(ListElasticIPs, None)] [] ''elastic ip not found''"
    "checkFlagIP L flagIP = Inr privateIP
           \<Longrightarrow> main_ip L P flagToken flagEIP flagIP w
                 = aborted w [(ListElasticIPs, None)] [] ''elastic ip not found''"
    "checkFlagIPs L flagIPs = Inr peers
           \<Longrightarrow> main_peers L P flagToken flagEIP flagIPs w
                 = aborted w [(ListElasticIPs, None)] [] ''elastic ip not found''"
  using assms(2,3)
  by (simp_all add: main_def main_ip_def main_peers_def flags_ok_checks [OF assms(1)]
        findElasticIPID_unfold findElasticIPID_loop_none aborted_def start_def slog_Error_def)

lemma listing_fails:
  assumes "flags_ok L flagToken flagEIP" "ElasticIPService_List P w = Inl msg"
  shows "checkFlagInstances L flagInstances = Inr ids
           \<Longrightarrow> main L P flagToken flagEIP flagInstances w
                 = aborted w [(ListElasticIPs, Some (ProviderError msg))] [] msg"
    "checkFlagIP L flagIP = Inr privateIP
           \<Longrightarrow> main_ip L P flagToken flagEIP flagIP w
                 = aborted w [(ListElasticIPs, Some (ProviderError msg))] [] msg"
    "checkFlagIPs L flagIPs = Inr peers
           \<Longrightarrow> main_peers L P flagToken flagEIP flagIPs w
                 = aborted w [(ListElasticIPs, Some (ProviderError msg))] [] msg"
  using assms(2)
  by (simp_all add: main_def main_ip_def main_peers_def flags_ok_checks [OF assms(1)]
        findElasticIPID_unfold aborted_def start_def slog_Error_def)

lemma main_no_interface_aborted:
  assumes loc: "located L P flagToken flagEIP w eip"
    and ids: "checkFlagInstances L flagInstances = Inr (pre @ i # post)"
    and det: "ServerElasticIPService_Detach P w (att_ID (eip_Attachment eip)) (eip_ID eip) = (None, w')"
    and pre: "\<forall>j\<in>set pre. j = att_ID (eip_Attachment eip) \<or> not_running P w' j"
    and i: "i \<noteq> att_ID (eip_Attachment eip)" "running P w' i"
    and nics: "NetworkInterfaceService_List P w' i = Inr nics"
    and ip: "net_ParseIP L (eip_PrivateIP eip) = Some ip"
    and out: "\<forall>x\<in>set nics. outside_subnet L ip x"
  shows "main L P flagToken flagEIP flagInstances w =
           aborted w'
             ([(ListElasticIPs, None), (Detach (att_ID (eip_Attachment eip)) (eip_ID eip), None)]
              @ map (\<lambda>j. (GetServer j, None))
                  (filter (\<lambda>j. j \<noteq> att_ID (eip_Attachment eip)) pre @ [i])
              @ [(ListNetworkInterfaces i, None)])
             [found_message eip, detached_message eip,
              ''picked next available instance with id '' @ quoted (fmt_int i)]
             ''no network interface in same network as previous private ip found''"
  using ids det pre i nics ip out
  by (simp add: main_def located_flags [OF loc] Let_def service_Detach_unfold slog_Info_def
        pickNextInstance_first_running pickNetworkInterface_unfold pickNetworkInterface_loop_none
        slog_Error_def aborted_def)

lemma main_invalid_CIDR_aborted:
  assumes loc: "located L P flagToken flagEIP w eip"
    and ids: "checkFlagInstances L flagInstances = Inr (pre @ i # post)"
    and det: "ServerElasticIPService_Detach P w (att_ID (eip_Attachment eip)) (eip_ID eip) = (None, w')"
    and pre: "\<forall>j\<in>set pre. j = att_ID (eip_Attachment eip) \<or> not_running P w' j"
    and i: "i \<noteq> att_ID (eip_Attachment eip)" "running P w' i"
    and nics: "NetworkInterfaceService_List P w' i = Inr (npre @ nic # npost)"
    and ip: "net_ParseIP L (eip_PrivateIP eip) = Some ip"
    and out: "\<forall>x\<in>set npre. outside_subnet L ip x"
    and bad: "net_ParseCIDR L (nic_Network_CIDR nic) = None"
  shows "main L P flagToken flagEIP flagInstances w =
           aborted w'
             ([(ListElasticIPs, None), (Detach (att_ID (eip_Attachment eip)) (eip_ID eip), None)]
              @ map (\<lambda>j. (GetServer j, None))
                  (filter (\<lambda>j. j \<noteq> att_ID (eip_Attachment eip)) pre @ [i])
              @ [(ListNetworkInterfaces i, None)])
             [found_message eip, detached_message eip,
              ''picked next available instance with id '' @ quoted (fmt_int i)]
             ''invalid CIDR''"
  using ids det pre i nics ip out bad
  by (simp add: main_def located_flags [OF loc] Let_def service_Detach_unfold slog_Info_def
        pickNextInstance_first_running pickNetworkInterface_unfold pickNetworkInterface_loop_invalid
        slog_Error_def aborted_def)

lemma main_unparsable_aborted:
  assumes loc: "located L P flagToken flagEIP w eip"
    and ids: "checkFlagInstances L flagInstances = Inr (pre @ i # post)"
    and det: "ServerElasticIPService_Detach P w (att_ID (eip_Attachment eip)) (eip_ID eip) = (None, w')"
    and pre: "\<forall>j\<in>set pre. j = att_ID (eip_Attachment eip) \<or> not_running P w' j"
    and i: "i \<noteq> att_ID (eip_Attachment eip)" "running P w' i"
    and nics: "NetworkInterfaceService_List P w' i = Inr nics"
    and ip: "net_ParseIP L (eip_PrivateIP eip) = None"
  shows "main L P flagToken flagEIP flagInstances w =
           aborted w'
             ([(ListElasticIPs, None), (Detach (att_ID (eip_Attachment eip)) (eip_ID eip), None)]
              @ map (\<lambda>j. (GetServer j, None))
                  (filter (\<lambda>j. j \<noteq> att_ID (eip_Attachment eip)) pre @ [i])
              @ [(ListNetworkInterfaces i, None)])
             [found_message eip, detached_message eip,
              ''picked next available instance with id '' @ quoted (fmt_int i)]
             ''invalid private IP''"
  using ids det pre i nics ip
  by (simp add: main_def located_flags [OF loc] Let_def service_Detach_unfold slog_Info_def
        pickNextInstance_first_running pickNetworkInterface_unfold
        slog_Error_def aborted_def)

lemma program_unfold:
  "flag_Parse L init_flags prog args = os_Exit status usage
     \<Longrightarrow> program L P prog args w = (status, \<lparr>world = w, calls = [], stderr = map TEXT usage\<rparr>)"
  "flag_Parse L init_flags prog args = flag_set actual
     \<Longrightarrow> program L P prog args w
           = main L P (flag_value init_flags actual ''token'') (flag_value init_flags actual ''eip'')
               (flag_value init_flags actual ''instance_ids'') w"
  "flag_Parse L init_flags_ip prog args = os_Exit status usage
     \<Longrightarrow> program_ip L P prog args w = (status, \<lparr>world = w, calls = [], stderr = map TEXT usage\<rparr>)"
  "flag_Parse L init_flags_ip prog args = flag_set actual
     \<Longrightarrow> program_ip L P prog args w
           = main_ip L P (flag_value init_flags_ip actual ''token'')
               (flag_value init_flags_ip actual ''eip'') (flag_value init_flags_ip actual ''ip'') w"
  "flag_Parse L init_flags_peers prog args = os_Exit status usage
     \<Longrightarrow> program_peers L P prog args w
           = (status, \<lparr>world = w, calls = [], stderr = map TEXT usage\<rparr>)"
  "flag_Parse L init_flags_peers prog args = flag_set actual
     \<Longrightarrow> program_peers L P prog args w
           = main_peers L P (flag_value init_flags_peers actual ''token'')
               (flag_value init_flags_peers actual ''eip'')
               (flag_value init_flags_peers actual ''peers'') w"
  by (simp_all add: program_def program_ip_def program_peers_def)

section \<open>The first calls of a run\<close>

lemma begins_with_append:
  assumes "begins_with pfx st" "calls st' = calls st @ evs"
  shows "begins_with pfx st'"
proof -
  from assms(1) have t: "take (length pfx) (map fst (calls st)) = pfx"
    by (simp add: begins_with_def)
  then have "length (take (length pfx) (map fst (calls st))) = length pfx"
    by simp
  then have "length pfx \<le> length (map fst (calls st))"
    by simp
  with t assms(2) show ?thesis by (simp add: begins_with_def)
qed

lemma begins_with_slog [simp]:
  "begins_with pfx (slog_Info msg st) = begins_with pfx st"
  "begins_with pfx (slog_Error msg st) = begins_with pfx st"
  by (simp_all add: begins_with_def slog_Info_def slog_Error_def)

lemma begins_with_step:
  "begins_with pfx st \<Longrightarrow> step st (r, st') \<Longrightarrow> begins_with pfx st'"
  by (auto simp: step_def intro: begins_with_append)

lemma failOnErr_begins:
  assumes "step st r" "begins_with pfx st"
    "\<And>v st'. begins_with pfx st' \<Longrightarrow> begins_with pfx (snd (rest v st'))"
  shows "begins_with pfx (snd (failOnErr r rest))"
proof (cases r)
  case (Pair x st')
  with assms(1,2) have b: "begins_with pfx st'" by (auto dest: begins_with_step)
  show ?thesis
  proof (cases x)
    case (Inl err)
    with Pair b show ?thesis by (simp add: failOnErr_def)
  next
    case (Inr v)
    with Pair assms(3) [OF b] show ?thesis by (simp add: failOnErr_def)
  qed
qed

lemma attach_begins:
  assumes "begins_with pfx st"
  shows "begins_with pfx (snd (failOnErr (service_Attach P s e n st) (\<lambda>u st. (c, slog_Info msg st))))"
proof -
  obtain r w' where r: "ServerElasticIPService_Attach P (world st) s e n = (r, w')"
    by (cases "ServerElasticIPService_Attach P (world st) s e n")
  obtain res st' where a: "service_Attach P s e n st = (res, st')"
    by (cases "service_Attach P s e n st")
  with r have "\<exists>evs. calls st' = calls st @ evs"
    by (cases r) (auto simp: service_Attach_unfold)
  with assms have "begins_with pfx st'" by (auto intro: begins_with_append)
  with a show ?thesis by (cases res) (simp_all add: failOnErr_def)
qed

lemma first_call_ListServers:
  "\<exists>outcome evs. calls (snd (pickFailOverTarget P peers st)) = calls st @ (ListServers, outcome) # evs"
  "\<exists>outcome evs. calls (snd (findFailOverTarget P privateIP st)) = calls st @ (ListServers, outcome) # evs"
proof -
  show "\<exists>outcome evs. calls (snd (pickFailOverTarget P peers st)) = calls st @ (ListServers, outcome) # evs"
  proof (cases "ServerService_List P (world st)")
    case (Inl msg)
    then show ?thesis by (simp add: pickFailOverTarget_def Server_List_unfold)
  next
    case (Inr insts)
    let ?st = "st\<lparr>calls := calls st @ [(ListServers, None)]\<rparr>"
    from pickFailOverTarget_loop_frame [of ?st P insts peers] obtain evs where
      "calls (snd (pickFailOverTarget_loop P insts peers ?st)) = calls ?st @ evs"
      by (auto simp: frame_def)
    with Inr show ?thesis by (simp add: pickFailOverTarget_def Server_List_unfold)
  qed
  show "\<exists>outcome evs. calls (snd (findFailOverTarget P privateIP st)) = calls st @ (ListServers, outcome) # evs"
  proof (cases "ServerService_List P (world st)")
    case (Inl msg)
    then show ?thesis by (simp add: findFailOverTarget_def Server_List_unfold)
  next
    case (Inr insts)
    let ?st = "st\<lparr>calls := calls st @ [(ListServers, None)]\<rparr>"
    from findFailOverTarget_loop_frame [of ?st P insts privateIP] obtain evs where
      "calls (snd (findFailOverTarget_loop P insts privateIP ?st)) = calls ?st @ evs"
      by (auto simp: frame_def)
    with Inr show ?thesis by (simp add: findFailOverTarget_def Server_List_unfold)
  qed
qed

lemma failOnErr_begins_here:
  assumes "\<And>x st'. r = (x, st') \<Longrightarrow> begins_with pfx st'"
    "\<And>v st'. begins_with pfx st' \<Longrightarrow> begins_with pfx (snd (rest v st'))"
  shows "begins_with pfx (snd (failOnErr r rest))"
proof (cases r)
  case (Pair x st')
  from assms(1) [OF Pair] have b: "begins_with pfx st'" .
  show ?thesis
  proof (cases x)
    case (Inl err)
    with Pair b show ?thesis by (simp add: failOnErr_def)
  next
    case (Inr v)
    with Pair assms(2) [OF b] show ?thesis by (simp add: failOnErr_def)
  qed
qed

lemma begins_with_Detach:
  "service_Detach P f e (slog_Info msg \<lparr>world = w, calls = [(ListElasticIPs, None)], stderr = []\<rparr>)
     = (x, st')
   \<Longrightarrow> begins_with [ListElasticIPs, Detach f e] st'"
  by (auto simp: service_Detach_unfold begins_with_def slog_Info_def
           split: prod.splits option.splits)

lemma main_detaches:
  assumes loc: "located L P flagToken flagEIP w eip"
    and ids: "checkFlagInstances L flagInstances = Inr ids"
  shows "begins_with [ListElasticIPs, Detach (att_ID (eip_Attachment eip)) (eip_ID eip)]
           (snd (main L P flagToken flagEIP flagInstances w))"
  unfolding main_def Let_def
  apply (simp only: located_flags [OF loc] ids failOnErr_Inr)
  apply (rule failOnErr_begins_here, erule begins_with_Detach)
  apply (rule failOnErr_begins, rule step_reads, simp)
  apply (rule failOnErr_begins, rule step_reads, simp)
  apply (rule failOnErr_begins, rule step_prepare_inline, simp)
  apply (erule attach_begins)
  done

lemma main_peers_detaches:
  assumes loc: "located L P flagToken flagEIP w eip"
    and ips: "checkFlagIPs L flagIPs = Inr peers"
  shows "begins_with [ListElasticIPs, Detach (att_ID (eip_Attachment eip)) (eip_ID eip)]
           (snd (main_peers L P flagToken flagEIP flagIPs w))"
  unfolding main_peers_def Let_def
  apply (simp only: located_flags [OF loc] ips failOnErr_Inr)
  apply (rule failOnErr_begins_here, erule begins_with_Detach)
  apply (rule failOnErr_begins, rule step_reads, simp)
  apply (rule failOnErr_begins, rule step_prepareTarget, simp)
  apply (erule attach_begins)
  done

lemma main_ip_already_attached:
  assumes loc: "located L P flagToken flagEIP w eip"
    and ip: "checkFlagIP L flagIP = Inr privateIP"
    and same: "eip_PrivateIP eip = privateIP"
  shows "main_ip L P flagToken flagEIP flagIP w =
           (0, \<lparr>world = w, calls = [(ListElasticIPs, None)],
                stderr = [INFO (found_message eip),
                          INFO ''elastic ip already attached to target instance'']\<rparr>)"
  using ip same
  by (simp add: main_ip_def located_flags [OF loc] Let_def slog_Info_def)

lemma main_detach_fails:
  assumes loc: "located L P flagToken flagEIP w eip"
    and ids: "checkFlagInstances L flagInstances = Inr ids"
    and det: "ServerElasticIPService_Detach P w (att_ID (eip_Attachment eip)) (eip_ID eip)
                = (Some msg, w')"
  shows "main L P flagToken flagEIP flagInstances w =
           (1, \<lparr>world = w',
                calls = [(ListElasticIPs, None),
                         (Detach (att_ID (eip_Attachment eip)) (eip_ID eip),
                          Some (ProviderError msg))],
                stderr = [INFO (found_message eip), ERROR msg]\<rparr>)"
  using ids det
  by (simp add: main_def located_flags [OF loc] Let_def service_Detach_unfold slog_Info_def
        slog_Error_def failOnErr_def)

lemma main_peers_detach_fails:
  assumes loc: "located L P flagToken flagEIP w eip"
    and ips: "checkFlagIPs L flagIPs = Inr peers"
    and det: "ServerElasticIPService_Detach P w (att_ID (eip_Attachment eip)) (eip_ID eip)
                = (Some msg, w')"
  shows "main_peers L P flagToken flagEIP flagIPs w =
           (1, \<lparr>world = w',
                calls = [(ListElasticIPs, None),
                         (Detach (att_ID (eip_Attachment eip)) (eip_ID eip),
                          Some (ProviderError msg))],
                stderr = [INFO (found_message eip), ERROR msg]\<rparr>)"
  using ips det
  by (simp add: main_peers_def located_flags [OF loc] Let_def service_Detach_unfold slog_Info_def
        slog_Error_def failOnErr_def)

lemma main_ip_detach_fails:
  assumes loc: "located L P flagToken flagEIP w eip"
    and ip: "checkFlagIP L flagIP = Inr privateIP"
    and other: "eip_PrivateIP eip \<noteq> privateIP"
    and det: "ServerElasticIPService_Detach P w (att_ID (eip_Attachment eip)) (eip_ID eip)
                = (Some msg, w')"
  shows "main_ip L P flagToken flagEIP flagIP w =
           (1, \<lparr>world = w',
                calls = [(ListElasticIPs, None),
                         (Detach (att_ID (eip_Attachment eip)) (eip_ID eip),
                          Some (ProviderError msg))],
                stderr = [INFO (found_message eip), ERROR msg]\<rparr>)"
  using ip other det
  by (simp add: main_ip_def located_flags [OF loc] Let_def service_Detach_unfold slog_Info_def
        slog_Error_def failOnErr_def)

lemma begins_with_ListServers:
  assumes "\<exists>outcome evs. calls (snd r) = calls st @ (ListServers, outcome) # evs"
    and "map fst (calls st) = [ListElasticIPs, Detach f e]"
    and "r = (x, st')"
  shows "begins_with [ListElasticIPs, Detach f e, ListServers] st'"
  using assms by (auto simp: begins_with_def)

lemma detach_accepted:
  assumes "ServerElasticIPService_Detach P w f e = (None, w')"
  shows "service_Detach P f e
           (slog_Info msg \<lparr>world = w, calls = [(ListElasticIPs, None)], stderr = []\<rparr>)
         = (Inr (), \<lparr>world = w', calls = [(ListElasticIPs, None), (Detach f e, None)],
                     stderr = [INFO msg]\<rparr>)"
  using assms by (simp add: service_Detach_unfold slog_Info_def)

lemma main_ip_continues:
  assumes loc: "located L P flagToken flagEIP w eip"
    and ip: "checkFlagIP L flagIP = Inr privateIP"
    and other: "eip_PrivateIP eip \<noteq> privateIP"
    and det: "ServerElasticIPService_Detach P w (att_ID (eip_Attachment eip)) (eip_ID eip)
                = (None, w')"
  shows "begins_with [ListElasticIPs, Detach (att_ID (eip_Attachment eip)) (eip_ID eip), ListServers]
           (snd (main_ip L P flagToken flagEIP flagIP w))"
  unfolding main_ip_def Let_def
  apply (simp only: located_flags [OF loc] ip failOnErr_Inr)
  apply (simp only: other if_False detach_accepted [OF det] failOnErr_Inr)
  apply (rule failOnErr_begins_here)
   apply (erule begins_with_ListServers [OF first_call_ListServers(2), rotated])
   apply (simp add: slog_Info_def)
  apply (rule failOnErr_begins, rule step_prepareTarget, simp)
  apply (erule attach_begins)
  done

lemma main_peers_continues:
  assumes loc: "located L P flagToken flagEIP w eip"
    and ips: "checkFlagIPs L flagIPs = Inr peers"
    and det: "ServerElasticIPService_Detach P w (att_ID (eip_Attachment eip)) (eip_ID eip)
                = (None, w')"
  shows "begins_with [ListElasticIPs, Detach (att_ID (eip_Attachment eip)) (eip_ID eip), ListServers]
           (snd (main_peers L P flagToken flagEIP flagIPs w))"
  unfolding main_peers_def Let_def
  apply (simp only: located_flags [OF loc] ips failOnErr_Inr)
  apply (simp only: detach_accepted [OF det] failOnErr_Inr)
  apply (rule failOnErr_begins_here)
   apply (erule begins_with_ListServers [OF first_call_ListServers(1), rotated])
   apply (simp add: slog_Info_def)
  apply (rule failOnErr_begins, rule step_prepareTarget, simp)
  apply (erule attach_begins)
  done

section \<open>The prepare step\<close>

lemma prepareTarget_calls:
  "calls (snd (prepareTarget P target service st)) =
     calls st @ (if eip_PublicIP (AttachedEIP target) = [] then []
                 else [(Detach service (eip_ID (AttachedEIP target)),
                        map_option ProviderError
                          (fst (ServerElasticIPService_Detach P (world st) service
                                  (eip_ID (AttachedEIP target)))))])"
  by (simp add: prepareTarget_def service_Detach_unfold slog_Info_def
           split: prod.splits option.splits)

lemma main_selected:
  assumes loc: "located L P flagToken flagEIP w eip"
    and ids: "checkFlagInstances L flagInstances = Inr (pre @ i # post)"
    and det: "ServerElasticIPService_Detach P w (att_ID (eip_Attachment eip)) (eip_ID eip) = (None, w')"
    and pre: "\<forall>j\<in>set pre. j = att_ID (eip_Attachment eip) \<or> not_running P w' j"
    and i: "i \<noteq> att_ID (eip_Attachment eip)" "running P w' i"
    and nics: "NetworkInterfaceService_List P w' i = Inr (npre @ nic # npost)"
    and ip: "net_ParseIP L (eip_PrivateIP eip) = Some ip"
    and out: "\<forall>x\<in>set npre. outside_subnet L ip x"
    and inside: "in_subnet L ip nic"
  shows "map fst (calls (snd (main L P flagToken flagEIP flagInstances w)))
         = [ListElasticIPs, Detach (att_ID (eip_Attachment eip)) (eip_ID eip)]
           @ map GetServer (filter (\<lambda>j. j \<noteq> att_ID (eip_Attachment eip)) pre)
           @ [GetServer i, ListNetworkInterfaces i]
           @ (if eip_PublicIP (nic_AttachedElasticIP nic) = []
              then [Attach (att_ID (eip_Attachment eip)) (eip_ID eip) (nic_ID nic)]
              else if fst (ServerElasticIPService_Detach P w' i (eip_ID (nic_AttachedElasticIP nic))) = None
              then [Detach i (eip_ID (nic_AttachedElasticIP nic)),
                    Attach (att_ID (eip_Attachment eip)) (eip_ID eip) (nic_ID nic)]
              else [Detach i (eip_ID (nic_AttachedElasticIP nic))])"
proof -
  let ?f = "att_ID (eip_Attachment eip)"
  let ?occ = "eip_ID (nic_AttachedElasticIP nic)"
  note m = main_def located_flags [OF loc] Let_def service_Detach_unfold slog_Info_def
    pickNextInstance_first_running pickNetworkInterface_unfold pickNetworkInterface_loop_first
    service_Attach_unfold slog_Error_def comp_def ids det pre i nics ip out inside
  show ?thesis
  proof (cases "eip_PublicIP (nic_AttachedElasticIP nic) = []")
    case True
    obtain o3 w3 where a: "ServerElasticIPService_Attach P w' ?f (eip_ID eip) (nic_ID nic) = (o3, w3)"
      by (cases "ServerElasticIPService_Attach P w' ?f (eip_ID eip) (nic_ID nic)")
    with True show ?thesis by (cases o3) (simp_all add: m)
  next
    case False
    obtain o2 w2 where d: "ServerElasticIPService_Detach P w' i ?occ = (o2, w2)"
      by (cases "ServerElasticIPService_Detach P w' i ?occ")
    show ?thesis
    proof (cases o2)
      case (Some msg)
      with False d show ?thesis by (simp add: m)
    next
      case None
      obtain o3 w3 where a: "ServerElasticIPService_Attach P w2 ?f (eip_ID eip) (nic_ID nic) = (o3, w3)"
        by (cases "ServerElasticIPService_Attach P w2 ?f (eip_ID eip) (nic_ID nic)")
      with False d None show ?thesis by (cases o3) (simp_all add: m)
    qed
  qed
qed

section \<open>The address policies, forwards\<close>

lemma pickFailOverTarget_interfaces_first:
  "\<forall>x\<in>set npre. nic_PrivateIP x \<notin> set peers \<Longrightarrow> nic_PrivateIP nic \<in> set peers
     \<Longrightarrow> pickFailOverTarget_interfaces server (npre @ nic # npost) peers
           = Some (target_of server nic)"
  by (induction npre) (auto simp: list_ex_iff target_of_def)

lemma pickFailOverTarget_loop_skips:
  assumes "\<forall>j\<in>set ipre. passed_over P (world st) peers j"
  shows "pickFailOverTarget_loop P (ipre @ rest) peers st =
           pickFailOverTarget_loop P rest peers
             (st\<lparr>calls := calls st
                @ map (\<lambda>s. (ListNetworkInterfaces (srv_ID s), None))
                    (filter (\<lambda>s. srv_Status_ID s = ServerStatusRunning P) ipre)\<rparr>)"
  using assms
proof (induction ipre arbitrary: st)
  case Nil
  then show ?case by simp
next
  case (Cons a ipre)
  show ?case
  proof (cases "srv_Status_ID a = ServerStatusRunning P")
    case False
    with Cons show ?thesis by simp
  next
    case True
    with Cons.prems obtain ns where ns: "NetworkInterfaceService_List P (world st) (srv_ID a) = Inr ns"
        "list_all (\<lambda>nic. nic_PrivateIP nic \<notin> set peers) ns"
      by (auto simp: passed_over_def split: sum.splits)
    let ?st = "st\<lparr>calls := calls st @ [(ListNetworkInterfaces (srv_ID a), None)]\<rparr>"
    have "\<forall>j\<in>set ipre. passed_over P (world ?st) peers j"
      using Cons.prems by simp
    moreover from ns(2) have "pickFailOverTarget_interfaces a ns peers = None"
      by (simp add: pickFailOverTarget_interfaces_None)
    ultimately show ?thesis using Cons.IH [of ?st] True ns(1)
      by (simp add: NetworkInterfaces_List_unfold)
  qed
qed

lemma pickFailOverTarget_first:
  assumes "ServerService_List P (world st) = Inr (ipre @ server # ipost)"
    and "\<forall>j\<in>set ipre. passed_over P (world st) peers j"
    and "srv_Status_ID server = ServerStatusRunning P"
    and "NetworkInterfaceService_List P (world st) (srv_ID server) = Inr (npre @ nic # npost)"
    and "\<forall>x\<in>set npre. nic_PrivateIP x \<notin> set peers"
    and "nic_PrivateIP nic \<in> set peers"
  shows "pickFailOverTarget P peers st =
           (Inr (target_of server nic),
            st\<lparr>calls := calls st @ (ListServers, None)
               # map (\<lambda>s. (ListNetworkInterfaces (srv_ID s), None))
                   (filter (\<lambda>s. srv_Status_ID s = ServerStatusRunning P) ipre @ [server])\<rparr>)"
proof -
  let ?st = "st\<lparr>calls := calls st @ [(ListServers, None)]\<rparr>"
  have "\<forall>j\<in>set ipre. passed_over P (world ?st) peers j" using assms(2) by simp
  from pickFailOverTarget_loop_skips [OF this, of "server # ipost"] assms(1,3,4)
    pickFailOverTarget_interfaces_first [OF assms(5,6), of server npost]
  show ?thesis
    by (simp add: pickFailOverTarget_def Server_List_unfold NetworkInterfaces_List_unfold)
qed

lemma pickFailOverTarget_none:
  assumes "ServerService_List P (world st) = Inr insts"
    and "\<forall>j\<in>set insts. passed_over P (world st) peers j"
  shows "pickFailOverTarget P peers st =
           (Inl (errors_New ''no available instance found''),
            st\<lparr>calls := calls st @ (ListServers, None)
               # map (\<lambda>s. (ListNetworkInterfaces (srv_ID s), None))
                   (filter (\<lambda>s. srv_Status_ID s = ServerStatusRunning P) insts)\<rparr>)"
proof -
  let ?st = "st\<lparr>calls := calls st @ [(ListServers, None)]\<rparr>"
  have "\<forall>j\<in>set insts. passed_over P (world ?st) peers j" using assms(2) by simp
  from pickFailOverTarget_loop_skips [OF this, of "[]"] assms(1)
  show ?thesis
    by (simp add: pickFailOverTarget_def Server_List_unfold)
qed

lemma findFailOverTarget_interfaces_peers:
  "findFailOverTarget_interfaces server nics privateIP
     = pickFailOverTarget_interfaces server nics [privateIP]"
  by (induction nics) simp_all

lemma findFailOverTarget_loop_skips:
  assumes "\<forall>j\<in>set ipre. passed_over P (world st) [privateIP] j"
  shows "findFailOverTarget_loop P (ipre @ rest) privateIP st =
           findFailOverTarget_loop P rest privateIP
             (st\<lparr>calls := calls st
                @ map (\<lambda>s. (ListNetworkInterfaces (srv_ID s), None))
                    (filter (\<lambda>s. srv_Status_ID s = ServerStatusRunning P) ipre)\<rparr>)"
  using assms
proof (induction ipre arbitrary: st)
  case Nil
  then show ?case by simp
next
  case (Cons a ipre)
  show ?case
  proof (cases "srv_Status_ID a = ServerStatusRunning P")
    case False
    with Cons show ?thesis by simp
  next
    case True
    with Cons.prems obtain ns where ns: "NetworkInterfaceService_List P (world st) (srv_ID a) = Inr ns"
        "list_all (\<lambda>nic. nic_PrivateIP nic \<notin> set [privateIP]) ns"
      by (auto simp: passed_over_def split: sum.splits)
    let ?st = "st\<lparr>calls := calls st @ [(ListNetworkInterfaces (srv_ID a), None)]\<rparr>"
    have "\<forall>j\<in>set ipre. passed_over P (world ?st) [privateIP] j"
      using Cons.prems by simp
    moreover from ns(2) have "findFailOverTarget_interfaces a ns privateIP = None"
      by (simp add: findFailOverTarget_interfaces_peers pickFailOverTarget_interfaces_None)
    ultimately show ?thesis using Cons.IH [of ?st] True ns(1)
      by (simp add: NetworkInterfaces_List_unfold)
  qed
qed

lemma findFailOverTarget_first:
  assumes "ServerService_List P (world st) = Inr (ipre @ server # ipost)"
    and "\<forall>j\<in>set ipre. passed_over P (world st) [privateIP] j"
    and "srv_Status_ID server = ServerStatusRunning P"
    and "NetworkInterfaceService_List P (world st) (srv_ID server) = Inr (npre @ nic # npost)"
    and "\<forall>x\<in>set npre. nic_PrivateIP x \<noteq> privateIP"
    and "nic_PrivateIP nic = privateIP"
  shows "findFailOverTarget P privateIP st =
           (Inr (target_of server nic),
            st\<lparr>calls := calls st @ (ListServers, None)
               # map (\<lambda>s. (ListNetworkInterfaces (srv_ID s), None))
                   (filter (\<lambda>s. srv_Status_ID s = ServerStatusRunning P) ipre @ [server])\<rparr>)"
proof -
  let ?st = "st\<lparr>calls := calls st @ [(ListServers, None)]\<rparr>"
  have "\<forall>j\<in>set ipre. passed_over P (world ?st) [privateIP] j" using assms(2) by simp
  from findFailOverTarget_loop_skips [OF this, of "server # ipost"] assms(1,3,4)
    pickFailOverTarget_interfaces_first [of npre "[privateIP]" nic server npost] assms(5,6)
  show ?thesis
    by (simp add: findFailOverTarget_def Server_List_unfold NetworkInterfaces_List_unfold
          findFailOverTarget_interfaces_peers)
qed

lemma findFailOverTarget_none:
  assumes "ServerService_List P (world st) = Inr insts"
    and "\<forall>j\<in>set insts. passed_over P (world st) [privateIP] j"
  shows "findFailOverTarget P privateIP st =
           (Inl (errors_New (''fail over instance with private ip '' @ privateIP @ '' not found'')),
            st\<lparr>calls := calls st @ (ListServers, None)
               # map (\<lambda>s. (ListNetworkInterfaces (srv_ID s), None))
                   (filter (\<lambda>s. srv_Status_ID s = ServerStatusRunning P) insts)\<rparr>)"
proof -
  let ?st = "st\<lparr>calls := calls st @ [(ListServers, None)]\<rparr>"
  have "\<forall>j\<in>set insts. passed_over P (world ?st) [privateIP] j" using assms(2) by simp
  from findFailOverTarget_loop_skips [OF this, of "[]"] assms(1)
  show ?thesis
    by (simp add: findFailOverTarget_def Server_List_unfold)
qed

lemma main_peers_selected:
  assumes loc: "located L P flagToken flagEIP w eip"
    and ips: "checkFlagIPs L flagIPs = Inr peers"
    and det: "ServerElasticIPService_Detach P w (att_ID (eip_Attachment eip)) (eip_ID eip) = (None, w')"
    and list: "ServerService_List P w' = Inr (ipre @ server # ipost)"
    and pre: "\<forall>j\<in>set ipre. passed_over P w' (filterPeers peers (eip_PrivateIP eip)) j"
    and up: "srv_Status_ID server = ServerStatusRunning P"
    and nics: "NetworkInterfaceService_List P w' (srv_ID server) = Inr (npre @ nic # npost)"
    and out: "\<forall>x\<in>set npre. nic_PrivateIP x \<notin> set (filterPeers peers (eip_PrivateIP eip))"
    and inside: "nic_PrivateIP nic \<in> set (filterPeers peers (eip_PrivateIP eip))"
  shows "map fst (calls (snd (main_peers L P flagToken flagEIP flagIPs w)))
         = [ListElasticIPs, Detach (att_ID (eip_Attachment eip)) (eip_ID eip), ListServers]
           @ map (\<lambda>s. ListNetworkInterfaces (srv_ID s))
               (filter (\<lambda>s. srv_Status_ID s = ServerStatusRunning P) ipre)
           @ [ListNetworkInterfaces (srv_ID server)]
           @ (if eip_PublicIP (nic_AttachedElasticIP nic) = []
              then [Attach (srv_ID server) (eip_ID eip) (nic_ID nic)]
              else if fst (ServerElasticIPService_Detach P w' (srv_ID server)
                             (eip_ID (nic_AttachedElasticIP nic))) = None
              then [Detach (srv_ID server) (eip_ID (nic_AttachedElasticIP nic)),
                    Attach (srv_ID server) (eip_ID eip) (nic_ID nic)]
              else [Detach (srv_ID server) (eip_ID (nic_AttachedElasticIP nic))])"
proof -
  let ?s = "srv_ID server"
  let ?occ = "eip_ID (nic_AttachedElasticIP nic)"
  let ?st1 = "\<lparr>world = w',
               calls = [(ListElasticIPs, None),
                        (Detach (att_ID (eip_Attachment eip)) (eip_ID eip), None)],
               stderr = [INFO (found_message eip), INFO (detached_message eip)]\<rparr>"
  have sel: "pickFailOverTarget P (filterPeers peers (eip_PrivateIP eip)) ?st1 =
           (Inr (target_of server nic),
            ?st1\<lparr>calls := calls ?st1 @ (ListServers, None)
               # map (\<lambda>s. (ListNetworkInterfaces (srv_ID s), None))
                   (filter (\<lambda>s. srv_Status_ID s = ServerStatusRunning P) ipre @ [server])\<rparr>)"
    using list pre up nics out inside by (intro pickFailOverTarget_first) simp_all
  note m = main_peers_def located_flags [OF loc] Let_def service_Detach_unfold slog_Info_def
    sel prepareTarget_def service_Attach_unfold slog_Error_def comp_def target_of_def ips det
  show ?thesis
  proof (cases "eip_PublicIP (nic_AttachedElasticIP nic) = []")
    case True
    obtain o3 w3 where a: "ServerElasticIPService_Attach P w' ?s (eip_ID eip) (nic_ID nic) = (o3, w3)"
      by (cases "ServerElasticIPService_Attach P w' ?s (eip_ID eip) (nic_ID nic)")
    with True show ?thesis by (cases o3) (simp_all add: m)
  next
    case False
    obtain o2 w2 where d: "ServerElasticIPService_Detach P w' ?s ?occ = (o2, w2)"
      by (cases "ServerElasticIPService_Detach P w' ?s ?occ")
    show ?thesis
    proof (cases o2)
      case (Some msg)
      with False d show ?thesis by (simp add: m)
    next
      case None
      obtain o3 w3 where a: "ServerElasticIPService_Attach P w2 ?s (eip_ID eip) (nic_ID nic) = (o3, w3)"
        by (cases "ServerElasticIPService_Attach P w2 ?s (eip_ID eip) (nic_ID nic)")
      with False d None show ?thesis by (cases o3) (simp_all add: m)
    qed
  qed
qed

lemma main_ip_selected:
  assumes loc: "located L P flagToken flagEIP w eip"
    and ip: "checkFlagIP L flagIP = Inr privateIP"
    and other: "eip_PrivateIP eip \<noteq> privateIP"
    and det: "ServerElasticIPService_Detach P w (att_ID (eip_Attachment eip)) (eip_ID eip) = (None, w')"
    and list: "ServerService_List P w' = Inr (ipre @ server # ipost)"
    and pre: "\<forall>j\<in>set ipre. passed_over P w' [privateIP] j"
    and up: "srv_Status_ID server = ServerStatusRunning P"
    and nics: "NetworkInterfaceService_List P w' (srv_ID server) = Inr (npre @ nic # npost)"
    and out: "\<forall>x\<in>set npre. nic_PrivateIP x \<noteq> privateIP"
    and inside: "nic_PrivateIP nic = privateIP"
  shows "map fst (calls (snd (main_ip L P flagToken flagEIP flagIP w)))
         = [ListElasticIPs, Detach (att_ID (eip_Attachment eip)) (eip_ID eip), ListServers]
           @ map (\<lambda>s. ListNetworkInterfaces (srv_ID s))
               (filter (\<lambda>s. srv_Status_ID s = ServerStatusRunning P) ipre)
           @ [ListNetworkInterfaces (srv_ID server)]
           @ (if eip_PublicIP (nic_AttachedElasticIP nic) = []
              then [Attach (srv_ID server) (eip_ID eip) (nic_ID nic)]
              else if fst (ServerElasticIPService_Detach P w' (srv_ID server)
                             (eip_ID (nic_AttachedElasticIP nic))) = None
              then [Detach (srv_ID server) (eip_ID (nic_AttachedElasticIP nic)),
                    Attach (srv_ID server) (eip_ID eip) (nic_ID nic)]
              else [Detach (srv_ID server) (eip_ID (nic_AttachedElasticIP nic))])"
proof -
  let ?s = "srv_ID server"
  let ?occ = "eip_ID (nic_AttachedElasticIP nic)"
  let ?st1 = "\<lparr>world = w',
               calls = [(ListElasticIPs, None),
                        (Detach (att_ID (eip_Attachment eip)) (eip_ID eip), None)],
               stderr = [INFO (found_message eip), INFO (detached_message eip)]\<rparr>"
  have sel: "findFailOverTarget P privateIP ?st1 =
           (Inr (target_of server nic),
            ?st1\<lparr>calls := calls ?st1 @ (ListServers, None)
               # map (\<lambda>s. (ListNetworkInterfaces (srv_ID s), None))
                   (filter (\<lambda>s. srv_Status_ID s = ServerStatusRunning P) ipre @ [server])\<rparr>)"
    using list pre up nics out inside by (intro findFailOverTarget_first) simp_all
  note m = main_ip_def located_flags [OF loc] Let_def service_Detach_unfold slog_Info_def
    sel prepareTarget_def service_Attach_unfold slog_Error_def comp_def target_of_def ip det other
  show ?thesis
  proof (cases "eip_PublicIP (nic_AttachedElasticIP nic) = []")
    case True
    obtain o3 w3 where a: "ServerElasticIPService_Attach P w' ?s (eip_ID eip) (nic_ID nic) = (o3, w3)"
      by (cases "ServerElasticIPService_Attach P w' ?s (eip_ID eip) (nic_ID nic)")
    with True show ?thesis by (cases o3) (simp_all add: m)
  next
    case False
    obtain o2 w2 where d: "ServerElasticIPService_Detach P w' ?s ?occ = (o2, w2)"
      by (cases "ServerElasticIPService_Detach P w' ?s ?occ")
    show ?thesis
    proof (cases o2)
      case (Some msg)
      with False d show ?thesis by (simp add: m)
    next
      case None
      obtain o3 w3 where a: "ServerElasticIPService_Attach P w2 ?s (eip_ID eip) (nic_ID nic) = (o3, w3)"
        by (cases "ServerElasticIPService_Attach P w2 ?s (eip_ID eip) (nic_ID nic)")
      with False d None show ?thesis by (cases o3) (simp_all add: m)
    qed
  qed
qed

lemma main_peers_none:
  assumes loc: "located L P flagToken flagEIP w eip"
    and ips: "checkFlagIPs L flagIPs = Inr peers"
    and det: "ServerElasticIPService_Detach P w (att_ID (eip_Attachment eip)) (eip_ID eip) = (None, w')"
    and list: "ServerService_List P w' = Inr insts"
    and pre: "\<forall>j\<in>set insts. passed_over P w' (filterPeers peers (eip_PrivateIP eip)) j"
  shows "main_peers L P flagToken flagEIP flagIPs w =
          (1, \<lparr>world = w',
               calls = [(ListElasticIPs, None),
                        (Detach (att_ID (eip_Attachment eip)) (eip_ID eip), None),
                        (ListServers, None)]
                 @ map (\<lambda>s. (ListNetworkInterfaces (srv_ID s), None))
                     (filter (\<lambda>s. srv_Status_ID s = ServerStatusRunning P) insts),
               stderr = [INFO (found_message eip), INFO (detached_message eip),
                         ERROR ''no available instance found'']\<rparr>)"
proof -
  let ?st1 = "\<lparr>world = w',
               calls = [(ListElasticIPs, None),
                        (Detach (att_ID (eip_Attachment eip)) (eip_ID eip), None)],
               stderr = [INFO (found_message eip), INFO (detached_message eip)]\<rparr>"
  have sel: "pickFailOverTarget P (filterPeers peers (eip_PrivateIP eip)) ?st1 =
           (Inl (errors_New ''no available instance found''),
            ?st1\<lparr>calls := calls ?st1 @ (ListServers, None)
               # map (\<lambda>s. (ListNetworkInterfaces (srv_ID s), None))
                   (filter (\<lambda>s. srv_Status_ID s = ServerStatusRunning P) insts)\<rparr>)"
    using list pre by (intro pickFailOverTarget_none) simp_all
  show ?thesis
    by (simp add: main_peers_def located_flags [OF loc] Let_def service_Detach_unfold slog_Info_def
          sel slog_Error_def ips det)
qed

lemma main_ip_none:
  assumes loc: "located L P flagToken flagEIP w eip"
    and ip: "checkFlagIP L flagIP = Inr privateIP"
    and other: "eip_PrivateIP eip \<noteq> privateIP"
    and det: "ServerElasticIPService_Detach P w (att_ID (eip_Attachment eip)) (eip_ID eip) = (None, w')"
    and list: "ServerService_List P w' = Inr insts"
    and pre: "\<forall>j\<in>set insts. passed_over P w' [privateIP] j"
  shows "main_ip L P flagToken flagEIP flagIP w =
          (1, \<lparr>world = w',
               calls = [(ListElasticIPs, None),
                        (Detach (att_ID (eip_Attachment eip)) (eip_ID eip), None),
                        (ListServers, None)]
                 @ map (\<lambda>s. (ListNetworkInterfaces (srv_ID s), None))
                     (filter (\<lambda>s. srv_Status_ID s = ServerStatusRunning P) insts),
               stderr = [INFO (found_message eip), INFO (detached_message eip),
                         ERROR (''fail over instance with private ip '' @ privateIP @ '' not found'')]\<rparr>)"
proof -
  let ?st1 = "\<lparr>world = w',
               calls = [(ListElasticIPs, None),
                        (Detach (att_ID (eip_Attachment eip)) (eip_ID eip), None)],
               stderr = [INFO (found_message eip), INFO (detached_message eip)]\<rparr>"
  have sel: "findFailOverTarget P privateIP ?st1 =
           (Inl (errors_New (''fail over instance with private ip '' @ privateIP @ '' not found'')),
            ?st1\<lparr>calls := calls ?st1 @ (ListServers, None)
               # map (\<lambda>s. (ListNetworkInterfaces (srv_ID s), None))
                   (filter (\<lambda>s. srv_Status_ID s = ServerStatusRunning P) insts)\<rparr>)"
    using list pre by (intro findFailOverTarget_none) simp_all
  show ?thesis
    using other
    by (simp add: main_ip_def located_flags [OF loc] Let_def service_Detach_unfold slog_Info_def
          sel slog_Error_def ip det)
qed

lemma main_none:
  assumes loc: "located L P flagToken flagEIP w eip"
    and ids: "checkFlagInstances L flagInstances = Inr ids"
    and det: "ServerElasticIPService_Detach P w (att_ID (eip_Attachment eip)) (eip_ID eip) = (None, w')"
    and pre: "\<forall>j\<in>set ids. j = att_ID (eip_Attachment eip) \<or> not_running P w' j"
  shows "main L P flagToken flagEIP flagInstances w =
          (1, \<lparr>world = w',
               calls = [(ListElasticIPs, None),
                        (Detach (att_ID (eip_Attachment eip)) (eip_ID eip), None)]
                 @ map (\<lambda>j. (GetServer j, None))
                     (filter (\<lambda>j. j \<noteq> att_ID (eip_Attachment eip)) ids),
               stderr = [INFO (found_message eip), INFO (detached_message eip),
                         ERROR ''no available instance found'']\<rparr>)"
  using pre
  by (simp add: main_def located_flags [OF loc] Let_def service_Detach_unfold slog_Info_def
        pickNextInstance_none slog_Error_def ids det)

section \<open>Runs that end on a failed detach or without a target\<close>

lemma detach_fails_aborted:
  assumes "located L P flagToken flagEIP w eip"
    and "ServerElasticIPService_Detach P w (att_ID (eip_Attachment eip)) (eip_ID eip) = (Some msg, w')"
  shows "checkFlagInstances L flagInstances = Inr ids
           \<Longrightarrow> main L P flagToken flagEIP flagInstances w =
                 aborted w'
                   [(ListElasticIPs, None),
                    (Detach (att_ID (eip_Attachment eip)) (eip_ID eip), Some (ProviderError msg))]
                   [found_message eip] msg"
    "checkFlagIP L flagIP = Inr privateIP \<Longrightarrow> eip_PrivateIP eip \<noteq> privateIP
           \<Longrightarrow> main_ip L P flagToken flagEIP flagIP w =
                 aborted w'
                   [(ListElasticIPs, None),
                    (Detach (att_ID (eip_Attachment eip)) (eip_ID eip), Some (ProviderError msg))]
                   [found_message eip] msg"
    "checkFlagIPs L flagIPs = Inr peers
           \<Longrightarrow> main_peers L P flagToken flagEIP flagIPs w =
                 aborted w'
                   [(ListElasticIPs, None),
                    (Detach (att_ID (eip_Attachment eip)) (eip_ID eip), Some (ProviderError msg))]
                   [found_message eip] msg"
  using main_detach_fails [OF assms(1) _ assms(2), of flagInstances ids]
    main_ip_detach_fails [OF assms(1) _ _ assms(2), of flagIP privateIP]
    main_peers_detach_fails [OF assms(1) _ assms(2), of flagIPs peers]
  by (simp_all add: aborted_def)

lemma main_none_aborted:
  assumes "located L P flagToken flagEIP w eip"
    and "checkFlagInstances L flagInstances = Inr ids"
    and "ServerElasticIPService_Detach P w (att_ID (eip_Attachment eip)) (eip_ID eip) = (None, w')"
    and "\<forall>j\<in>set ids. j = att_ID (eip_Attachment eip) \<or> not_running P w' j"
  shows "main L P flagToken flagEIP flagInstances w =
           aborted w'
             ([(ListElasticIPs, None), (Detach (att_ID (eip_Attachment eip)) (eip_ID eip), None)]
              @ map (\<lambda>j. (GetServer j, None))
                  (filter (\<lambda>j. j \<noteq> att_ID (eip_Attachment eip)) ids))
             [found_message eip, detached_message eip] ''no available instance found''"
  using main_none [OF assms] by (simp add: aborted_def)

lemma main_ip_none_aborted:
  assumes "located L P flagToken flagEIP w eip"
    and "checkFlagIP L flagIP = Inr privateIP"
    and "eip_PrivateIP eip \<noteq> privateIP"
    and "ServerElasticIPService_Detach P w (att_ID (eip_Attachment eip)) (eip_ID eip) = (None, w')"
    and "ServerService_List P w' = Inr insts"
    and "\<forall>j\<in>set insts. passed_over P w' [privateIP] j"
  shows "main_ip L P flagToken flagEIP flagIP w =
           aborted w'
             ([(ListElasticIPs, None), (Detach (att_ID (eip_Attachment eip)) (eip_ID eip), None),
               (ListServers, None)]
              @ map (\<lambda>s. (ListNetworkInterfaces (srv_ID s), None))
                  (filter (\<lambda>s. srv_Status_ID s = ServerStatusRunning P) insts))
             [found_message eip, detached_message eip]
             (''fail over instance with private ip '' @ privateIP @ '' not found'')"
  using main_ip_none [OF assms] by (simp add: aborted_def)

lemma main_peers_none_aborted:
  assumes "located L P flagToken flagEIP w eip"
    and "checkFlagIPs L flagIPs = Inr peers"
    and "ServerElasticIPService_Detach P w (att_ID (eip_Attachment eip)) (eip_ID eip) = (None, w')"
    and "ServerService_List P w' = Inr insts"
    and "\<forall>j\<in>set insts. passed_over P w' (filterPeers peers (eip_PrivateIP eip)) j"
  shows "main_peers L P flagToken flagEIP flagIPs w =
           aborted w'
             ([(ListElasticIPs, None), (Detach (att_ID (eip_Attachment eip)) (eip_ID eip), None),
               (ListServers, None)]
              @ map (\<lambda>s. (ListNetworkInterfaces (srv_ID s), None))
                  (filter (\<lambda>s. srv_Status_ID s = ServerStatusRunning P) insts))
             [found_message eip, detached_message eip] ''no available instance found''"
  using main_peers_none [OF assms] by (simp add: aborted_def)

section \<open>The locator\<close>

text \<open>
  C7.  \<open>findElasticIPID\<close> reads the listing of all elastic IPs once and returns the first
  entry whose public address is the given one (every entry before it has another public
  address).  It fails with the error "elastic ip not found" exactly when the listing
  succeeded and no entry has that public address.  It changes nothing: the provider's
  state and the error stream are as before, and the one call it adds to the trace is the
  listing.
\<close>

theorem locator_first_match:
  "(\<forall>pre item post.
      ElasticIPService_List P (world st) = Inr (pre @ item # post)
      \<and> (\<forall>x\<in>set pre. eip_PublicIP x \<noteq> eip) \<and> eip_PublicIP item = eip
      \<longrightarrow> fst (findElasticIPID P eip st) = Inr item)
   \<and> (fst (findElasticIPID P eip st) = Inl (errors_New ''elastic ip not found'')
        \<longleftrightarrow> (\<exists>items. ElasticIPService_List P (world st) = Inr items
                    \<and> (\<forall>item\<in>set items. eip_PublicIP item \<noteq> eip)))
   \<and> world (snd (findElasticIPID P eip st)) = world st
   \<and> stderr (snd (findElasticIPID P eip st)) = stderr st
   \<and> (\<exists>outcome. calls (snd (findElasticIPID P eip st)) = calls st @ [(ListElasticIPs, outcome)])"
  by (auto simp: findElasticIPID_unfold findElasticIPID_loop_first findElasticIPID_loop_not_found
           split: sum.splits)

theorem locator_first_match_witness:
  "ElasticIPService_List example (world (start (0::nat))) = Inr [spare_eip, ha_eip]
   \<and> eip_PublicIP spare_eip \<noteq> ''203.0.113.9''
   \<and> eip_PublicIP ha_eip = ''203.0.113.9''
   \<and> fst (findElasticIPID example ''203.0.113.9'' (start 0)) = Inr ha_eip
   \<and> fst (findElasticIPID example ''192.0.2.1'' (start 0)) = Inl (errors_New ''elastic ip not found'')"
proof -
  have l: "ElasticIPService_List example (world (start (0::nat))) = Inr ([spare_eip] @ ha_eip # [])"
    by (simp add: example_def scripted_def)
  have p: "\<forall>x\<in>set [spare_eip]. eip_PublicIP x \<noteq> ''203.0.113.9''"
    by (simp add: spare_eip_def)
  have q: "eip_PublicIP ha_eip = ''203.0.113.9''"
    by (simp add: ha_eip_def)
  have n: "\<forall>item\<in>set ([spare_eip] @ ha_eip # []). eip_PublicIP item \<noteq> ''192.0.2.1''"
    by (simp add: spare_eip_def ha_eip_def)
  from locator_first_match [of example "start 0" "''203.0.113.9''"] l p q
  have found: "fst (findElasticIPID example ''203.0.113.9'' (start 0)) = Inr ha_eip"
    by blast
  from locator_first_match [of example "start 0" "''192.0.2.1''"] l n
  have missing: "fst (findElasticIPID example ''192.0.2.1'' (start 0))
                   = Inl (errors_New ''elastic ip not found'')"
    by blast
  from l p q found missing show ?thesis by simp
qed

section \<open>Every error aborts the run\<close>

text \<open>
  C8, as stated, fails on the command line.  The flags are parsed by the \<open>flag\<close> package
  with its own error handling, before any check of the program.  Asked for help with
  \<open>-h\<close>, the instance-ID entry point ends with status 0 having made no call, attached
  nothing and found nothing already attached; given a flag that is not declared, it ends
  with status 2 after eight lines on the error stream, the message and the usage text,
  none of them a record at the level of error.
\<close>

theorem the_flag_package_ends_a_run_its_own_way:
  "fst (program ipv4 example ''ha-flow'' [''-h''] 0) = 0
   \<and> calls (snd (program ipv4 example ''ha-flow'' [''-h''] 0)) = []
   \<and> \<not> attached (snd (program ipv4 example ''ha-flow'' [''-h''] 0))
   \<and> \<not> already_attached (snd (program ipv4 example ''ha-flow'' [''-h''] 0))
   \<and> stderr (snd (program ipv4 example ''ha-flow'' [''-h''] 0))
       = [TEXT ''Usage of ha-flow:'',
          TEXT ''  -eip string'',
          TEXT (''    '' @ CHR 0x09 # ''High-Availability Elastic IP''),
          TEXT ''  -instance_ids string'',
          TEXT (''    '' @ CHR 0x09 # ''High-Availability Instance IDs (comma-separated)''),
          TEXT ''  -token string'',
          TEXT (''    '' @ CHR 0x09 # ''MyFlow API token'')]
   \<and> fst (program ipv4 example ''ha-flow'' [''-verbose''] 0) = 2
   \<and> calls (snd (program ipv4 example ''ha-flow'' [''-verbose''] 0)) = []
   \<and> stderr (snd (program ipv4 example ''ha-flow'' [''-verbose''] 0))
       = TEXT ''flag provided but not defined: -verbose''
         # stderr (snd (program ipv4 example ''ha-flow'' [''-h''] 0))
   \<and> length (stderr (snd (program ipv4 example ''ha-flow'' [''-verbose''] 0))) = 8"
proof -
  have h: "program ipv4 example ''ha-flow'' [''-h''] 0
    = (0, \<lparr>world = 0, calls = [],
           stderr = [TEXT ''Usage of ha-flow:'',
          TEXT ''  -eip string'',
          TEXT (''    '' @ CHR 0x09 # ''High-Availability Elastic IP''),
          TEXT ''  -instance_ids string'',
          TEXT (''    '' @ CHR 0x09 # ''High-Availability Instance IDs (comma-separated)''),
          TEXT ''  -token string'',
          TEXT (''    '' @ CHR 0x09 # ''MyFlow API token'')]\<rparr>)"
    by code_simp
  have v: "program ipv4 example ''ha-flow'' [''-verbose''] 0
    = (2, \<lparr>world = 0, calls = [],
           stderr = [TEXT ''flag provided but not defined: -verbose'',
          TEXT ''Usage of ha-flow:'',
          TEXT ''  -eip string'',
          TEXT (''    '' @ CHR 0x09 # ''High-Availability Elastic IP''),
          TEXT ''  -instance_ids string'',
          TEXT (''    '' @ CHR 0x09 # ''High-Availability Instance IDs (comma-separated)''),
          TEXT ''  -token string'',
          TEXT (''    '' @ CHR 0x09 # ''MyFlow API token'')]\<rparr>)"
    by code_simp
  show ?thesis
    unfolding h v by (simp add: attached_def already_attached_def)
qed

text \<open>
  C8, amended.  When \<open>flag.Parse\<close> ends the process, the status and the text are the
  package's and no call is made; when it returns, the run is that of the rest of \<open>main\<close>
  on the values of the flags.  For that run, whichever entry point it is, and whatever
  the flags and the provider do: the exit status is 0 or 1; no call of the trace but the
  last can have failed, so nothing is called after a failed call, neither a retry nor a
  compensating call; the status is 1 exactly when the error stream ends with its one and
  only error line, and 0 exactly when it has no error line; a failed last call ends the
  run with status 1 and that call's error as the message; the status is 0 exactly when
  the attach was done or, for the \<open>-ip\<close> entry point, the elastic IP was found already
  attached to the target; with status 0 every call succeeded.  And every error the
  program itself raises ends the run where it is raised, with status 1 and its message as
  the error line: a missing token, a missing or unparsable address of the elastic IP, a
  missing or unparsable third flag, before any call; an elastic IP that the listing does
  not have, or a listing that fails, after that one call; a failed detach, after it; no
  instance to pick, no interface in the subnet, a subnet or a private address that does
  not parse, and no instance with the wanted address, after the detach and the reads of
  the selection.
\<close>

theorem errors_abort_at_first_occurrence:
  "(flag_Parse L init_flags prog args = os_Exit status usage
      \<longrightarrow> program L P prog args w = (status, \<lparr>world = w, calls = [], stderr = map TEXT usage\<rparr>))
   \<and> (flag_Parse L init_flags prog args = flag_set actual
      \<longrightarrow> program L P prog args w
        = main L P (flag_value init_flags actual ''token'') (flag_value init_flags actual ''eip'')
            (flag_value init_flags actual ''instance_ids'') w)
   \<and> (flag_Parse L init_flags_ip prog args = os_Exit status usage
      \<longrightarrow> program_ip L P prog args w = (status, \<lparr>world = w, calls = [], stderr = map TEXT usage\<rparr>))
   \<and> (flag_Parse L init_flags_ip prog args = flag_set actual
      \<longrightarrow> program_ip L P prog args w
        = main_ip L P (flag_value init_flags_ip actual ''token'') (flag_value init_flags_ip actual ''eip'')
            (flag_value init_flags_ip actual ''ip'') w)
   \<and> (flag_Parse L init_flags_peers prog args = os_Exit status usage
      \<longrightarrow> program_peers L P prog args w = (status, \<lparr>world = w, calls = [], stderr = map TEXT usage\<rparr>))
   \<and> (flag_Parse L init_flags_peers prog args = flag_set actual
      \<longrightarrow> program_peers L P prog args w
        = main_peers L P (flag_value init_flags_peers actual ''token'') (flag_value init_flags_peers actual ''eip'')
            (flag_value init_flags_peers actual ''peers'') w)
   \<and> (res = main L P flagToken flagEIP flagInstances w
      \<or> res = main_ip L P flagToken flagEIP flagIP w
      \<or> res = main_peers L P flagToken flagEIP flagIPs w
      \<longrightarrow> (fst res = 0 \<or> fst res = 1)
      \<and> list_all succeeded (butlast (calls (snd res)))
      \<and> (fst res = 1 \<longleftrightarrow> (\<exists>infos msg. stderr (snd res) = infos @ [ERROR msg]
                                \<and> list_all (\<lambda>l. \<not> is_ERROR l) infos))
      \<and> (fst res = 0 \<longleftrightarrow> list_all (\<lambda>l. \<not> is_ERROR l) (stderr (snd res)))
      \<and> (\<forall>c err. calls (snd res) \<noteq> [] \<and> last (calls (snd res)) = (c, Some err)
             \<longrightarrow> fst res = 1 \<and> last (stderr (snd res)) = ERROR (Error err))
      \<and> (fst res = 0 \<longleftrightarrow> attached (snd res) \<or> already_attached (snd res))
      \<and> (fst res = 0 \<longrightarrow> list_all succeeded (calls (snd res))))
   \<and> (flagToken = []
      \<longrightarrow> main L P flagToken flagEIP flagInstances w = aborted w [] [] ''missing required flag: --token''
      \<and> main_ip L P flagToken flagEIP flagIP w = aborted w [] [] ''missing required flag: --token''
      \<and> main_peers L P flagToken flagEIP flagIPs w = aborted w [] [] ''missing required flag: --token'')
   \<and> (flagToken \<noteq> [] \<and> flagEIP = []
      \<longrightarrow> main L P flagToken flagEIP flagInstances w = aborted w [] [] ''missing required flag: --eip''
      \<and> main_ip L P flagToken flagEIP flagIP w = aborted w [] [] ''missing required flag: --eip''
      \<and> main_peers L P flagToken flagEIP flagIPs w = aborted w [] [] ''missing required flag: --eip'')
   \<and> (flagToken \<noteq> [] \<and> flagEIP \<noteq> [] \<and> net_ParseIP L flagEIP = None
      \<longrightarrow> main L P flagToken flagEIP flagInstances w = aborted w [] [] (''invalid eip: '' @ flagEIP)
      \<and> main_ip L P flagToken flagEIP flagIP w = aborted w [] [] (''invalid eip: '' @ flagEIP)
      \<and> main_peers L P flagToken flagEIP flagIPs w = aborted w [] [] (''invalid eip: '' @ flagEIP))
   \<and> (flags_ok L flagToken flagEIP \<and> flagInstances = []
      \<longrightarrow> main L P flagToken flagEIP flagInstances w = aborted w [] [] ''missing required flag: --instance_ids'')
   \<and> (flags_ok L flagToken flagEIP \<and> flagInstances \<noteq> []
      \<and> strings_Split flagInstances CHR '','' = vpre @ val # vpost
      \<and> (\<forall>v\<in>set vpre. strconv_Atoi L v \<noteq> None) \<and> strconv_Atoi L val = None
      \<longrightarrow> main L P flagToken flagEIP flagInstances w = aborted w [] [] (''invalid instance_id: '' @ val))
   \<and> (flags_ok L flagToken flagEIP \<and> net_ParseIP L flagIP = None
      \<longrightarrow> main_ip L P flagToken flagEIP flagIP w = aborted w [] [] ''invalid ip: <nil>'')
   \<and> (flags_ok L flagToken flagEIP
      \<and> strings_Split flagIPs CHR '','' = vpre @ val # vpost
      \<and> (\<forall>v\<in>set vpre. net_ParseIP L v \<noteq> None) \<and> net_ParseIP L val = None
      \<longrightarrow> main_peers L P flagToken flagEIP flagIPs w = aborted w [] [] (''invalid ip: '' @ val))
   \<and> (flags_ok L flagToken flagEIP \<and> ElasticIPService_List P w = Inl msg
      \<longrightarrow> (checkFlagInstances L flagInstances = Inr ids
         \<longrightarrow> main L P flagToken flagEIP flagInstances w = aborted w [(ListElasticIPs, Some (ProviderError msg))] [] msg)
      \<and> (checkFlagIP L flagIP = Inr privateIP
         \<longrightarrow> main_ip L P flagToken flagEIP flagIP w = aborted w [(ListElasticIPs, Some (ProviderError msg))] [] msg)
      \<and> (checkFlagIPs L flagIPs = Inr peers
         \<longrightarrow> main_peers L P flagToken flagEIP flagIPs w = aborted w [(ListElasticIPs, Some (ProviderError msg))] [] msg))
   \<and> (flags_ok L flagToken flagEIP \<and> ElasticIPService_List P w = Inr eips
      \<and> (\<forall>x\<in>set eips. eip_PublicIP x \<noteq> flagEIP)
      \<longrightarrow> (checkFlagInstances L flagInstances = Inr ids
         \<longrightarrow> main L P flagToken flagEIP flagInstances w = aborted w [(ListElasticIPs, None)] [] ''elastic ip not found'')
      \<and> (checkFlagIP L flagIP = Inr privateIP
         \<longrightarrow> main_ip L P flagToken flagEIP flagIP w = aborted w [(ListElasticIPs, None)] [] ''elastic ip not found'')
      \<and> (checkFlagIPs L flagIPs = Inr peers
         \<longrightarrow> main_peers L P flagToken flagEIP flagIPs w = aborted w [(ListElasticIPs, None)] [] ''elastic ip not found''))
   \<and> (located L P flagToken flagEIP w eip
      \<and> ServerElasticIPService_Detach P w (att_ID (eip_Attachment eip)) (eip_ID eip) = (Some msg, w')
      \<longrightarrow> (checkFlagInstances L flagInstances = Inr ids
         \<longrightarrow> main L P flagToken flagEIP flagInstances w = aborted w' [(ListElasticIPs, None),
              (Detach (att_ID (eip_Attachment eip)) (eip_ID eip), Some (ProviderError msg))] [found_message eip] msg)
      \<and> (checkFlagIP L flagIP = Inr privateIP \<and> eip_PrivateIP eip \<noteq> privateIP
         \<longrightarrow> main_ip L P flagToken flagEIP flagIP w = aborted w' [(ListElasticIPs, None),
              (Detach (att_ID (eip_Attachment eip)) (eip_ID eip), Some (ProviderError msg))] [found_message eip] msg)
      \<and> (checkFlagIPs L flagIPs = Inr peers
         \<longrightarrow> main_peers L P flagToken flagEIP flagIPs w = aborted w' [(ListElasticIPs, None),
              (Detach (att_ID (eip_Attachment eip)) (eip_ID eip), Some (ProviderError msg))] [found_message eip] msg))
   \<and> (located L P flagToken flagEIP w eip \<and> checkFlagInstances L flagInstances = Inr ids
      \<and> ServerElasticIPService_Detach P w (att_ID (eip_Attachment eip)) (eip_ID eip) = (None, w')
      \<and> (\<forall>j\<in>set ids. j = att_ID (eip_Attachment eip) \<or> not_running P w' j)
      \<longrightarrow> main L P flagToken flagEIP flagInstances w =
          aborted w'
            ([(ListElasticIPs, None), (Detach (att_ID (eip_Attachment eip)) (eip_ID eip), None)]
              @ map (\<lambda>j. (GetServer j, None)) (filter (\<lambda>j. j \<noteq> att_ID (eip_Attachment eip)) ids))
            [found_message eip, detached_message eip] ''no available instance found'')
   \<and> (located L P flagToken flagEIP w eip
      \<and> checkFlagInstances L flagInstances = Inr (pre @ i # post)
      \<and> ServerElasticIPService_Detach P w (att_ID (eip_Attachment eip)) (eip_ID eip) = (None, w')
      \<and> (\<forall>j\<in>set pre. j = att_ID (eip_Attachment eip) \<or> not_running P w' j)
      \<and> i \<noteq> att_ID (eip_Attachment eip) \<and> running P w' i
      \<and> NetworkInterfaceService_List P w' i = Inr nics
      \<and> net_ParseIP L (eip_PrivateIP eip) = Some ip
      \<and> (\<forall>x\<in>set nics. outside_subnet L ip x)
      \<longrightarrow> main L P flagToken flagEIP flagInstances w =
          aborted w'
            ([(ListElasticIPs, None), (Detach (att_ID (eip_Attachment eip)) (eip_ID eip), None)]
              @ map (\<lambda>j. (GetServer j, None)) (filter (\<lambda>j. j \<noteq> att_ID (eip_Attachment eip)) pre @ [i])
              @ [(ListNetworkInterfaces i, None)])
            [found_message eip, detached_message eip,
              ''picked next available instance with id '' @ quoted (fmt_int i)]
            ''no network interface in same network as previous private ip found'')
   \<and> (located L P flagToken flagEIP w eip
      \<and> checkFlagInstances L flagInstances = Inr (pre @ i # post)
      \<and> ServerElasticIPService_Detach P w (att_ID (eip_Attachment eip)) (eip_ID eip) = (None, w')
      \<and> (\<forall>j\<in>set pre. j = att_ID (eip_Attachment eip) \<or> not_running P w' j)
      \<and> i \<noteq> att_ID (eip_Attachment eip) \<and> running P w' i
      \<and> NetworkInterfaceService_List P w' i = Inr (npre @ nic # npost)
      \<and> net_ParseIP L (eip_PrivateIP eip) = Some ip
      \<and> (\<forall>x\<in>set npre. outside_subnet L ip x)
      \<and> net_ParseCIDR L (nic_Network_CIDR nic) = None
      \<longrightarrow> main L P flagToken flagEIP flagInstances w =
          aborted w'
            ([(ListElasticIPs, None), (Detach (att_ID (eip_Attachment eip)) (eip_ID eip), None)]
              @ map (\<lambda>j. (GetServer j, None)) (filter (\<lambda>j. j \<noteq> att_ID (eip_Attachment eip)) pre @ [i])
              @ [(ListNetworkInterfaces i, None)])
            [found_message eip, detached_message eip,
              ''picked next available instance with id '' @ quoted (fmt_int i)]
            ''invalid CIDR'')
   \<and> (located L P flagToken flagEIP w eip
      \<and> checkFlagInstances L flagInstances = Inr (pre @ i # post)
      \<and> ServerElasticIPService_Detach P w (att_ID (eip_Attachment eip)) (eip_ID eip) = (None, w')
      \<and> (\<forall>j\<in>set pre. j = att_ID (eip_Attachment eip) \<or> not_running P w' j)
      \<and> i \<noteq> att_ID (eip_Attachment eip) \<and> running P w' i
      \<and> NetworkInterfaceService_List P w' i = Inr nics
      \<and> net_ParseIP L (eip_PrivateIP eip) = None
      \<longrightarrow> main L P flagToken flagEIP flagInstances w =
          aborted w'
            ([(ListElasticIPs, None), (Detach (att_ID (eip_Attachment eip)) (eip_ID eip), None)]
              @ map (\<lambda>j. (GetServer j, None)) (filter (\<lambda>j. j \<noteq> att_ID (eip_Attachment eip)) pre @ [i])
              @ [(ListNetworkInterfaces i, None)])
            [found_message eip, detached_message eip,
              ''picked next available instance with id '' @ quoted (fmt_int i)]
            ''invalid private IP'')
   \<and> (located L P flagToken flagEIP w eip \<and> checkFlagIP L flagIP = Inr privateIP
      \<and> eip_PrivateIP eip \<noteq> privateIP
      \<and> ServerElasticIPService_Detach P w (att_ID (eip_Attachment eip)) (eip_ID eip) = (None, w')
      \<and> ServerService_List P w' = Inr insts
      \<and> (\<forall>j\<in>set insts. passed_over P w' [privateIP] j)
      \<longrightarrow> main_ip L P flagToken flagEIP flagIP w =
          aborted w'
            ([(ListElasticIPs, None), (Detach (att_ID (eip_Attachment eip)) (eip_ID eip), None), (ListServers, None)]
              @ map (\<lambda>s. (ListNetworkInterfaces (srv_ID s), None))
                  (filter (\<lambda>s. srv_Status_ID s = ServerStatusRunning P) insts))
            [found_message eip, detached_message eip]
            (''fail over instance with private ip '' @ privateIP @ '' not found''))
   \<and> (located L P flagToken flagEIP w eip \<and> checkFlagIPs L flagIPs = Inr peers
      \<and> ServerElasticIPService_Detach P w (att_ID (eip_Attachment eip)) (eip_ID eip) = (None, w')
      \<and> ServerService_List P w' = Inr insts
      \<and> (\<forall>j\<in>set insts. passed_over P w' (filterPeers peers (eip_PrivateIP eip)) j)
      \<longrightarrow> main_peers L P flagToken flagEIP flagIPs w =
          aborted w'
            ([(ListElasticIPs, None), (Detach (att_ID (eip_Attachment eip)) (eip_ID eip), None), (ListServers, None)]
              @ map (\<lambda>s. (ListNetworkInterfaces (srv_ID s), None))
                  (filter (\<lambda>s. srv_Status_ID s = ServerStatusRunning P) insts))
            [found_message eip, detached_message eip] ''no available instance found'')"
proof (intro conjI)
  show "flag_Parse L init_flags prog args = os_Exit status usage
      \<longrightarrow> program L P prog args w = (status, \<lparr>world = w, calls = [], stderr = map TEXT usage\<rparr>)"
    by (simp add: program_unfold)
  show "flag_Parse L init_flags prog args = flag_set actual
      \<longrightarrow> program L P prog args w
        = main L P (flag_value init_flags actual ''token'') (flag_value init_flags actual ''eip'')
            (flag_value init_flags actual ''instance_ids'') w"
    by (simp add: program_unfold)
  show "flag_Parse L init_flags_ip prog args = os_Exit status usage
      \<longrightarrow> program_ip L P prog args w = (status, \<lparr>world = w, calls = [], stderr = map TEXT usage\<rparr>)"
    by (simp add: program_unfold)
  show "flag_Parse L init_flags_ip prog args = flag_set actual
      \<longrightarrow> program_ip L P prog args w
        = main_ip L P (flag_value init_flags_ip actual ''token'') (flag_value init_flags_ip actual ''eip'')
            (flag_value init_flags_ip actual ''ip'') w"
    by (simp add: program_unfold)
  show "flag_Parse L init_flags_peers prog args = os_Exit status usage
      \<longrightarrow> program_peers L P prog args w = (status, \<lparr>world = w, calls = [], stderr = map TEXT usage\<rparr>)"
    by (simp add: program_unfold)
  show "flag_Parse L init_flags_peers prog args = flag_set actual
      \<longrightarrow> program_peers L P prog args w
        = main_peers L P (flag_value init_flags_peers actual ''token'') (flag_value init_flags_peers actual ''eip'')
            (flag_value init_flags_peers actual ''peers'') w"
    by (simp add: program_unfold)
  show "res = main L P flagToken flagEIP flagInstances w
      \<or> res = main_ip L P flagToken flagEIP flagIP w
      \<or> res = main_peers L P flagToken flagEIP flagIPs w
      \<longrightarrow> (fst res = 0 \<or> fst res = 1)
      \<and> list_all succeeded (butlast (calls (snd res)))
      \<and> (fst res = 1 \<longleftrightarrow> (\<exists>infos msg. stderr (snd res) = infos @ [ERROR msg]
                                \<and> list_all (\<lambda>l. \<not> is_ERROR l) infos))
      \<and> (fst res = 0 \<longleftrightarrow> list_all (\<lambda>l. \<not> is_ERROR l) (stderr (snd res)))
      \<and> (\<forall>c err. calls (snd res) \<noteq> [] \<and> last (calls (snd res)) = (c, Some err)
             \<longrightarrow> fst res = 1 \<and> last (stderr (snd res)) = ERROR (Error err))
      \<and> (fst res = 0 \<longleftrightarrow> attached (snd res) \<or> already_attached (snd res))
      \<and> (fst res = 0 \<longrightarrow> list_all succeeded (calls (snd res)))"
    proof (intro impI)
    assume r: "res = main L P flagToken flagEIP flagInstances w
      \<or> res = main_ip L P flagToken flagEIP flagIP w
      \<or> res = main_peers L P flagToken flagEIP flagIPs w"
    then consider
        (ids) "fail_fast attached res"
      | (ip) "fail_fast (\<lambda>st. attached st \<or> already_attached st) res"
      using main_fail_fast [of L P flagToken flagEIP flagInstances w]
        main_ip_fail_fast [of L P flagToken flagEIP flagIP w]
        main_peers_fail_fast [of L P flagToken flagEIP flagIPs w]
      by auto
    then show "(fst res = 0 \<or> fst res = 1)
      \<and> list_all succeeded (butlast (calls (snd res)))
      \<and> (fst res = 1 \<longleftrightarrow> (\<exists>infos msg. stderr (snd res) = infos @ [ERROR msg]
                                \<and> list_all (\<lambda>l. \<not> is_ERROR l) infos))
      \<and> (fst res = 0 \<longleftrightarrow> list_all (\<lambda>l. \<not> is_ERROR l) (stderr (snd res)))
      \<and> (\<forall>c err. calls (snd res) \<noteq> [] \<and> last (calls (snd res)) = (c, Some err)
             \<longrightarrow> fst res = 1 \<and> last (stderr (snd res)) = ERROR (Error err))
      \<and> (fst res = 0 \<longleftrightarrow> attached (snd res) \<or> already_attached (snd res))
      \<and> (fst res = 0 \<longrightarrow> list_all succeeded (calls (snd res)))"
    proof cases
      case ids
      then show ?thesis by (rule fail_fast_summary) simp
    next
      case ip
      then show ?thesis by (rule fail_fast_summary) simp
    qed
  qed
  show "flagToken = []
      \<longrightarrow> main L P flagToken flagEIP flagInstances w = aborted w [] [] ''missing required flag: --token''
      \<and> main_ip L P flagToken flagEIP flagIP w = aborted w [] [] ''missing required flag: --token''
      \<and> main_peers L P flagToken flagEIP flagIPs w = aborted w [] [] ''missing required flag: --token''"
    by (simp add: config_token)
  show "flagToken \<noteq> [] \<and> flagEIP = []
      \<longrightarrow> main L P flagToken flagEIP flagInstances w = aborted w [] [] ''missing required flag: --eip''
      \<and> main_ip L P flagToken flagEIP flagIP w = aborted w [] [] ''missing required flag: --eip''
      \<and> main_peers L P flagToken flagEIP flagIPs w = aborted w [] [] ''missing required flag: --eip''"
    by (simp add: config_eip_missing)
  show "flagToken \<noteq> [] \<and> flagEIP \<noteq> [] \<and> net_ParseIP L flagEIP = None
      \<longrightarrow> main L P flagToken flagEIP flagInstances w = aborted w [] [] (''invalid eip: '' @ flagEIP)
      \<and> main_ip L P flagToken flagEIP flagIP w = aborted w [] [] (''invalid eip: '' @ flagEIP)
      \<and> main_peers L P flagToken flagEIP flagIPs w = aborted w [] [] (''invalid eip: '' @ flagEIP)"
    by (simp add: config_eip_invalid)
  show "flags_ok L flagToken flagEIP \<and> flagInstances = []
      \<longrightarrow> main L P flagToken flagEIP flagInstances w = aborted w [] [] ''missing required flag: --instance_ids''"
    by (simp add: config_instances_missing)
  show "flags_ok L flagToken flagEIP \<and> flagInstances \<noteq> []
      \<and> strings_Split flagInstances CHR '','' = vpre @ val # vpost
      \<and> (\<forall>v\<in>set vpre. strconv_Atoi L v \<noteq> None) \<and> strconv_Atoi L val = None
      \<longrightarrow> main L P flagToken flagEIP flagInstances w = aborted w [] [] (''invalid instance_id: '' @ val)"
    by (intro impI config_instances_invalid) blast+
  show "flags_ok L flagToken flagEIP \<and> net_ParseIP L flagIP = None
      \<longrightarrow> main_ip L P flagToken flagEIP flagIP w = aborted w [] [] ''invalid ip: <nil>''"
    by (simp add: config_ip_invalid)
  show "flags_ok L flagToken flagEIP
      \<and> strings_Split flagIPs CHR '','' = vpre @ val # vpost
      \<and> (\<forall>v\<in>set vpre. net_ParseIP L v \<noteq> None) \<and> net_ParseIP L val = None
      \<longrightarrow> main_peers L P flagToken flagEIP flagIPs w = aborted w [] [] (''invalid ip: '' @ val)"
    by (intro impI config_ips_invalid) blast+
  show "flags_ok L flagToken flagEIP \<and> ElasticIPService_List P w = Inl msg
      \<longrightarrow> (checkFlagInstances L flagInstances = Inr ids
         \<longrightarrow> main L P flagToken flagEIP flagInstances w = aborted w [(ListElasticIPs, Some (ProviderError msg))] [] msg)
      \<and> (checkFlagIP L flagIP = Inr privateIP
         \<longrightarrow> main_ip L P flagToken flagEIP flagIP w = aborted w [(ListElasticIPs, Some (ProviderError msg))] [] msg)
      \<and> (checkFlagIPs L flagIPs = Inr peers
         \<longrightarrow> main_peers L P flagToken flagEIP flagIPs w = aborted w [(ListElasticIPs, Some (ProviderError msg))] [] msg)"
    by (simp add: listing_fails)
  show "flags_ok L flagToken flagEIP \<and> ElasticIPService_List P w = Inr eips
      \<and> (\<forall>x\<in>set eips. eip_PublicIP x \<noteq> flagEIP)
      \<longrightarrow> (checkFlagInstances L flagInstances = Inr ids
         \<longrightarrow> main L P flagToken flagEIP flagInstances w = aborted w [(ListElasticIPs, None)] [] ''elastic ip not found'')
      \<and> (checkFlagIP L flagIP = Inr privateIP
         \<longrightarrow> main_ip L P flagToken flagEIP flagIP w = aborted w [(ListElasticIPs, None)] [] ''elastic ip not found'')
      \<and> (checkFlagIPs L flagIPs = Inr peers
         \<longrightarrow> main_peers L P flagToken flagEIP flagIPs w = aborted w [(ListElasticIPs, None)] [] ''elastic ip not found'')"
    by (intro impI conjI not_found) blast+
  show "located L P flagToken flagEIP w eip
      \<and> ServerElasticIPService_Detach P w (att_ID (eip_Attachment eip)) (eip_ID eip) = (Some msg, w')
      \<longrightarrow> (checkFlagInstances L flagInstances = Inr ids
         \<longrightarrow> main L P flagToken flagEIP flagInstances w = aborted w' [(ListElasticIPs, None),
              (Detach (att_ID (eip_Attachment eip)) (eip_ID eip), Some (ProviderError msg))] [found_message eip] msg)
      \<and> (checkFlagIP L flagIP = Inr privateIP \<and> eip_PrivateIP eip \<noteq> privateIP
         \<longrightarrow> main_ip L P flagToken flagEIP flagIP w = aborted w' [(ListElasticIPs, None),
              (Detach (att_ID (eip_Attachment eip)) (eip_ID eip), Some (ProviderError msg))] [found_message eip] msg)
      \<and> (checkFlagIPs L flagIPs = Inr peers
         \<longrightarrow> main_peers L P flagToken flagEIP flagIPs w = aborted w' [(ListElasticIPs, None),
              (Detach (att_ID (eip_Attachment eip)) (eip_ID eip), Some (ProviderError msg))] [found_message eip] msg)"
    by (intro impI conjI detach_fails_aborted) blast+
  show "located L P flagToken flagEIP w eip \<and> checkFlagInstances L flagInstances = Inr ids
      \<and> ServerElasticIPService_Detach P w (att_ID (eip_Attachment eip)) (eip_ID eip) = (None, w')
      \<and> (\<forall>j\<in>set ids. j = att_ID (eip_Attachment eip) \<or> not_running P w' j)
      \<longrightarrow> main L P flagToken flagEIP flagInstances w =
          aborted w'
            ([(ListElasticIPs, None), (Detach (att_ID (eip_Attachment eip)) (eip_ID eip), None)]
              @ map (\<lambda>j. (GetServer j, None)) (filter (\<lambda>j. j \<noteq> att_ID (eip_Attachment eip)) ids))
            [found_message eip, detached_message eip] ''no available instance found''"
    by (intro impI main_none_aborted) blast+
  show "located L P flagToken flagEIP w eip
      \<and> checkFlagInstances L flagInstances = Inr (pre @ i # post)
      \<and> ServerElasticIPService_Detach P w (att_ID (eip_Attachment eip)) (eip_ID eip) = (None, w')
      \<and> (\<forall>j\<in>set pre. j = att_ID (eip_Attachment eip) \<or> not_running P w' j)
      \<and> i \<noteq> att_ID (eip_Attachment eip) \<and> running P w' i
      \<and> NetworkInterfaceService_List P w' i = Inr nics
      \<and> net_ParseIP L (eip_PrivateIP eip) = Some ip
      \<and> (\<forall>x\<in>set nics. outside_subnet L ip x)
      \<longrightarrow> main L P flagToken flagEIP flagInstances w =
          aborted w'
            ([(ListElasticIPs, None), (Detach (att_ID (eip_Attachment eip)) (eip_ID eip), None)]
              @ map (\<lambda>j. (GetServer j, None)) (filter (\<lambda>j. j \<noteq> att_ID (eip_Attachment eip)) pre @ [i])
              @ [(ListNetworkInterfaces i, None)])
            [found_message eip, detached_message eip,
              ''picked next available instance with id '' @ quoted (fmt_int i)]
            ''no network interface in same network as previous private ip found''"
    by (intro impI main_no_interface_aborted) blast+
  show "located L P flagToken flagEIP w eip
      \<and> checkFlagInstances L flagInstances = Inr (pre @ i # post)
      \<and> ServerElasticIPService_Detach P w (att_ID (eip_Attachment eip)) (eip_ID eip) = (None, w')
      \<and> (\<forall>j\<in>set pre. j = att_ID (eip_Attachment eip) \<or> not_running P w' j)
      \<and> i \<noteq> att_ID (eip_Attachment eip) \<and> running P w' i
      \<and> NetworkInterfaceService_List P w' i = Inr (npre @ nic # npost)
      \<and> net_ParseIP L (eip_PrivateIP eip) = Some ip
      \<and> (\<forall>x\<in>set npre. outside_subnet L ip x)
      \<and> net_ParseCIDR L (nic_Network_CIDR nic) = None
      \<longrightarrow> main L P flagToken flagEIP flagInstances w =
          aborted w'
            ([(ListElasticIPs, None), (Detach (att_ID (eip_Attachment eip)) (eip_ID eip), None)]
              @ map (\<lambda>j. (GetServer j, None)) (filter (\<lambda>j. j \<noteq> att_ID (eip_Attachment eip)) pre @ [i])
              @ [(ListNetworkInterfaces i, None)])
            [found_message eip, detached_message eip,
              ''picked next available instance with id '' @ quoted (fmt_int i)]
            ''invalid CIDR''"
    by (intro impI main_invalid_CIDR_aborted) blast+
  show "located L P flagToken flagEIP w eip
      \<and> checkFlagInstances L flagInstances = Inr (pre @ i # post)
      \<and> ServerElasticIPService_Detach P w (att_ID (eip_Attachment eip)) (eip_ID eip) = (None, w')
      \<and> (\<forall>j\<in>set pre. j = att_ID (eip_Attachment eip) \<or> not_running P w' j)
      \<and> i \<noteq> att_ID (eip_Attachment eip) \<and> running P w' i
      \<and> NetworkInterfaceService_List P w' i = Inr nics
      \<and> net_ParseIP L (eip_PrivateIP eip) = None
      \<longrightarrow> main L P flagToken flagEIP flagInstances w =
          aborted w'
            ([(ListElasticIPs, None), (Detach (att_ID (eip_Attachment eip)) (eip_ID eip), None)]
              @ map (\<lambda>j. (GetServer j, None)) (filter (\<lambda>j. j \<noteq> att_ID (eip_Attachment eip)) pre @ [i])
              @ [(ListNetworkInterfaces i, None)])
            [found_message eip, detached_message eip,
              ''picked next available instance with id '' @ quoted (fmt_int i)]
            ''invalid private IP''"
    by (intro impI main_unparsable_aborted) blast+
  show "located L P flagToken flagEIP w eip \<and> checkFlagIP L flagIP = Inr privateIP
      \<and> eip_PrivateIP eip \<noteq> privateIP
      \<and> ServerElasticIPService_Detach P w (att_ID (eip_Attachment eip)) (eip_ID eip) = (None, w')
      \<and> ServerService_List P w' = Inr insts
      \<and> (\<forall>j\<in>set insts. passed_over P w' [privateIP] j)
      \<longrightarrow> main_ip L P flagToken flagEIP flagIP w =
          aborted w'
            ([(ListElasticIPs, None), (Detach (att_ID (eip_Attachment eip)) (eip_ID eip), None), (ListServers, None)]
              @ map (\<lambda>s. (ListNetworkInterfaces (srv_ID s), None))
                  (filter (\<lambda>s. srv_Status_ID s = ServerStatusRunning P) insts))
            [found_message eip, detached_message eip]
            (''fail over instance with private ip '' @ privateIP @ '' not found'')"
    by (intro impI main_ip_none_aborted) blast+
  show "located L P flagToken flagEIP w eip \<and> checkFlagIPs L flagIPs = Inr peers
      \<and> ServerElasticIPService_Detach P w (att_ID (eip_Attachment eip)) (eip_ID eip) = (None, w')
      \<and> ServerService_List P w' = Inr insts
      \<and> (\<forall>j\<in>set insts. passed_over P w' (filterPeers peers (eip_PrivateIP eip)) j)
      \<longrightarrow> main_peers L P flagToken flagEIP flagIPs w =
          aborted w'
            ([(ListElasticIPs, None), (Detach (att_ID (eip_Attachment eip)) (eip_ID eip), None), (ListServers, None)]
              @ map (\<lambda>s. (ListNetworkInterfaces (srv_ID s), None))
                  (filter (\<lambda>s. srv_Status_ID s = ServerStatusRunning P) insts))
            [found_message eip, detached_message eip] ''no available instance found''"
    by (intro impI main_peers_none_aborted) blast+
qed

text \<open>
  With no argument at all \<open>flag.Parse\<close> returns, every flag is empty, and the run ends
  on the missing token before any call.  With the candidates B alone, which is stopped,
  the run detaches the elastic IP, finds no instance and ends with status 1, its calls
  all successful and no attach among them.
\<close>

theorem errors_abort_at_first_occurrence_witness:
  "flag_Parse ipv4 init_flags ''ha-flow'' [] = flag_set []
   \<and> flag_value init_flags [] ''token'' = []
   \<and> program ipv4 example ''ha-flow'' [] 0 = aborted 0 [] [] ''missing required flag: --token''
   \<and> located ipv4 example ''secret'' ''203.0.113.9'' 0 ha_eip
   \<and> checkFlagInstances ipv4 ''2'' = Inr [2]
   \<and> not_running example 1 2
   \<and> main ipv4 example ''secret'' ''203.0.113.9'' ''2'' 0
       = aborted 1 [(ListElasticIPs, None), (Detach 1 7, None), (GetServer 2, None)]
           [found_message ha_eip, detached_message ha_eip] ''no available instance found''
   \<and> \<not> attached (snd (main ipv4 example ''secret'' ''203.0.113.9'' ''2'' 0))
   \<and> \<not> list_all (\<lambda>l. \<not> is_ERROR l) (stderr (snd (main ipv4 example ''secret'' ''203.0.113.9'' ''2'' 0)))"
proof -
  let ?res = "main ipv4 example ''secret'' ''203.0.113.9'' ''2'' (0::nat)"
  have parsed: "flag_Parse ipv4 init_flags ''ha-flow'' [] = flag_set []" by code_simp
  have token: "flag_value init_flags [] ''token'' = []" by code_simp
  have loc: "located ipv4 example ''secret'' ''203.0.113.9'' 0 ha_eip" by code_simp
  have ids: "checkFlagInstances ipv4 ''2'' = Inr [2]" by code_simp
  have det: "ServerElasticIPService_Detach example 0 (att_ID (eip_Attachment ha_eip)) (eip_ID ha_eip)
               = (None, 1)" by code_simp
  have down: "not_running example 1 2" by code_simp
  have f: "att_ID (eip_Attachment ha_eip) = 1" "eip_ID ha_eip = 7" by code_simp+
  note claim = errors_abort_at_first_occurrence
    [where L = ipv4 and P = example and prog = "''ha-flow''" and args = "[]" and w = "0::nat"
       and actual = "[]"]
  from claim [THEN conjunct2, THEN conjunct1] parsed
  have "program ipv4 example ''ha-flow'' [] 0
          = main ipv4 example (flag_value init_flags [] ''token'') (flag_value init_flags [] ''eip'')
              (flag_value init_flags [] ''instance_ids'') 0"
    by blast
  moreover from claim [where flagToken = "flag_value init_flags [] ''token''"
      and flagEIP = "flag_value init_flags [] ''eip''"
      and flagInstances = "flag_value init_flags [] ''instance_ids''",
      THEN conjunct2, THEN conjunct2, THEN conjunct2, THEN conjunct2, THEN conjunct2,
      THEN conjunct2, THEN conjunct2, THEN conjunct1] token
  have "main ipv4 example (flag_value init_flags [] ''token'') (flag_value init_flags [] ''eip'')
              (flag_value init_flags [] ''instance_ids'') 0
          = aborted 0 [] [] ''missing required flag: --token''"
    by blast
  ultimately have empty: "program ipv4 example ''ha-flow'' [] 0
          = aborted 0 [] [] ''missing required flag: --token''"
    by simp
  note run = claim [where flagToken = "''secret''" and flagEIP = "''203.0.113.9''"
      and flagInstances = "''2''" and eip = ha_eip and ids = "[2]" and w' = "1::nat"
      and res = ?res]
  from run [THEN conjunct2, THEN conjunct2, THEN conjunct2, THEN conjunct2, THEN conjunct2,
      THEN conjunct2, THEN conjunct2, THEN conjunct2, THEN conjunct2, THEN conjunct2,
      THEN conjunct2, THEN conjunct2, THEN conjunct2, THEN conjunct2, THEN conjunct2,
      THEN conjunct2, THEN conjunct2, THEN conjunct1] loc ids det down f
  have none: "?res = aborted 1 [(ListElasticIPs, None), (Detach 1 7, None), (GetServer 2, None)]
           [found_message ha_eip, detached_message ha_eip] ''no available instance found''"
    by simp
  then have code: "fst ?res = 1" by (simp add: aborted_def)
  from run [THEN conjunct2, THEN conjunct2, THEN conjunct2, THEN conjunct2, THEN conjunct2,
      THEN conjunct2, THEN conjunct1]
  have a: "fst ?res = 0 \<longleftrightarrow> attached (snd ?res) \<or> already_attached (snd ?res)"
    and b: "fst ?res = 0 \<longleftrightarrow> list_all (\<lambda>l. \<not> is_ERROR l) (stderr (snd ?res))"
    by blast+
  from code a b have "\<not> attached (snd ?res)"
    "\<not> list_all (\<lambda>l. \<not> is_ERROR l) (stderr (snd ?res))"
    by simp_all
  with parsed token empty loc ids down none show ?thesis by blast
qed

section \<open>The prepare step between detach and attach\<close>

text \<open>
  C5, as stated, fails in one word: the prepare step does not ask whether the elastic IP
  on the target interface is a different one.  In the race, once the elastic IP 7 is
  detached from A the interface of C is listed with the elastic IP 7 on it; the
  peer-address run selects that interface, and its prepare step detaches the elastic IP 7
  itself, from C, before attaching it.
\<close>

theorem prepare_detaches_the_same_elastic_IP:
  "eip_ID ha_eip = 7
   \<and> fst (pickFailOverTarget raced (filterPeers [''10.0.0.1'', ''10.0.0.3''] (eip_PrivateIP ha_eip))
            (start 1))
       = Inr \<lparr>InstanceID = 3, InstanceName = ''C'', NetworkInterfaceID = 30,
              AttachedEIP = ha_eip_on_C\<rparr>
   \<and> eip_ID ha_eip_on_C = 7 \<and> eip_PublicIP ha_eip_on_C = eip_PublicIP ha_eip
   \<and> calls (snd (prepareTarget raced
                    \<lparr>InstanceID = 3, InstanceName = ''C'', NetworkInterfaceID = 30,
                     AttachedEIP = ha_eip_on_C\<rparr> 3 (start 1)))
       = [(Detach 3 7, None)]
   \<and> calls (snd (main_peers ipv4 raced ''secret'' ''203.0.113.9'' ''10.0.0.1,10.0.0.3'' 0))
       = [(ListElasticIPs, None), (Detach 1 7, None), (ListServers, None),
          (ListNetworkInterfaces 1, None), (ListNetworkInterfaces 3, None),
          (Detach 3 7, None), (Attach 3 7 30, None)]"
proof -
  have "eip_ID ha_eip = 7" by code_simp
  moreover have "fst (pickFailOverTarget raced
            (filterPeers [''10.0.0.1'', ''10.0.0.3''] (eip_PrivateIP ha_eip)) (start 1))
       = Inr \<lparr>InstanceID = 3, InstanceName = ''C'', NetworkInterfaceID = 30,
              AttachedEIP = ha_eip_on_C\<rparr>" by code_simp
  moreover have "eip_ID ha_eip_on_C = 7" by code_simp
  moreover have "eip_PublicIP ha_eip_on_C = eip_PublicIP ha_eip" by code_simp
  moreover have "calls (snd (prepareTarget raced
                    \<lparr>InstanceID = 3, InstanceName = ''C'', NetworkInterfaceID = 30,
                     AttachedEIP = ha_eip_on_C\<rparr> 3 (start 1)))
       = [(Detach 3 7, None)]" by code_simp
  moreover have "calls (snd (main_peers ipv4 raced ''secret'' ''203.0.113.9'' ''10.0.0.1,10.0.0.3'' 0))
       = [(ListElasticIPs, None), (Detach 1 7, None), (ListServers, None),
          (ListNetworkInterfaces 1, None), (ListNetworkInterfaces 3, None),
          (Detach 3 7, None), (Attach 3 7 30, None)]" by code_simp
  ultimately show ?thesis by blast
qed

text \<open>
  C5, amended.  \<open>prepareTarget\<close> issues no call when the target interface carries no
  elastic IP (empty public address), and otherwise exactly one call, the detach of the
  elastic IP the interface carries, whichever it is.  In every run of every entry point
  that reaches the attach, the calls are in this order: the listing of the elastic IPs,
  the detach of the elastic IP, reads only, at most one more detach (the prepare step's),
  and last the attach of the same elastic IP.  For the instance-ID entry point, where the
  prepare step is written inside \<open>main\<close>: once the instance and the interface are
  chosen, the calls that follow are the attach alone when the interface carries no
  elastic IP, and otherwise the detach of the one it carries, followed by the attach if
  that detach succeeded.  The same holds for the \<open>-ip\<close> and the peer-address entry
  points, where the prepare step is \<open>prepareTarget\<close>: once the target is selected,
  the calls that follow are the attach alone when the target interface carries no elastic
  IP, and otherwise the detach, from the target instance, of the elastic IP the target
  interface carries, followed by the attach if that detach succeeded.
\<close>

theorem prepare_between_detach_and_attach:
  "calls (snd (prepareTarget P target service st)) =
     calls st @ (if eip_PublicIP (AttachedEIP target) = [] then []
                 else [(Detach service (eip_ID (AttachedEIP target)),
                        map_option ProviderError
                          (fst (ServerElasticIPService_Detach P (world st) service
                                  (eip_ID (AttachedEIP target)))))])
   \<and> ((res = main L P flagToken flagEIP flagInstances w
        \<or> res = main_ip L P flagToken flagEIP flagIP w
        \<or> res = main_peers L P flagToken flagEIP flagIPs w)
       \<and> list_ex (\<lambda>ev. is_Attach (fst ev)) (calls (snd res))
      \<longrightarrow> (\<exists>f e rds prep s n outcome.
             calls (snd res)
               = (ListElasticIPs, None) # (Detach f e, None) # rds @ prep @ [(Attach s e n, outcome)]
             \<and> reads rds
             \<and> (prep = [] \<or> (\<exists>i occupant. prep = [(Detach i occupant, None)]))))
   \<and> (located L P flagToken flagEIP w eip
       \<and> checkFlagInstances L flagInstances = Inr (pre @ i # post)
       \<and> ServerElasticIPService_Detach P w (att_ID (eip_Attachment eip)) (eip_ID eip) = (None, w')
       \<and> (\<forall>j\<in>set pre. j = att_ID (eip_Attachment eip) \<or> not_running P w' j)
       \<and> i \<noteq> att_ID (eip_Attachment eip) \<and> running P w' i
       \<and> NetworkInterfaceService_List P w' i = Inr (npre @ nic # npost)
       \<and> net_ParseIP L (eip_PrivateIP eip) = Some ip
       \<and> (\<forall>x\<in>set npre. outside_subnet L ip x) \<and> in_subnet L ip nic
      \<longrightarrow> map fst (calls (snd (main L P flagToken flagEIP flagInstances w)))
           = [ListElasticIPs, Detach (att_ID (eip_Attachment eip)) (eip_ID eip)]
             @ map GetServer (filter (\<lambda>j. j \<noteq> att_ID (eip_Attachment eip)) pre)
             @ [GetServer i, ListNetworkInterfaces i]
             @ (if eip_PublicIP (nic_AttachedElasticIP nic) = []
                then [Attach (att_ID (eip_Attachment eip)) (eip_ID eip) (nic_ID nic)]
                else if fst (ServerElasticIPService_Detach P w' i
                               (eip_ID (nic_AttachedElasticIP nic))) = None
                then [Detach i (eip_ID (nic_AttachedElasticIP nic)),
                      Attach (att_ID (eip_Attachment eip)) (eip_ID eip) (nic_ID nic)]
                else [Detach i (eip_ID (nic_AttachedElasticIP nic))]))
   \<and> (located L P flagToken flagEIP w eip \<and> checkFlagIP L flagIP = Inr privateIP
       \<and> eip_PrivateIP eip \<noteq> privateIP
       \<and> ServerElasticIPService_Detach P w (att_ID (eip_Attachment eip)) (eip_ID eip) = (None, w')
       \<and> ServerService_List P w' = Inr (ipre @ server # ipost)
       \<and> (\<forall>j\<in>set ipre. passed_over P w' [privateIP] j)
       \<and> srv_Status_ID server = ServerStatusRunning P
       \<and> NetworkInterfaceService_List P w' (srv_ID server) = Inr (npre @ nic # npost)
       \<and> (\<forall>x\<in>set npre. nic_PrivateIP x \<noteq> privateIP) \<and> nic_PrivateIP nic = privateIP
      \<longrightarrow> map fst (calls (snd (main_ip L P flagToken flagEIP flagIP w)))
           = [ListElasticIPs, Detach (att_ID (eip_Attachment eip)) (eip_ID eip), ListServers]
             @ map (\<lambda>s. ListNetworkInterfaces (srv_ID s))
                 (filter (\<lambda>s. srv_Status_ID s = ServerStatusRunning P) ipre)
             @ [ListNetworkInterfaces (srv_ID server)]
             @ (if eip_PublicIP (nic_AttachedElasticIP nic) = []
                then [Attach (srv_ID server) (eip_ID eip) (nic_ID nic)]
                else if fst (ServerElasticIPService_Detach P w' (srv_ID server)
                               (eip_ID (nic_AttachedElasticIP nic))) = None
                then [Detach (srv_ID server) (eip_ID (nic_AttachedElasticIP nic)),
                      Attach (srv_ID server) (eip_ID eip) (nic_ID nic)]
                else [Detach (srv_ID server) (eip_ID (nic_AttachedElasticIP nic))]))
   \<and> (located L P flagToken flagEIP w eip \<and> checkFlagIPs L flagIPs = Inr peers
       \<and> ServerElasticIPService_Detach P w (att_ID (eip_Attachment eip)) (eip_ID eip) = (None, w')
       \<and> ServerService_List P w' = Inr (ipre @ server # ipost)
       \<and> (\<forall>j\<in>set ipre. passed_over P w' (filterPeers peers (eip_PrivateIP eip)) j)
       \<and> srv_Status_ID server = ServerStatusRunning P
       \<and> NetworkInterfaceService_List P w' (srv_ID server) = Inr (npre @ nic # npost)
       \<and> (\<forall>x\<in>set npre. nic_PrivateIP x \<notin> set (filterPeers peers (eip_PrivateIP eip)))
       \<and> nic_PrivateIP nic \<in> set (filterPeers peers (eip_PrivateIP eip))
      \<longrightarrow> map fst (calls (snd (main_peers L P flagToken flagEIP flagIPs w)))
           = [ListElasticIPs, Detach (att_ID (eip_Attachment eip)) (eip_ID eip), ListServers]
             @ map (\<lambda>s. ListNetworkInterfaces (srv_ID s))
                 (filter (\<lambda>s. srv_Status_ID s = ServerStatusRunning P) ipre)
             @ [ListNetworkInterfaces (srv_ID server)]
             @ (if eip_PublicIP (nic_AttachedElasticIP nic) = []
                then [Attach (srv_ID server) (eip_ID eip) (nic_ID nic)]
                else if fst (ServerElasticIPService_Detach P w' (srv_ID server)
                               (eip_ID (nic_AttachedElasticIP nic))) = None
                then [Detach (srv_ID server) (eip_ID (nic_AttachedElasticIP nic)),
                      Attach (srv_ID server) (eip_ID eip) (nic_ID nic)]
                else [Detach (srv_ID server) (eip_ID (nic_AttachedElasticIP nic))]))"
proof (intro conjI impI)
  show "calls (snd (prepareTarget P target service st)) =
     calls st @ (if eip_PublicIP (AttachedEIP target) = [] then []
                 else [(Detach service (eip_ID (AttachedEIP target)),
                        map_option ProviderError
                          (fst (ServerElasticIPService_Detach P (world st) service
                                  (eip_ID (AttachedEIP target)))))])"
    by (rule prepareTarget_calls)
next
  assume h: "(res = main L P flagToken flagEIP flagInstances w
        \<or> res = main_ip L P flagToken flagEIP flagIP w
        \<or> res = main_peers L P flagToken flagEIP flagIPs w)
       \<and> list_ex (\<lambda>ev. is_Attach (fst ev)) (calls (snd res))"
  then have "attach_ordered res"
    using main_ordered [of L P flagToken flagEIP flagInstances w]
      main_ip_ordered [of L P flagToken flagEIP flagIP w]
      main_peers_ordered [of L P flagToken flagEIP flagIPs w]
    by auto
  with h have "ordered (calls (snd res))"
    by (simp add: attach_ordered_def)
  then show "\<exists>f e rds prep s n outcome.
             calls (snd res)
               = (ListElasticIPs, None) # (Detach f e, None) # rds @ prep @ [(Attach s e n, outcome)]
             \<and> reads rds
             \<and> (prep = [] \<or> (\<exists>i occupant. prep = [(Detach i occupant, None)]))"
    by (simp add: ordered_def optional_detach_def)
next
  assume "located L P flagToken flagEIP w eip
       \<and> checkFlagInstances L flagInstances = Inr (pre @ i # post)
       \<and> ServerElasticIPService_Detach P w (att_ID (eip_Attachment eip)) (eip_ID eip) = (None, w')
       \<and> (\<forall>j\<in>set pre. j = att_ID (eip_Attachment eip) \<or> not_running P w' j)
       \<and> i \<noteq> att_ID (eip_Attachment eip) \<and> running P w' i
       \<and> NetworkInterfaceService_List P w' i = Inr (npre @ nic # npost)
       \<and> net_ParseIP L (eip_PrivateIP eip) = Some ip
       \<and> (\<forall>x\<in>set npre. outside_subnet L ip x) \<and> in_subnet L ip nic"
  then show "map fst (calls (snd (main L P flagToken flagEIP flagInstances w)))
           = [ListElasticIPs, Detach (att_ID (eip_Attachment eip)) (eip_ID eip)]
             @ map GetServer (filter (\<lambda>j. j \<noteq> att_ID (eip_Attachment eip)) pre)
             @ [GetServer i, ListNetworkInterfaces i]
             @ (if eip_PublicIP (nic_AttachedElasticIP nic) = []
                then [Attach (att_ID (eip_Attachment eip)) (eip_ID eip) (nic_ID nic)]
                else if fst (ServerElasticIPService_Detach P w' i
                               (eip_ID (nic_AttachedElasticIP nic))) = None
                then [Detach i (eip_ID (nic_AttachedElasticIP nic)),
                      Attach (att_ID (eip_Attachment eip)) (eip_ID eip) (nic_ID nic)]
                else [Detach i (eip_ID (nic_AttachedElasticIP nic))])"
    by (intro main_selected) blast+
next
  assume "located L P flagToken flagEIP w eip \<and> checkFlagIP L flagIP = Inr privateIP
       \<and> eip_PrivateIP eip \<noteq> privateIP
       \<and> ServerElasticIPService_Detach P w (att_ID (eip_Attachment eip)) (eip_ID eip) = (None, w')
       \<and> ServerService_List P w' = Inr (ipre @ server # ipost)
       \<and> (\<forall>j\<in>set ipre. passed_over P w' [privateIP] j)
       \<and> srv_Status_ID server = ServerStatusRunning P
       \<and> NetworkInterfaceService_List P w' (srv_ID server) = Inr (npre @ nic # npost)
       \<and> (\<forall>x\<in>set npre. nic_PrivateIP x \<noteq> privateIP) \<and> nic_PrivateIP nic = privateIP"
  then show "map fst (calls (snd (main_ip L P flagToken flagEIP flagIP w)))
           = [ListElasticIPs, Detach (att_ID (eip_Attachment eip)) (eip_ID eip), ListServers]
             @ map (\<lambda>s. ListNetworkInterfaces (srv_ID s))
                 (filter (\<lambda>s. srv_Status_ID s = ServerStatusRunning P) ipre)
             @ [ListNetworkInterfaces (srv_ID server)]
             @ (if eip_PublicIP (nic_AttachedElasticIP nic) = []
                then [Attach (srv_ID server) (eip_ID eip) (nic_ID nic)]
                else if fst (ServerElasticIPService_Detach P w' (srv_ID server)
                               (eip_ID (nic_AttachedElasticIP nic))) = None
                then [Detach (srv_ID server) (eip_ID (nic_AttachedElasticIP nic)),
                      Attach (srv_ID server) (eip_ID eip) (nic_ID nic)]
                else [Detach (srv_ID server) (eip_ID (nic_AttachedElasticIP nic))])"
    by (intro main_ip_selected) blast+
next
  assume "located L P flagToken flagEIP w eip \<and> checkFlagIPs L flagIPs = Inr peers
       \<and> ServerElasticIPService_Detach P w (att_ID (eip_Attachment eip)) (eip_ID eip) = (None, w')
       \<and> ServerService_List P w' = Inr (ipre @ server # ipost)
       \<and> (\<forall>j\<in>set ipre. passed_over P w' (filterPeers peers (eip_PrivateIP eip)) j)
       \<and> srv_Status_ID server = ServerStatusRunning P
       \<and> NetworkInterfaceService_List P w' (srv_ID server) = Inr (npre @ nic # npost)
       \<and> (\<forall>x\<in>set npre. nic_PrivateIP x \<notin> set (filterPeers peers (eip_PrivateIP eip)))
       \<and> nic_PrivateIP nic \<in> set (filterPeers peers (eip_PrivateIP eip))"
  then show "map fst (calls (snd (main_peers L P flagToken flagEIP flagIPs w)))
           = [ListElasticIPs, Detach (att_ID (eip_Attachment eip)) (eip_ID eip), ListServers]
             @ map (\<lambda>s. ListNetworkInterfaces (srv_ID s))
                 (filter (\<lambda>s. srv_Status_ID s = ServerStatusRunning P) ipre)
             @ [ListNetworkInterfaces (srv_ID server)]
             @ (if eip_PublicIP (nic_AttachedElasticIP nic) = []
                then [Attach (srv_ID server) (eip_ID eip) (nic_ID nic)]
                else if fst (ServerElasticIPService_Detach P w' (srv_ID server)
                               (eip_ID (nic_AttachedElasticIP nic))) = None
                then [Detach (srv_ID server) (eip_ID (nic_AttachedElasticIP nic)),
                      Attach (srv_ID server) (eip_ID eip) (nic_ID nic)]
                else [Detach (srv_ID server) (eip_ID (nic_AttachedElasticIP nic))])"
    by (intro main_peers_selected) blast+
qed

text \<open>
  With the occupied target, the \<open>-ip\<close> run for 10.0.0.3 detaches the elastic IP 7 from A,
  passes over A and B, selects the interface of C, detaches the elastic IP 9 from C and
  attaches the elastic IP 7: the calls are those of the theorem, in its order.
\<close>

theorem prepare_between_detach_and_attach_witness:
  "located ipv4 busy ''secret'' ''203.0.113.9'' 0 ha_eip
   \<and> checkFlagIP ipv4 ''10.0.0.3'' = Inr ''10.0.0.3''
   \<and> eip_PublicIP (nic_AttachedElasticIP (nic_C\<lparr>nic_AttachedElasticIP := busy_eip\<rparr>)) \<noteq> []
   \<and> map fst (calls (snd (main_ip ipv4 busy ''secret'' ''203.0.113.9'' ''10.0.0.3'' 0)))
     = [ListElasticIPs, Detach 1 7, ListServers, ListNetworkInterfaces 1,
        ListNetworkInterfaces 3, Detach 3 9, Attach 3 7 30]
   \<and> ordered (calls (snd (main_ip ipv4 busy ''secret'' ''203.0.113.9'' ''10.0.0.3'' 0)))"
proof -
  let ?res = "main_ip ipv4 busy ''secret'' ''203.0.113.9'' ''10.0.0.3'' (0::nat)"
  let ?A = "\<lparr>srv_ID = 1, srv_Name = ''A'', srv_Status_ID = 1\<rparr>"
  let ?B = "\<lparr>srv_ID = 2, srv_Name = ''B'', srv_Status_ID = 2\<rparr>"
  let ?C = "\<lparr>srv_ID = 3, srv_Name = ''C'', srv_Status_ID = 1\<rparr>"
  let ?nic = "nic_C\<lparr>nic_AttachedElasticIP := busy_eip\<rparr>"
  have loc: "located ipv4 busy ''secret'' ''203.0.113.9'' 0 ha_eip" by code_simp
  have ip: "checkFlagIP ipv4 ''10.0.0.3'' = Inr ''10.0.0.3''" by code_simp
  have other: "eip_PrivateIP ha_eip \<noteq> ''10.0.0.3''" by code_simp
  have det: "ServerElasticIPService_Detach busy 0 (att_ID (eip_Attachment ha_eip)) (eip_ID ha_eip)
               = (None, 1)" by code_simp
  have listing: "ServerService_List busy 1 = Inr ([?A, ?B] @ ?C # [])" by code_simp
  have passed: "passed_over busy 1 [''10.0.0.3''] ?A" "passed_over busy 1 [''10.0.0.3''] ?B"
    by code_simp+
  have up: "srv_Status_ID ?C = ServerStatusRunning busy" by code_simp
  have nics: "NetworkInterfaceService_List busy 1 (srv_ID ?C) = Inr ([] @ ?nic # [])"
    by code_simp
  have addr: "nic_PrivateIP ?nic = ''10.0.0.3''" by code_simp
  have occupied: "eip_PublicIP (nic_AttachedElasticIP ?nic) \<noteq> []" by code_simp
  have prep: "fst (ServerElasticIPService_Detach busy 1 (srv_ID ?C)
                     (eip_ID (nic_AttachedElasticIP ?nic))) = None" by code_simp
  have ids: "att_ID (eip_Attachment ha_eip) = 1" "eip_ID ha_eip = 7"
    "eip_ID (nic_AttachedElasticIP ?nic) = 9" "nic_ID ?nic = 30" "ServerStatusRunning busy = 1"
    by code_simp+
  note claim = prepare_between_detach_and_attach
    [where res = ?res and L = ipv4 and P = busy and flagToken = "''secret''"
       and flagEIP = "''203.0.113.9''" and flagIP = "''10.0.0.3''" and w = "0::nat"]
  from claim [where eip = ha_eip and privateIP = "''10.0.0.3''" and w' = "1::nat"
                and ipre = "[?A, ?B]" and server = ?C and ipost = "[]" and npre = "[]"
                and nic = ?nic and npost = "[]",
              THEN conjunct2, THEN conjunct2, THEN conjunct2, THEN conjunct1]
    loc ip other det listing passed up nics addr
  have "map fst (calls (snd ?res))
           = [ListElasticIPs, Detach (att_ID (eip_Attachment ha_eip)) (eip_ID ha_eip), ListServers]
             @ map (\<lambda>s. ListNetworkInterfaces (srv_ID s))
                 (filter (\<lambda>s. srv_Status_ID s = ServerStatusRunning busy) [?A, ?B])
             @ [ListNetworkInterfaces (srv_ID ?C)]
             @ (if eip_PublicIP (nic_AttachedElasticIP ?nic) = []
                then [Attach (srv_ID ?C) (eip_ID ha_eip) (nic_ID ?nic)]
                else if fst (ServerElasticIPService_Detach busy 1 (srv_ID ?C)
                               (eip_ID (nic_AttachedElasticIP ?nic))) = None
                then [Detach (srv_ID ?C) (eip_ID (nic_AttachedElasticIP ?nic)),
                      Attach (srv_ID ?C) (eip_ID ha_eip) (nic_ID ?nic)]
                else [Detach (srv_ID ?C) (eip_ID (nic_AttachedElasticIP ?nic))])"
    by simp
  with occupied prep ids have tr: "map fst (calls (snd ?res))
     = [ListElasticIPs, Detach 1 7, ListServers, ListNetworkInterfaces 1,
        ListNetworkInterfaces 3, Detach 3 9, Attach 3 7 30]"
    by simp
  then have "is_Attach (fst (last (calls (snd ?res))))"
    by (cases "calls (snd ?res)" rule: rev_cases) auto
  moreover from tr have "calls (snd ?res) \<noteq> []" by auto
  ultimately have att: "list_ex (\<lambda>ev. is_Attach (fst ev)) (calls (snd ?res))"
    by (cases "calls (snd ?res)" rule: rev_cases) auto
  from claim [THEN conjunct2, THEN conjunct1] att have "ordered (calls (snd ?res))"
    unfolding ordered_def optional_detach_def by blast
  with loc ip occupied tr show ?thesis by blast
qed

section \<open>The instance-ID policy\<close>

text \<open>
  C3.  In the instance-ID policy the first running instance of the list wins: when every
  entry before \<open>i\<close> is the failed instance or is reported not running, and \<open>i\<close> is not
  the failed instance and is reported running, \<open>pickNextInstance\<close> returns \<open>i\<close>.  The
  interface is then looked for among the interfaces of that instance only, and is the
  first one whose subnet contains the previous private address.  When none of them does,
  the run ends with status 1 and the error "no network interface in same network as
  previous private ip found", its last calls being the get of \<open>i\<close> and the listing of
  the interfaces of \<open>i\<close>: no later candidate is asked about.  When the list holds
  nothing but the failed instance, the run ends with status 1 and the error "no available
  instance found", right after the detach.
\<close>

theorem first_running_instance_wins:
  "(ids = pre @ i # post \<and> (\<forall>j\<in>set pre. j = failed \<or> not_running P (world st) j)
      \<and> i \<noteq> failed \<and> running P (world st) i
    \<longrightarrow> fst (pickNextInstance P ids failed st) = Inr i)
   \<and> (NetworkInterfaceService_List P (world st) i = Inr (npre @ nic # npost)
      \<and> net_ParseIP L prev = Some ip
      \<and> (\<forall>x\<in>set npre. outside_subnet L ip x) \<and> in_subnet L ip nic
    \<longrightarrow> fst (pickNetworkInterface L P i prev st) = Inr nic)
   \<and> (located L P flagToken flagEIP w eip
      \<and> checkFlagInstances L flagInstances = Inr (pre @ i # post)
      \<and> ServerElasticIPService_Detach P w (att_ID (eip_Attachment eip)) (eip_ID eip) = (None, w')
      \<and> (\<forall>j\<in>set pre. j = att_ID (eip_Attachment eip) \<or> not_running P w' j)
      \<and> i \<noteq> att_ID (eip_Attachment eip) \<and> running P w' i
      \<and> NetworkInterfaceService_List P w' i = Inr nics
      \<and> net_ParseIP L (eip_PrivateIP eip) = Some ip
      \<and> (\<forall>x\<in>set nics. outside_subnet L ip x)
    \<longrightarrow> fst (main L P flagToken flagEIP flagInstances w) = 1
      \<and> last (stderr (snd (main L P flagToken flagEIP flagInstances w)))
          = ERROR ''no network interface in same network as previous private ip found''
      \<and> map fst (calls (snd (main L P flagToken flagEIP flagInstances w)))
          = [ListElasticIPs, Detach (att_ID (eip_Attachment eip)) (eip_ID eip)]
            @ map GetServer (filter (\<lambda>j. j \<noteq> att_ID (eip_Attachment eip)) pre)
            @ [GetServer i, ListNetworkInterfaces i])
   \<and> (located L P flagToken flagEIP w eip
      \<and> checkFlagInstances L flagInstances = Inr only
      \<and> set only \<subseteq> {att_ID (eip_Attachment eip)}
      \<and> ServerElasticIPService_Detach P w (att_ID (eip_Attachment eip)) (eip_ID eip) = (None, w')
    \<longrightarrow> fst (main L P flagToken flagEIP flagInstances w) = 1
      \<and> last (stderr (snd (main L P flagToken flagEIP flagInstances w)))
          = ERROR ''no available instance found''
      \<and> map fst (calls (snd (main L P flagToken flagEIP flagInstances w)))
          = [ListElasticIPs, Detach (att_ID (eip_Attachment eip)) (eip_ID eip)])"
proof (intro conjI impI)
  assume "ids = pre @ i # post \<and> (\<forall>j\<in>set pre. j = failed \<or> not_running P (world st) j)
      \<and> i \<noteq> failed \<and> running P (world st) i"
  then show "fst (pickNextInstance P ids failed st) = Inr i"
    by (simp add: pickNextInstance_first_running)
next
  assume "NetworkInterfaceService_List P (world st) i = Inr (npre @ nic # npost)
      \<and> net_ParseIP L prev = Some ip
      \<and> (\<forall>x\<in>set npre. outside_subnet L ip x) \<and> in_subnet L ip nic"
  then show "fst (pickNetworkInterface L P i prev st) = Inr nic"
    by (simp add: pickNetworkInterface_unfold pickNetworkInterface_loop_first)
next
  assume h: "located L P flagToken flagEIP w eip
      \<and> checkFlagInstances L flagInstances = Inr (pre @ i # post)
      \<and> ServerElasticIPService_Detach P w (att_ID (eip_Attachment eip)) (eip_ID eip) = (None, w')
      \<and> (\<forall>j\<in>set pre. j = att_ID (eip_Attachment eip) \<or> not_running P w' j)
      \<and> i \<noteq> att_ID (eip_Attachment eip) \<and> running P w' i
      \<and> NetworkInterfaceService_List P w' i = Inr nics
      \<and> net_ParseIP L (eip_PrivateIP eip) = Some ip
      \<and> (\<forall>x\<in>set nics. outside_subnet L ip x)"
  then have r: "fst (main L P flagToken flagEIP flagInstances w) = 1
      \<and> last (stderr (snd (main L P flagToken flagEIP flagInstances w)))
          = ERROR ''no network interface in same network as previous private ip found''
      \<and> map fst (calls (snd (main L P flagToken flagEIP flagInstances w)))
          = [ListElasticIPs, Detach (att_ID (eip_Attachment eip)) (eip_ID eip)]
            @ map GetServer (filter (\<lambda>j. j \<noteq> att_ID (eip_Attachment eip)) pre)
            @ [GetServer i, ListNetworkInterfaces i]"
    by (intro main_no_interface) blast+
  from r show "fst (main L P flagToken flagEIP flagInstances w) = 1" by blast
  from r show "last (stderr (snd (main L P flagToken flagEIP flagInstances w)))
          = ERROR ''no network interface in same network as previous private ip found''" by blast
  from r show "map fst (calls (snd (main L P flagToken flagEIP flagInstances w)))
          = [ListElasticIPs, Detach (att_ID (eip_Attachment eip)) (eip_ID eip)]
            @ map GetServer (filter (\<lambda>j. j \<noteq> att_ID (eip_Attachment eip)) pre)
            @ [GetServer i, ListNetworkInterfaces i]" by blast
next
  assume h: "located L P flagToken flagEIP w eip
      \<and> checkFlagInstances L flagInstances = Inr only
      \<and> set only \<subseteq> {att_ID (eip_Attachment eip)}
      \<and> ServerElasticIPService_Detach P w (att_ID (eip_Attachment eip)) (eip_ID eip) = (None, w')"
  then have r: "fst (main L P flagToken flagEIP flagInstances w) = 1
      \<and> last (stderr (snd (main L P flagToken flagEIP flagInstances w)))
          = ERROR ''no available instance found''
      \<and> map fst (calls (snd (main L P flagToken flagEIP flagInstances w)))
          = [ListElasticIPs, Detach (att_ID (eip_Attachment eip)) (eip_ID eip)]"
    by (intro main_only_failed) blast+
  from r show "fst (main L P flagToken flagEIP flagInstances w) = 1" by blast
  from r show "last (stderr (snd (main L P flagToken flagEIP flagInstances w)))
          = ERROR ''no available instance found''" by blast
  from r show "map fst (calls (snd (main L P flagToken flagEIP flagInstances w)))
          = [ListElasticIPs, Detach (att_ID (eip_Attachment eip)) (eip_ID eip)]" by blast
qed

text \<open>
  On the detour, with the candidates A, D, C in this order: A is the failed instance, D
  is the first running one and wins although none of its interfaces is in the subnet, and
  the run fails without asking about C.  With A as the only candidate, no instance is
  available.
\<close>

theorem first_running_instance_wins_witness:
  "located ipv4 detour ''secret'' ''203.0.113.9'' 0 ha_eip
   \<and> checkFlagInstances ipv4 ''1,4,3'' = Inr [1, 4, 3]
   \<and> running detour 1 4 \<and> running detour 1 3
   \<and> fst (pickNextInstance detour [1, 4, 3] 1 (start 1)) = Inr 4
   \<and> fst (main ipv4 detour ''secret'' ''203.0.113.9'' ''1,4,3'' 0) = 1
   \<and> last (stderr (snd (main ipv4 detour ''secret'' ''203.0.113.9'' ''1,4,3'' 0)))
       = ERROR ''no network interface in same network as previous private ip found''
   \<and> map fst (calls (snd (main ipv4 detour ''secret'' ''203.0.113.9'' ''1,4,3'' 0)))
       = [ListElasticIPs, Detach 1 7, GetServer 4, ListNetworkInterfaces 4]
   \<and> fst (main ipv4 detour ''secret'' ''203.0.113.9'' ''1'' 0) = 1
   \<and> last (stderr (snd (main ipv4 detour ''secret'' ''203.0.113.9'' ''1'' 0)))
       = ERROR ''no available instance found''"
proof -
  have loc: "located ipv4 detour ''secret'' ''203.0.113.9'' 0 ha_eip" by code_simp
  have ids: "checkFlagInstances ipv4 ''1,4,3'' = Inr ([1] @ 4 # [3])" by code_simp
  have one: "checkFlagInstances ipv4 ''1'' = Inr [1]" by code_simp
  have failed: "att_ID (eip_Attachment ha_eip) = 1" by code_simp
  have det: "ServerElasticIPService_Detach detour 0 (att_ID (eip_Attachment ha_eip)) (eip_ID ha_eip)
               = (None, 1)" by code_simp
  have skip: "\<forall>j\<in>set [1]. j = att_ID (eip_Attachment ha_eip) \<or> not_running detour 1 j"
    by (simp add: failed)
  have skip': "\<forall>j\<in>set [1]. j = 1 \<or> not_running detour (world (start (1::nat))) j"
    by simp
  have win: "running detour 1 4" and later: "running detour 1 3" by code_simp+
  have nics: "NetworkInterfaceService_List detour 1 4 = Inr [nic_D]" by code_simp
  have ip: "net_ParseIP ipv4 (eip_PrivateIP ha_eip) = Some [10, 0, 0, 1]" by code_simp
  have out: "\<forall>x\<in>set [nic_D]. outside_subnet ipv4 [10, 0, 0, 1] x" by code_simp
  have only: "set [1] \<subseteq> {att_ID (eip_Attachment ha_eip)}" by (simp add: failed)
  note claim = first_running_instance_wins
    [where L = ipv4 and P = detour and flagToken = "''secret''" and flagEIP = "''203.0.113.9''"
       and w = "0::nat" and w' = "1::nat" and eip = ha_eip and pre = "[1]" and i = 4
       and post = "[3]" and nics = "[nic_D]" and ip = "[10, 0, 0, 1]" and only = "[1]"
       and ids = "[1, 4, 3]" and failed = 1 and st = "start (1::nat)"]
  from claim skip' win have pick: "fst (pickNextInstance detour [1, 4, 3] 1 (start 1)) = Inr 4"
    by (simp add: start_def)
  from claim [where flagInstances = "''1,4,3''"] loc ids det skip win nics ip out failed
  have run: "fst (main ipv4 detour ''secret'' ''203.0.113.9'' ''1,4,3'' 0) = 1
      \<and> last (stderr (snd (main ipv4 detour ''secret'' ''203.0.113.9'' ''1,4,3'' 0)))
          = ERROR ''no network interface in same network as previous private ip found''
      \<and> map fst (calls (snd (main ipv4 detour ''secret'' ''203.0.113.9'' ''1,4,3'' 0)))
          = [ListElasticIPs, Detach 1 7, GetServer 4, ListNetworkInterfaces 4]"
    by (simp add: ha_eip_def)
  from claim [where flagInstances = "''1''"] loc one det only
  have alone: "fst (main ipv4 detour ''secret'' ''203.0.113.9'' ''1'' 0) = 1
      \<and> last (stderr (snd (main ipv4 detour ''secret'' ''203.0.113.9'' ''1'' 0)))
          = ERROR ''no available instance found''"
    by simp
  from loc ids win later pick run alone show ?thesis by simp
qed

text \<open>
  C9.  An interface whose subnet does not parse ends the selection of the interface with
  the error "invalid CIDR" as soon as the scan reaches it, whatever comes after it in the
  listing; it is not skipped.  The run then ends with status 1 and that error, the
  listing of the interfaces being its last call.
\<close>

theorem invalid_CIDR_aborts_selection:
  "(NetworkInterfaceService_List P (world st) i = Inr (npre @ nic # npost)
      \<and> net_ParseIP L prev = Some ip
      \<and> (\<forall>x\<in>set npre. outside_subnet L ip x)
      \<and> net_ParseCIDR L (nic_Network_CIDR nic) = None
    \<longrightarrow> fst (pickNetworkInterface L P i prev st) = Inl (errors_New ''invalid CIDR''))
   \<and> (located L P flagToken flagEIP w eip
      \<and> checkFlagInstances L flagInstances = Inr (pre @ i # post)
      \<and> ServerElasticIPService_Detach P w (att_ID (eip_Attachment eip)) (eip_ID eip) = (None, w')
      \<and> (\<forall>j\<in>set pre. j = att_ID (eip_Attachment eip) \<or> not_running P w' j)
      \<and> i \<noteq> att_ID (eip_Attachment eip) \<and> running P w' i
      \<and> NetworkInterfaceService_List P w' i = Inr (npre @ nic # npost)
      \<and> net_ParseIP L (eip_PrivateIP eip) = Some ip
      \<and> (\<forall>x\<in>set npre. outside_subnet L ip x)
      \<and> net_ParseCIDR L (nic_Network_CIDR nic) = None
    \<longrightarrow> fst (main L P flagToken flagEIP flagInstances w) = 1
      \<and> last (stderr (snd (main L P flagToken flagEIP flagInstances w))) = ERROR ''invalid CIDR''
      \<and> map fst (calls (snd (main L P flagToken flagEIP flagInstances w)))
          = [ListElasticIPs, Detach (att_ID (eip_Attachment eip)) (eip_ID eip)]
            @ map GetServer (filter (\<lambda>j. j \<noteq> att_ID (eip_Attachment eip)) pre)
            @ [GetServer i, ListNetworkInterfaces i])"
proof (intro conjI impI)
  assume "NetworkInterfaceService_List P (world st) i = Inr (npre @ nic # npost)
      \<and> net_ParseIP L prev = Some ip
      \<and> (\<forall>x\<in>set npre. outside_subnet L ip x)
      \<and> net_ParseCIDR L (nic_Network_CIDR nic) = None"
  then show "fst (pickNetworkInterface L P i prev st) = Inl (errors_New ''invalid CIDR'')"
    by (simp add: pickNetworkInterface_unfold pickNetworkInterface_loop_invalid)
next
  assume h: "located L P flagToken flagEIP w eip
      \<and> checkFlagInstances L flagInstances = Inr (pre @ i # post)
      \<and> ServerElasticIPService_Detach P w (att_ID (eip_Attachment eip)) (eip_ID eip) = (None, w')
      \<and> (\<forall>j\<in>set pre. j = att_ID (eip_Attachment eip) \<or> not_running P w' j)
      \<and> i \<noteq> att_ID (eip_Attachment eip) \<and> running P w' i
      \<and> NetworkInterfaceService_List P w' i = Inr (npre @ nic # npost)
      \<and> net_ParseIP L (eip_PrivateIP eip) = Some ip
      \<and> (\<forall>x\<in>set npre. outside_subnet L ip x)
      \<and> net_ParseCIDR L (nic_Network_CIDR nic) = None"
  then have r: "fst (main L P flagToken flagEIP flagInstances w) = 1
      \<and> last (stderr (snd (main L P flagToken flagEIP flagInstances w))) = ERROR ''invalid CIDR''
      \<and> map fst (calls (snd (main L P flagToken flagEIP flagInstances w)))
          = [ListElasticIPs, Detach (att_ID (eip_Attachment eip)) (eip_ID eip)]
            @ map GetServer (filter (\<lambda>j. j \<noteq> att_ID (eip_Attachment eip)) pre)
            @ [GetServer i, ListNetworkInterfaces i]"
    by (intro main_invalid_CIDR) blast+
  from r show "fst (main L P flagToken flagEIP flagInstances w) = 1" by blast
  from r show "last (stderr (snd (main L P flagToken flagEIP flagInstances w)))
          = ERROR ''invalid CIDR''" by blast
  from r show "map fst (calls (snd (main L P flagToken flagEIP flagInstances w)))
          = [ListElasticIPs, Detach (att_ID (eip_Attachment eip)) (eip_ID eip)]
            @ map GetServer (filter (\<lambda>j. j \<noteq> att_ID (eip_Attachment eip)) pre)
            @ [GetServer i, ListNetworkInterfaces i]" by blast
qed

text \<open>
  With the malformed subnet data C is picked, its first interface does not parse, and the
  run ends there, although the second interface of C is in the subnet of 10.0.0.1.
\<close>

theorem invalid_CIDR_aborts_selection_witness:
  "NetworkInterfaceService_List malformed 1 3 = Inr [nic_malformed, nic_C]
   \<and> net_ParseCIDR ipv4 (nic_Network_CIDR nic_malformed) = None
   \<and> in_subnet ipv4 [10, 0, 0, 1] nic_C
   \<and> fst (pickNetworkInterface ipv4 malformed 3 ''10.0.0.1'' (start 1)) = Inl (errors_New ''invalid CIDR'')
   \<and> fst (main ipv4 malformed ''secret'' ''203.0.113.9'' ''1,2,3'' 0) = 1
   \<and> last (stderr (snd (main ipv4 malformed ''secret'' ''203.0.113.9'' ''1,2,3'' 0)))
       = ERROR ''invalid CIDR''
   \<and> map fst (calls (snd (main ipv4 malformed ''secret'' ''203.0.113.9'' ''1,2,3'' 0)))
       = [ListElasticIPs, Detach 1 7, GetServer 2, GetServer 3, ListNetworkInterfaces 3]"
proof -
  have loc: "located ipv4 malformed ''secret'' ''203.0.113.9'' 0 ha_eip" by code_simp
  have ids: "checkFlagInstances ipv4 ''1,2,3'' = Inr ([1, 2] @ 3 # [])" by code_simp
  have failed: "att_ID (eip_Attachment ha_eip) = 1" by code_simp
  have det: "ServerElasticIPService_Detach malformed 0 (att_ID (eip_Attachment ha_eip)) (eip_ID ha_eip)
               = (None, 1)" by code_simp
  have stopped: "not_running malformed 1 2" by code_simp
  then have skip: "\<forall>j\<in>set [1, 2]. j = att_ID (eip_Attachment ha_eip) \<or> not_running malformed 1 j"
    by (simp add: failed)
  have win: "running malformed 1 3" by code_simp
  have nics: "NetworkInterfaceService_List malformed 1 3 = Inr ([] @ nic_malformed # [nic_C])"
    by code_simp
  have nics': "NetworkInterfaceService_List malformed (world (start (1::nat))) 3
                 = Inr ([] @ nic_malformed # [nic_C])"
    by code_simp
  have ip: "net_ParseIP ipv4 (eip_PrivateIP ha_eip) = Some [10, 0, 0, 1]" by code_simp
  have ip': "net_ParseIP ipv4 ''10.0.0.1'' = Some [10, 0, 0, 1]" by code_simp
  have bad: "net_ParseCIDR ipv4 (nic_Network_CIDR nic_malformed) = None" by code_simp
  have good: "in_subnet ipv4 [10, 0, 0, 1] nic_C" by code_simp
  note claim = invalid_CIDR_aborts_selection
    [where L = ipv4 and P = malformed and flagToken = "''secret''" and flagEIP = "''203.0.113.9''"
       and flagInstances = "''1,2,3''" and w = "0::nat" and w' = "1::nat" and eip = ha_eip
       and pre = "[1, 2]" and i = 3 and post = "[]" and npre = "[]" and nic = nic_malformed
       and npost = "[nic_C]" and ip = "[10, 0, 0, 1]" and st = "start (1::nat)"
       and prev = "''10.0.0.1''"]
  from claim nics' ip' bad
  have pick: "fst (pickNetworkInterface ipv4 malformed 3 ''10.0.0.1'' (start 1))
                = Inl (errors_New ''invalid CIDR'')"
    by simp
  from claim loc ids det skip win nics ip bad failed
  have run: "fst (main ipv4 malformed ''secret'' ''203.0.113.9'' ''1,2,3'' 0) = 1
      \<and> last (stderr (snd (main ipv4 malformed ''secret'' ''203.0.113.9'' ''1,2,3'' 0)))
          = ERROR ''invalid CIDR''
      \<and> map fst (calls (snd (main ipv4 malformed ''secret'' ''203.0.113.9'' ''1,2,3'' 0)))
          = [ListElasticIPs, Detach 1 7, GetServer 2, GetServer 3, ListNetworkInterfaces 3]"
    by (simp add: ha_eip_def)
  from nics bad good pick run show ?thesis by simp
qed

text \<open>
  C10.  When the private address recorded for the elastic IP does not parse, as the empty
  address of an unattached elastic IP does not, a run of the instance-ID entry point that
  finds the elastic IP ends with status 1: its second call is the detach of the elastic
  IP, whatever follows only reads, so no attach is issued; \<open>pickNetworkInterface\<close>
  returns the error "invalid private IP" whenever the listing of the interfaces succeeds;
  and when the detach succeeded and an instance was picked whose interfaces are listed,
  that error ends the run, after the successful detach.
\<close>

theorem unparsable_private_IP_fails_after_detach:
  assumes "located L P flagToken flagEIP w eip"
    and "checkFlagInstances L flagInstances = Inr ids"
    and "net_ParseIP L (eip_PrivateIP eip) = None"
  shows "fst (main L P flagToken flagEIP flagInstances w) = 1
    \<and> (\<exists>outcome rest.
          calls (snd (main L P flagToken flagEIP flagInstances w))
            = (ListElasticIPs, None)
              # (Detach (att_ID (eip_Attachment eip)) (eip_ID eip), outcome) # rest
          \<and> reads rest)
    \<and> (\<forall>i st nics. NetworkInterfaceService_List P (world st) i = Inr nics
          \<longrightarrow> fst (pickNetworkInterface L P i (eip_PrivateIP eip) st)
                = Inl (errors_New ''invalid private IP''))
    \<and> (\<forall>w' pre i post nics.
          ServerElasticIPService_Detach P w (att_ID (eip_Attachment eip)) (eip_ID eip) = (None, w')
          \<and> ids = pre @ i # post
          \<and> (\<forall>j\<in>set pre. j = att_ID (eip_Attachment eip) \<or> not_running P w' j)
          \<and> i \<noteq> att_ID (eip_Attachment eip) \<and> running P w' i
          \<and> NetworkInterfaceService_List P w' i = Inr nics
          \<longrightarrow> last (stderr (snd (main L P flagToken flagEIP flagInstances w)))
                = ERROR ''invalid private IP''
            \<and> calls (snd (main L P flagToken flagEIP flagInstances w))
                = [(ListElasticIPs, None),
                   (Detach (att_ID (eip_Attachment eip)) (eip_ID eip), None)]
                  @ map (\<lambda>j. (GetServer j, None))
                      (filter (\<lambda>j. j \<noteq> att_ID (eip_Attachment eip)) pre @ [i])
                  @ [(ListNetworkInterfaces i, None)])"
proof (intro conjI allI impI)
  from main_unparsable [OF assms]
  show "fst (main L P flagToken flagEIP flagInstances w) = 1"
    and "\<exists>outcome rest.
          calls (snd (main L P flagToken flagEIP flagInstances w))
            = (ListElasticIPs, None)
              # (Detach (att_ID (eip_Attachment eip)) (eip_ID eip), outcome) # rest
          \<and> reads rest"
    by blast+
next
  fix i :: int and st :: "'c proc" and nics
  assume "NetworkInterfaceService_List P (world st) i = Inr nics"
  with assms(3) show "fst (pickNetworkInterface L P i (eip_PrivateIP eip) st)
                = Inl (errors_New ''invalid private IP'')"
    by (simp add: pickNetworkInterface_unfold)
next
  fix w' pre i post nics
  assume h: "ServerElasticIPService_Detach P w (att_ID (eip_Attachment eip)) (eip_ID eip) = (None, w')
          \<and> ids = pre @ i # post
          \<and> (\<forall>j\<in>set pre. j = att_ID (eip_Attachment eip) \<or> not_running P w' j)
          \<and> i \<noteq> att_ID (eip_Attachment eip) \<and> running P w' i
          \<and> NetworkInterfaceService_List P w' i = Inr nics"
  with assms(2,3)
  have r: "main L P flagToken flagEIP flagInstances w =
           (1, \<lparr>world = w',
                calls = [(ListElasticIPs, None),
                         (Detach (att_ID (eip_Attachment eip)) (eip_ID eip), None)]
                  @ map (\<lambda>j. (GetServer j, None))
                      (filter (\<lambda>j. j \<noteq> att_ID (eip_Attachment eip)) pre @ [i])
                  @ [(ListNetworkInterfaces i, None)],
                stderr = [INFO (found_message eip), INFO (detached_message eip),
                          INFO (''picked next available instance with id '' @ quoted (fmt_int i)),
                          ERROR ''invalid private IP'']\<rparr>)"
    by (simp add: main_def located_flags [OF assms(1)] Let_def service_Detach_unfold slog_Info_def
          pickNextInstance_first_running pickNetworkInterface_unfold slog_Error_def)
  from r show "last (stderr (snd (main L P flagToken flagEIP flagInstances w)))
                = ERROR ''invalid private IP''"
    by simp
  from r show "calls (snd (main L P flagToken flagEIP flagInstances w))
                = [(ListElasticIPs, None),
                   (Detach (att_ID (eip_Attachment eip)) (eip_ID eip), None)]
                  @ map (\<lambda>j. (GetServer j, None))
                      (filter (\<lambda>j. j \<noteq> att_ID (eip_Attachment eip)) pre @ [i])
                  @ [(ListNetworkInterfaces i, None)]"
    by simp
qed

text \<open>
  The example's spare elastic IP is attached nowhere: its private address is empty and
  its attachment is the instance 0.  The run detaches it from instance 0, which the
  scripted provider accepts, picks A, lists the interfaces of A and ends with "invalid
  private IP".
\<close>

theorem unparsable_private_IP_fails_after_detach_witness:
  "located ipv4 example ''secret'' ''198.51.100.4'' 0 spare_eip
   \<and> checkFlagInstances ipv4 ''1,3'' = Inr [1, 3]
   \<and> eip_PrivateIP spare_eip = []
   \<and> net_ParseIP ipv4 [] = None
   \<and> fst (main ipv4 example ''secret'' ''198.51.100.4'' ''1,3'' 0) = 1
   \<and> last (stderr (snd (main ipv4 example ''secret'' ''198.51.100.4'' ''1,3'' 0)))
       = ERROR ''invalid private IP''
   \<and> calls (snd (main ipv4 example ''secret'' ''198.51.100.4'' ''1,3'' 0))
       = [(ListElasticIPs, None), (Detach 0 8, None), (GetServer 1, None),
          (ListNetworkInterfaces 1, None)]"
proof -
  have loc: "located ipv4 example ''secret'' ''198.51.100.4'' 0 spare_eip" by code_simp
  have ids: "checkFlagInstances ipv4 ''1,3'' = Inr [1, 3]" by code_simp
  have empty: "eip_PrivateIP spare_eip = []" by code_simp
  have ip: "net_ParseIP ipv4 [] = None" by code_simp
  from ip empty have ip': "net_ParseIP ipv4 (eip_PrivateIP spare_eip) = None" by simp
  have det: "ServerElasticIPService_Detach example 0 (att_ID (eip_Attachment spare_eip))
               (eip_ID spare_eip) = (None, 1)" by code_simp
  have split: "[1, 3] = [] @ 1 # [3::int]" by simp
  have other: "1 \<noteq> att_ID (eip_Attachment spare_eip)" by code_simp
  have up: "running example 1 1" by code_simp
  have nics: "NetworkInterfaceService_List example 1 1 = Inr [nic_A]" by code_simp
  note claim = unparsable_private_IP_fails_after_detach [OF loc ids ip']
  from claim have code: "fst (main ipv4 example ''secret'' ''198.51.100.4'' ''1,3'' 0) = 1"
    by blast
  from claim det split other up nics
  have "last (stderr (snd (main ipv4 example ''secret'' ''198.51.100.4'' ''1,3'' 0)))
          = ERROR ''invalid private IP''
      \<and> calls (snd (main ipv4 example ''secret'' ''198.51.100.4'' ''1,3'' 0))
          = [(ListElasticIPs, None),
             (Detach (att_ID (eip_Attachment spare_eip)) (eip_ID spare_eip), None)]
            @ map (\<lambda>j. (GetServer j, None))
                (filter (\<lambda>j. j \<noteq> att_ID (eip_Attachment spare_eip)) [] @ [1])
            @ [(ListNetworkInterfaces 1, None)]"
    by (elim conjE allE [of _ "1::nat"] allE [of _ "[]::int list"] allE [of _ "1::int"]
             allE [of _ "[3::int]"] allE [of _ "[nic_A]"]) simp
  with loc ids empty ip code show ?thesis by (simp add: spare_eip_def)
qed

text \<open>
  C2, as stated, fails.  On the detour, with the candidates A, D, C in this order and A the
  failed instance, the first entry that is running and has an interface in the subnet of
  10.0.0.1 is C; the code picks D, the first running entry, finds no interface of D in
  the subnet, and the run ends with status 1 and no attach.
\<close>

theorem first_running_entry_need_not_be_eligible:
  "spec_target ipv4 detour 1 [1, 4, 3] 1 ''10.0.0.1'' = Some 3
   \<and> fst (pickNextInstance detour [1, 4, 3] 1 (start 1)) = Inr 4
   \<and> fst (pickNetworkInterface ipv4 detour 4 ''10.0.0.1'' (start 1))
       = Inl (errors_New ''no network interface in same network as previous private ip found'')
   \<and> fst (main ipv4 detour ''secret'' ''203.0.113.9'' ''1,4,3'' 0) = 1
   \<and> map fst (calls (snd (main ipv4 detour ''secret'' ''203.0.113.9'' ''1,4,3'' 0)))
       = [ListElasticIPs, Detach 1 7, GetServer 4, ListNetworkInterfaces 4]"
proof -
  have "spec_target ipv4 detour 1 [1, 4, 3] 1 ''10.0.0.1'' = Some 3" by code_simp
  moreover have "fst (pickNextInstance detour [1, 4, 3] 1 (start 1)) = Inr 4" by code_simp
  moreover have "fst (pickNetworkInterface ipv4 detour 4 ''10.0.0.1'' (start 1))
       = Inl (errors_New ''no network interface in same network as previous private ip found'')"
    by code_simp
  moreover have "fst (main ipv4 detour ''secret'' ''203.0.113.9'' ''1,4,3'' 0) = 1" by code_simp
  moreover have "map fst (calls (snd (main ipv4 detour ''secret'' ''203.0.113.9'' ''1,4,3'' 0)))
       = [ListElasticIPs, Detach 1 7, GetServer 4, ListNetworkInterfaces 4]" by code_simp
  ultimately show ?thesis by blast
qed

text \<open>
  C2, amended.  \<open>pickNextInstance\<close> returns the first entry of the list, the failed
  instance left out, that is reported running, having asked about the entries before it
  and about no entry after it; when no entry is one, it returns "no available instance
  found".  \<open>pickNetworkInterface\<close> then returns the first interface of that instance
  whose subnet contains the previous private address, and the error "no network
  interface in same network as previous private ip found" when all its subnets parse and
  none contains the address.  So the chosen instance is the first running entry; when
  that entry has no interface in the subnet the run ends with status 1 right after the
  listing of its interfaces, whatever entries follow it in the list; when it has one, the
  run goes on to the attach to that interface.  Conversely, whenever the selection of
  the instance and of the interface succeeds, the instance is the first entry that is
  running and has an interface whose subnet contains the previous private address, the
  target in the words of the specification.  The choice follows the order of the list.
\<close>

theorem successful_selection_is_first_eligible:
  "(ids = pre @ i # post \<and> (\<forall>j\<in>set pre. j = failed \<or> not_running P (world st) j)
      \<and> i \<noteq> failed \<and> running P (world st) i
    \<longrightarrow> pickNextInstance P ids failed st
          = (Inr i, st\<lparr>calls := calls st
               @ map (\<lambda>j. (GetServer j, None)) (filter (\<lambda>j. j \<noteq> failed) pre @ [i])\<rparr>))
   \<and> ((\<forall>j\<in>set ids. j = failed \<or> not_running P (world st) j)
    \<longrightarrow> pickNextInstance P ids failed st
          = (Inl (errors_New ''no available instance found''),
             st\<lparr>calls := calls st
               @ map (\<lambda>j. (GetServer j, None)) (filter (\<lambda>j. j \<noteq> failed) ids)\<rparr>))
   \<and> (NetworkInterfaceService_List P (world st) i = Inr (npre @ nic # npost)
      \<and> net_ParseIP L prev = Some ip
      \<and> (\<forall>x\<in>set npre. outside_subnet L ip x) \<and> in_subnet L ip nic
    \<longrightarrow> pickNetworkInterface L P i prev st
          = (Inr nic, st\<lparr>calls := calls st @ [(ListNetworkInterfaces i, None)]\<rparr>))
   \<and> (NetworkInterfaceService_List P (world st) i = Inr nics
      \<and> net_ParseIP L prev = Some ip
      \<and> (\<forall>x\<in>set nics. outside_subnet L ip x)
    \<longrightarrow> pickNetworkInterface L P i prev st
          = (Inl (errors_New ''no network interface in same network as previous private ip found''),
             st\<lparr>calls := calls st @ [(ListNetworkInterfaces i, None)]\<rparr>))
   \<and> (pickNextInstance P ids failed st = (Inr i, sta)
    \<longrightarrow> (\<exists>pre post. ids = pre @ i # post \<and> i \<noteq> failed \<and> running P (world st) i
          \<and> (\<forall>j\<in>set pre. j = failed \<or> not_running P (world st) j)))
   \<and> (pickNextInstance P ids failed st = (Inr i, sta)
      \<and> pickNetworkInterface L P i prev stb = (Inr nic, stc)
      \<and> world stb = world st
    \<longrightarrow> spec_target L P (world st) ids failed prev = Some i
      \<and> (\<exists>npre npost ip. NetworkInterfaceService_List P (world st) i = Inr (npre @ nic # npost)
          \<and> net_ParseIP L prev = Some ip
          \<and> (\<forall>x\<in>set npre. outside_subnet L ip x) \<and> in_subnet L ip nic))
   \<and> (located L P flagToken flagEIP w eip
      \<and> checkFlagInstances L flagInstances = Inr (pre @ i # post)
      \<and> ServerElasticIPService_Detach P w (att_ID (eip_Attachment eip)) (eip_ID eip) = (None, w')
      \<and> (\<forall>j\<in>set pre. j = att_ID (eip_Attachment eip) \<or> not_running P w' j)
      \<and> i \<noteq> att_ID (eip_Attachment eip) \<and> running P w' i
      \<and> NetworkInterfaceService_List P w' i = Inr nics
      \<and> net_ParseIP L (eip_PrivateIP eip) = Some ip
      \<and> (\<forall>x\<in>set nics. outside_subnet L ip x)
    \<longrightarrow> fst (main L P flagToken flagEIP flagInstances w) = 1
      \<and> last (stderr (snd (main L P flagToken flagEIP flagInstances w)))
          = ERROR ''no network interface in same network as previous private ip found''
      \<and> map fst (calls (snd (main L P flagToken flagEIP flagInstances w)))
          = [ListElasticIPs, Detach (att_ID (eip_Attachment eip)) (eip_ID eip)]
            @ map GetServer (filter (\<lambda>j. j \<noteq> att_ID (eip_Attachment eip)) pre)
            @ [GetServer i, ListNetworkInterfaces i])
   \<and> (located L P flagToken flagEIP w eip
      \<and> checkFlagInstances L flagInstances = Inr (pre @ i # post)
      \<and> ServerElasticIPService_Detach P w (att_ID (eip_Attachment eip)) (eip_ID eip) = (None, w')
      \<and> (\<forall>j\<in>set pre. j = att_ID (eip_Attachment eip) \<or> not_running P w' j)
      \<and> i \<noteq> att_ID (eip_Attachment eip) \<and> running P w' i
      \<and> NetworkInterfaceService_List P w' i = Inr (npre @ nic # npost)
      \<and> net_ParseIP L (eip_PrivateIP eip) = Some ip
      \<and> (\<forall>x\<in>set npre. outside_subnet L ip x) \<and> in_subnet L ip nic
    \<longrightarrow> map fst (calls (snd (main L P flagToken flagEIP flagInstances w)))
          = [ListElasticIPs, Detach (att_ID (eip_Attachment eip)) (eip_ID eip)]
            @ map GetServer (filter (\<lambda>j. j \<noteq> att_ID (eip_Attachment eip)) pre)
            @ [GetServer i, ListNetworkInterfaces i]
            @ (if eip_PublicIP (nic_AttachedElasticIP nic) = []
               then [Attach (att_ID (eip_Attachment eip)) (eip_ID eip) (nic_ID nic)]
               else if fst (ServerElasticIPService_Detach P w' i
                              (eip_ID (nic_AttachedElasticIP nic))) = None
               then [Detach i (eip_ID (nic_AttachedElasticIP nic)),
                     Attach (att_ID (eip_Attachment eip)) (eip_ID eip) (nic_ID nic)]
               else [Detach i (eip_ID (nic_AttachedElasticIP nic))]))"
proof (intro conjI impI)
  assume "ids = pre @ i # post \<and> (\<forall>j\<in>set pre. j = failed \<or> not_running P (world st) j)
      \<and> i \<noteq> failed \<and> running P (world st) i"
  then show "pickNextInstance P ids failed st
          = (Inr i, st\<lparr>calls := calls st
               @ map (\<lambda>j. (GetServer j, None)) (filter (\<lambda>j. j \<noteq> failed) pre @ [i])\<rparr>)"
    by (simp add: pickNextInstance_first_running)
next
  assume "\<forall>j\<in>set ids. j = failed \<or> not_running P (world st) j"
  then show "pickNextInstance P ids failed st
          = (Inl (errors_New ''no available instance found''),
             st\<lparr>calls := calls st
               @ map (\<lambda>j. (GetServer j, None)) (filter (\<lambda>j. j \<noteq> failed) ids)\<rparr>)"
    by (rule pickNextInstance_none)
next
  assume "NetworkInterfaceService_List P (world st) i = Inr (npre @ nic # npost)
      \<and> net_ParseIP L prev = Some ip
      \<and> (\<forall>x\<in>set npre. outside_subnet L ip x) \<and> in_subnet L ip nic"
  then show "pickNetworkInterface L P i prev st
          = (Inr nic, st\<lparr>calls := calls st @ [(ListNetworkInterfaces i, None)]\<rparr>)"
    by (simp add: pickNetworkInterface_unfold pickNetworkInterface_loop_first)
next
  assume "NetworkInterfaceService_List P (world st) i = Inr nics
      \<and> net_ParseIP L prev = Some ip
      \<and> (\<forall>x\<in>set nics. outside_subnet L ip x)"
  then show "pickNetworkInterface L P i prev st
          = (Inl (errors_New ''no network interface in same network as previous private ip found''),
             st\<lparr>calls := calls st @ [(ListNetworkInterfaces i, None)]\<rparr>)"
    by (simp add: pickNetworkInterface_unfold pickNetworkInterface_loop_none)
next
  assume "pickNextInstance P ids failed st = (Inr i, sta)"
  from pickNextInstance_Inr [OF this]
  show "\<exists>pre post. ids = pre @ i # post \<and> i \<noteq> failed \<and> running P (world st) i
          \<and> (\<forall>j\<in>set pre. j = failed \<or> not_running P (world st) j)"
    by blast
next
  assume h: "pickNextInstance P ids failed st = (Inr i, sta)
      \<and> pickNetworkInterface L P i prev stb = (Inr nic, stc)
      \<and> world stb = world st"
  from h pickNextInstance_Inr [of P ids failed st i sta] obtain pre post where
    p: "ids = pre @ i # post" "i \<noteq> failed"
       "\<forall>j\<in>set pre. j = failed \<or> not_running P (world st) j" "running P (world st) i"
    by blast
  from h pickNetworkInterface_Inr [of L P i prev stb nic stc] obtain npre npost ip where
    n: "NetworkInterfaceService_List P (world st) i = Inr (npre @ nic # npost)"
       "net_ParseIP L prev = Some ip" "\<forall>x\<in>set npre. outside_subnet L ip x" "in_subnet L ip nic"
    by auto
  from p(4) n have "spec_eligible L P (world st) prev i"
    by (auto simp: spec_eligible_def list_ex_iff)
  from spec_target_first [OF p(3) p(2) this] p(1)
  show "spec_target L P (world st) ids failed prev = Some i" by simp
  from n show "\<exists>npre npost ip. NetworkInterfaceService_List P (world st) i = Inr (npre @ nic # npost)
          \<and> net_ParseIP L prev = Some ip
          \<and> (\<forall>x\<in>set npre. outside_subnet L ip x) \<and> in_subnet L ip nic"
    by blast
next
  assume h: "located L P flagToken flagEIP w eip
      \<and> checkFlagInstances L flagInstances = Inr (pre @ i # post)
      \<and> ServerElasticIPService_Detach P w (att_ID (eip_Attachment eip)) (eip_ID eip) = (None, w')
      \<and> (\<forall>j\<in>set pre. j = att_ID (eip_Attachment eip) \<or> not_running P w' j)
      \<and> i \<noteq> att_ID (eip_Attachment eip) \<and> running P w' i
      \<and> NetworkInterfaceService_List P w' i = Inr nics
      \<and> net_ParseIP L (eip_PrivateIP eip) = Some ip
      \<and> (\<forall>x\<in>set nics. outside_subnet L ip x)"
  then have r: "fst (main L P flagToken flagEIP flagInstances w) = 1
      \<and> last (stderr (snd (main L P flagToken flagEIP flagInstances w)))
          = ERROR ''no network interface in same network as previous private ip found''
      \<and> map fst (calls (snd (main L P flagToken flagEIP flagInstances w)))
          = [ListElasticIPs, Detach (att_ID (eip_Attachment eip)) (eip_ID eip)]
            @ map GetServer (filter (\<lambda>j. j \<noteq> att_ID (eip_Attachment eip)) pre)
            @ [GetServer i, ListNetworkInterfaces i]"
    by (intro main_no_interface) blast+
  from r show "fst (main L P flagToken flagEIP flagInstances w) = 1" by blast
  from r show "last (stderr (snd (main L P flagToken flagEIP flagInstances w)))
          = ERROR ''no network interface in same network as previous private ip found''" by blast
  from r show "map fst (calls (snd (main L P flagToken flagEIP flagInstances w)))
          = [ListElasticIPs, Detach (att_ID (eip_Attachment eip)) (eip_ID eip)]
            @ map GetServer (filter (\<lambda>j. j \<noteq> att_ID (eip_Attachment eip)) pre)
            @ [GetServer i, ListNetworkInterfaces i]" by blast
next
  assume "located L P flagToken flagEIP w eip
      \<and> checkFlagInstances L flagInstances = Inr (pre @ i # post)
      \<and> ServerElasticIPService_Detach P w (att_ID (eip_Attachment eip)) (eip_ID eip) = (None, w')
      \<and> (\<forall>j\<in>set pre. j = att_ID (eip_Attachment eip) \<or> not_running P w' j)
      \<and> i \<noteq> att_ID (eip_Attachment eip) \<and> running P w' i
      \<and> NetworkInterfaceService_List P w' i = Inr (npre @ nic # npost)
      \<and> net_ParseIP L (eip_PrivateIP eip) = Some ip
      \<and> (\<forall>x\<in>set npre. outside_subnet L ip x) \<and> in_subnet L ip nic"
  then show "map fst (calls (snd (main L P flagToken flagEIP flagInstances w)))
          = [ListElasticIPs, Detach (att_ID (eip_Attachment eip)) (eip_ID eip)]
            @ map GetServer (filter (\<lambda>j. j \<noteq> att_ID (eip_Attachment eip)) pre)
            @ [GetServer i, ListNetworkInterfaces i]
            @ (if eip_PublicIP (nic_AttachedElasticIP nic) = []
               then [Attach (att_ID (eip_Attachment eip)) (eip_ID eip) (nic_ID nic)]
               else if fst (ServerElasticIPService_Detach P w' i
                              (eip_ID (nic_AttachedElasticIP nic))) = None
               then [Detach i (eip_ID (nic_AttachedElasticIP nic)),
                     Attach (att_ID (eip_Attachment eip)) (eip_ID eip) (nic_ID nic)]
               else [Detach i (eip_ID (nic_AttachedElasticIP nic))])"
    by (intro main_selected) blast+
qed

text \<open>
  On the detour the candidates A, D, C are all running and the elastic IP is on A.  In
  the order A, C, D the first running entry is C: it is returned after one get, its
  interface is chosen, and C is the target in the words of the specification.  In the
  order A, D, C the first running entry is D, whose one interface is outside the subnet:
  D is returned, the selection of the interface fails, and C is not asked about.
\<close>

theorem successful_selection_is_first_eligible_witness:
  "pickNextInstance detour [1, 3, 4] 1 (start 1)
     = (Inr 3, \<lparr>world = 1, calls = [(GetServer 3, None)], stderr = []\<rparr>)
   \<and> pickNetworkInterface ipv4 detour 3 ''10.0.0.1'' (start 1)
     = (Inr nic_C, \<lparr>world = 1, calls = [(ListNetworkInterfaces 3, None)], stderr = []\<rparr>)
   \<and> spec_target ipv4 detour 1 [1, 3, 4] 1 ''10.0.0.1'' = Some 3
   \<and> pickNextInstance detour [1, 4, 3] 1 (start 1)
     = (Inr 4, \<lparr>world = 1, calls = [(GetServer 4, None)], stderr = []\<rparr>)
   \<and> pickNetworkInterface ipv4 detour 4 ''10.0.0.1'' (start 1)
     = (Inl (errors_New ''no network interface in same network as previous private ip found''),
        \<lparr>world = 1, calls = [(ListNetworkInterfaces 4, None)], stderr = []\<rparr>)"
proof -
  have up3: "running detour (world (start (1::nat))) 3" by code_simp
  have up4: "running detour (world (start (1::nat))) 4" by code_simp
  have nics3: "NetworkInterfaceService_List detour (world (start (1::nat))) 3 = Inr ([] @ nic_C # [])"
    by code_simp
  have nics4: "NetworkInterfaceService_List detour (world (start (1::nat))) 4 = Inr [nic_D]"
    by code_simp
  have ip: "net_ParseIP ipv4 ''10.0.0.1'' = Some [10, 0, 0, 1]" by code_simp
  have inside: "in_subnet ipv4 [10, 0, 0, 1] nic_C" by code_simp
  have outside: "outside_subnet ipv4 [10, 0, 0, 1] nic_D" by code_simp
  note claim = successful_selection_is_first_eligible
    [where L = ipv4 and P = detour and st = "start (1::nat)" and failed = 1
       and prev = "''10.0.0.1''" and ip = "[10, 0, 0, 1]"]
  from claim [where ids = "[1, 3, 4]" and pre = "[1]" and i = 3 and post = "[4]",
              THEN conjunct1] up3
  have p: "pickNextInstance detour [1, 3, 4] 1 (start 1)
     = (Inr 3, \<lparr>world = 1, calls = [(GetServer 3, None)], stderr = []\<rparr>)"
    by (simp add: start_def)
  from claim [where i = 3 and npre = "[]" and nic = nic_C and npost = "[]",
              THEN conjunct2, THEN conjunct2, THEN conjunct1] nics3 ip inside
  have n: "pickNetworkInterface ipv4 detour 3 ''10.0.0.1'' (start 1)
     = (Inr nic_C, \<lparr>world = 1, calls = [(ListNetworkInterfaces 3, None)], stderr = []\<rparr>)"
    by (simp add: start_def)
  from claim [where ids = "[1, 3, 4]" and i = 3 and nic = nic_C and stb = "start (1::nat)"
                and sta = "\<lparr>world = 1, calls = [(GetServer 3, None)], stderr = []\<rparr>"
                and stc = "\<lparr>world = 1, calls = [(ListNetworkInterfaces 3, None)], stderr = []\<rparr>",
              THEN conjunct2, THEN conjunct2, THEN conjunct2, THEN conjunct2, THEN conjunct2,
              THEN conjunct1] p n
  have t: "spec_target ipv4 detour 1 [1, 3, 4] 1 ''10.0.0.1'' = Some 3"
    by (simp add: start_def)
  from claim [where ids = "[1, 4, 3]" and pre = "[1]" and i = 4 and post = "[3]",
              THEN conjunct1] up4
  have p': "pickNextInstance detour [1, 4, 3] 1 (start 1)
     = (Inr 4, \<lparr>world = 1, calls = [(GetServer 4, None)], stderr = []\<rparr>)"
    by (simp add: start_def)
  from claim [where i = 4 and nics = "[nic_D]",
              THEN conjunct2, THEN conjunct2, THEN conjunct2, THEN conjunct1] nics4 ip outside
  have n': "pickNetworkInterface ipv4 detour 4 ''10.0.0.1'' (start 1)
     = (Inl (errors_New ''no network interface in same network as previous private ip found''),
        \<lparr>world = 1, calls = [(ListNetworkInterfaces 4, None)], stderr = []\<rparr>)"
    by (simp add: start_def)
  from p n t p' n' show ?thesis by blast
qed

text \<open>
  C4.  \<open>filterPeers\<close> removes every occurrence of the previously attached private address
  from the peer list, and nothing else.  \<open>pickFailOverTarget\<close> on the filtered list
  lists the instances and goes through them in the order of that listing, listing the
  interfaces of each running one: when every instance listed before \<open>server\<close> is passed
  over (not running, or no interface with an address of the filtered list) and \<open>server\<close>
  is running, it returns the first interface of \<open>server\<close> whose private address is in
  the filtered list; when every listed instance is passed over it returns "no available
  instance found", having listed the interfaces of every running one.  Conversely, a
  target that it returns is such a first match, and its address is in the peer list and
  is not the failed one.  In a run of the peer-address entry point every attach call names
  such an instance and interface; the run with a first match makes exactly the calls
  that lead to the attach to it, and the run without a match ends with status 1.
\<close>

theorem peers_never_select_the_failed_address:
  "filterPeers peers banned = filter (\<lambda>ip. ip \<noteq> banned) peers
   \<and> banned \<notin> set (filterPeers peers banned)
   \<and> (ServerService_List P (world st) = Inr (ipre @ server # ipost)
      \<and> (\<forall>j\<in>set ipre. passed_over P (world st) (filterPeers peers banned) j)
      \<and> srv_Status_ID server = ServerStatusRunning P
      \<and> NetworkInterfaceService_List P (world st) (srv_ID server) = Inr (npre @ nic # npost)
      \<and> (\<forall>x\<in>set npre. nic_PrivateIP x \<notin> set (filterPeers peers banned))
      \<and> nic_PrivateIP nic \<in> set peers \<and> nic_PrivateIP nic \<noteq> banned
      \<longrightarrow> pickFailOverTarget P (filterPeers peers banned) st
            = (Inr (target_of server nic),
               st\<lparr>calls := calls st @ (ListServers, None)
                  # map (\<lambda>s. (ListNetworkInterfaces (srv_ID s), None))
                      (filter (\<lambda>s. srv_Status_ID s = ServerStatusRunning P) ipre @ [server])\<rparr>))
   \<and> (ServerService_List P (world st) = Inr insts
      \<and> (\<forall>j\<in>set insts. passed_over P (world st) (filterPeers peers banned) j)
      \<longrightarrow> pickFailOverTarget P (filterPeers peers banned) st
            = (Inl (errors_New ''no available instance found''),
               st\<lparr>calls := calls st @ (ListServers, None)
                  # map (\<lambda>s. (ListNetworkInterfaces (srv_ID s), None))
                      (filter (\<lambda>s. srv_Status_ID s = ServerStatusRunning P) insts)\<rparr>))
   \<and> (fst (pickFailOverTarget P (filterPeers peers banned) st) = Inr target
      \<longrightarrow> (\<exists>ipre server ipost npre nic npost.
             ServerService_List P (world st) = Inr (ipre @ server # ipost)
             \<and> srv_Status_ID server = ServerStatusRunning P
             \<and> NetworkInterfaceService_List P (world st) (srv_ID server) = Inr (npre @ nic # npost)
             \<and> nic_PrivateIP nic \<in> set peers \<and> nic_PrivateIP nic \<noteq> banned
             \<and> (\<forall>x\<in>set npre. nic_PrivateIP x \<notin> set (filterPeers peers banned))
             \<and> (\<forall>j\<in>set ipre. passed_over P (world st) (filterPeers peers banned) j)
             \<and> target = target_of server nic))
   \<and> (located L P flagToken flagEIP w eip \<and> checkFlagIPs L flagIPs = Inr haPeerIPs
      \<and> ServerElasticIPService_Detach P w (att_ID (eip_Attachment eip)) (eip_ID eip) = (None, w')
      \<and> (Attach s e n, outcome) \<in> set (calls (snd (main_peers L P flagToken flagEIP flagIPs w)))
      \<longrightarrow> (\<exists>ipre server ipost npre nic npost.
             ServerService_List P w' = Inr (ipre @ server # ipost)
             \<and> NetworkInterfaceService_List P w' (srv_ID server) = Inr (npre @ nic # npost)
             \<and> s = srv_ID server \<and> n = nic_ID nic \<and> e = eip_ID eip
             \<and> nic_PrivateIP nic \<in> set haPeerIPs \<and> nic_PrivateIP nic \<noteq> eip_PrivateIP eip))
   \<and> (located L P flagToken flagEIP w eip \<and> checkFlagIPs L flagIPs = Inr haPeerIPs
      \<and> ServerElasticIPService_Detach P w (att_ID (eip_Attachment eip)) (eip_ID eip) = (None, w')
      \<and> ServerService_List P w' = Inr (ipre @ server # ipost)
      \<and> (\<forall>j\<in>set ipre. passed_over P w' (filterPeers haPeerIPs (eip_PrivateIP eip)) j)
      \<and> srv_Status_ID server = ServerStatusRunning P
      \<and> NetworkInterfaceService_List P w' (srv_ID server) = Inr (npre @ nic # npost)
      \<and> (\<forall>x\<in>set npre. nic_PrivateIP x \<notin> set (filterPeers haPeerIPs (eip_PrivateIP eip)))
      \<and> nic_PrivateIP nic \<in> set haPeerIPs \<and> nic_PrivateIP nic \<noteq> eip_PrivateIP eip
      \<longrightarrow> map fst (calls (snd (main_peers L P flagToken flagEIP flagIPs w)))
            = [ListElasticIPs, Detach (att_ID (eip_Attachment eip)) (eip_ID eip), ListServers]
              @ map (\<lambda>s. ListNetworkInterfaces (srv_ID s))
                  (filter (\<lambda>s. srv_Status_ID s = ServerStatusRunning P) ipre)
              @ [ListNetworkInterfaces (srv_ID server)]
              @ (if eip_PublicIP (nic_AttachedElasticIP nic) = []
                 then [Attach (srv_ID server) (eip_ID eip) (nic_ID nic)]
                 else if fst (ServerElasticIPService_Detach P w' (srv_ID server)
                                (eip_ID (nic_AttachedElasticIP nic))) = None
                 then [Detach (srv_ID server) (eip_ID (nic_AttachedElasticIP nic)),
                       Attach (srv_ID server) (eip_ID eip) (nic_ID nic)]
                 else [Detach (srv_ID server) (eip_ID (nic_AttachedElasticIP nic))]))
   \<and> (located L P flagToken flagEIP w eip \<and> checkFlagIPs L flagIPs = Inr haPeerIPs
      \<and> ServerElasticIPService_Detach P w (att_ID (eip_Attachment eip)) (eip_ID eip) = (None, w')
      \<and> ServerService_List P w' = Inr insts
      \<and> (\<forall>j\<in>set insts. passed_over P w' (filterPeers haPeerIPs (eip_PrivateIP eip)) j)
      \<longrightarrow> main_peers L P flagToken flagEIP flagIPs w =
            (1, \<lparr>world = w',
                 calls = [(ListElasticIPs, None),
                          (Detach (att_ID (eip_Attachment eip)) (eip_ID eip), None),
                          (ListServers, None)]
                   @ map (\<lambda>s. (ListNetworkInterfaces (srv_ID s), None))
                       (filter (\<lambda>s. srv_Status_ID s = ServerStatusRunning P) insts),
                 stderr = [INFO (found_message eip), INFO (detached_message eip),
                           ERROR ''no available instance found'']\<rparr>))"
proof (intro conjI impI)
  show "filterPeers peers banned = filter (\<lambda>ip. ip \<noteq> banned) peers"
    by (rule filterPeers_filter)
  show "banned \<notin> set (filterPeers peers banned)"
    by (simp add: filterPeers_filter)
next
  assume "ServerService_List P (world st) = Inr (ipre @ server # ipost)
      \<and> (\<forall>j\<in>set ipre. passed_over P (world st) (filterPeers peers banned) j)
      \<and> srv_Status_ID server = ServerStatusRunning P
      \<and> NetworkInterfaceService_List P (world st) (srv_ID server) = Inr (npre @ nic # npost)
      \<and> (\<forall>x\<in>set npre. nic_PrivateIP x \<notin> set (filterPeers peers banned))
      \<and> nic_PrivateIP nic \<in> set peers \<and> nic_PrivateIP nic \<noteq> banned"
  then show "pickFailOverTarget P (filterPeers peers banned) st
            = (Inr (target_of server nic),
               st\<lparr>calls := calls st @ (ListServers, None)
                  # map (\<lambda>s. (ListNetworkInterfaces (srv_ID s), None))
                      (filter (\<lambda>s. srv_Status_ID s = ServerStatusRunning P) ipre @ [server])\<rparr>)"
    by (intro pickFailOverTarget_first) (auto simp: filterPeers_filter)
next
  assume "ServerService_List P (world st) = Inr insts
      \<and> (\<forall>j\<in>set insts. passed_over P (world st) (filterPeers peers banned) j)"
  then show "pickFailOverTarget P (filterPeers peers banned) st
            = (Inl (errors_New ''no available instance found''),
               st\<lparr>calls := calls st @ (ListServers, None)
                  # map (\<lambda>s. (ListNetworkInterfaces (srv_ID s), None))
                      (filter (\<lambda>s. srv_Status_ID s = ServerStatusRunning P) insts)\<rparr>)"
    by (intro pickFailOverTarget_none) auto
next
  assume "fst (pickFailOverTarget P (filterPeers peers banned) st) = Inr target"
  from pickFailOverTarget_Inr [OF this] obtain ipre server ipost npre nic npost where
    t: "ServerService_List P (world st) = Inr (ipre @ server # ipost)"
       "srv_Status_ID server = ServerStatusRunning P"
       "NetworkInterfaceService_List P (world st) (srv_ID server) = Inr (npre @ nic # npost)"
       "nic_PrivateIP nic \<in> set (filterPeers peers banned)"
       "\<forall>x\<in>set npre. nic_PrivateIP x \<notin> set (filterPeers peers banned)"
       "\<forall>j\<in>set ipre. passed_over P (world st) (filterPeers peers banned) j"
       "target = target_of server nic"
    by blast
  from t(4) have "nic_PrivateIP nic \<in> set peers" "nic_PrivateIP nic \<noteq> banned"
    by (simp_all add: filterPeers_filter)
  with t show "\<exists>ipre server ipost npre nic npost.
             ServerService_List P (world st) = Inr (ipre @ server # ipost)
             \<and> srv_Status_ID server = ServerStatusRunning P
             \<and> NetworkInterfaceService_List P (world st) (srv_ID server) = Inr (npre @ nic # npost)
             \<and> nic_PrivateIP nic \<in> set peers \<and> nic_PrivateIP nic \<noteq> banned
             \<and> (\<forall>x\<in>set npre. nic_PrivateIP x \<notin> set (filterPeers peers banned))
             \<and> (\<forall>j\<in>set ipre. passed_over P (world st) (filterPeers peers banned) j)
             \<and> target = target_of server nic"
    by blast
next
  assume h: "located L P flagToken flagEIP w eip \<and> checkFlagIPs L flagIPs = Inr haPeerIPs
      \<and> ServerElasticIPService_Detach P w (att_ID (eip_Attachment eip)) (eip_ID eip) = (None, w')
      \<and> (Attach s e n, outcome) \<in> set (calls (snd (main_peers L P flagToken flagEIP flagIPs w)))"
  let ?st1 = "\<lparr>world = w',
               calls = [(ListElasticIPs, None),
                        (Detach (att_ID (eip_Attachment eip)) (eip_ID eip), None)],
               stderr = [INFO (found_message eip), INFO (detached_message eip)]\<rparr>"
  from h have "\<exists>target. fst (pickFailOverTarget P (filterPeers haPeerIPs (eip_PrivateIP eip)) ?st1)
                   = Inr target
           \<and> s = InstanceID target \<and> e = eip_ID eip \<and> n = NetworkInterfaceID target"
    by (intro main_peers_attach) blast+
  then obtain target where
    sel: "fst (pickFailOverTarget P (filterPeers haPeerIPs (eip_PrivateIP eip)) ?st1) = Inr target"
    and call: "s = InstanceID target" "e = eip_ID eip" "n = NetworkInterfaceID target"
    by blast
  from pickFailOverTarget_Inr [OF sel] obtain ipre server ipost npre nic npost where
    t: "ServerService_List P w' = Inr (ipre @ server # ipost)"
       "NetworkInterfaceService_List P w' (srv_ID server) = Inr (npre @ nic # npost)"
       "nic_PrivateIP nic \<in> set (filterPeers haPeerIPs (eip_PrivateIP eip))"
       "target = target_of server nic"
    by auto
  from t(3) have "nic_PrivateIP nic \<in> set haPeerIPs" "nic_PrivateIP nic \<noteq> eip_PrivateIP eip"
    by (simp_all add: filterPeers_filter)
  moreover from t(4) call have "s = srv_ID server" "n = nic_ID nic" "e = eip_ID eip"
    by (simp_all add: target_of_def)
  ultimately show "\<exists>ipre server ipost npre nic npost.
             ServerService_List P w' = Inr (ipre @ server # ipost)
             \<and> NetworkInterfaceService_List P w' (srv_ID server) = Inr (npre @ nic # npost)
             \<and> s = srv_ID server \<and> n = nic_ID nic \<and> e = eip_ID eip
             \<and> nic_PrivateIP nic \<in> set haPeerIPs \<and> nic_PrivateIP nic \<noteq> eip_PrivateIP eip"
    using t(1,2) by blast
next
  assume "located L P flagToken flagEIP w eip \<and> checkFlagIPs L flagIPs = Inr haPeerIPs
      \<and> ServerElasticIPService_Detach P w (att_ID (eip_Attachment eip)) (eip_ID eip) = (None, w')
      \<and> ServerService_List P w' = Inr (ipre @ server # ipost)
      \<and> (\<forall>j\<in>set ipre. passed_over P w' (filterPeers haPeerIPs (eip_PrivateIP eip)) j)
      \<and> srv_Status_ID server = ServerStatusRunning P
      \<and> NetworkInterfaceService_List P w' (srv_ID server) = Inr (npre @ nic # npost)
      \<and> (\<forall>x\<in>set npre. nic_PrivateIP x \<notin> set (filterPeers haPeerIPs (eip_PrivateIP eip)))
      \<and> nic_PrivateIP nic \<in> set haPeerIPs \<and> nic_PrivateIP nic \<noteq> eip_PrivateIP eip"
  then show "map fst (calls (snd (main_peers L P flagToken flagEIP flagIPs w)))
            = [ListElasticIPs, Detach (att_ID (eip_Attachment eip)) (eip_ID eip), ListServers]
              @ map (\<lambda>s. ListNetworkInterfaces (srv_ID s))
                  (filter (\<lambda>s. srv_Status_ID s = ServerStatusRunning P) ipre)
              @ [ListNetworkInterfaces (srv_ID server)]
              @ (if eip_PublicIP (nic_AttachedElasticIP nic) = []
                 then [Attach (srv_ID server) (eip_ID eip) (nic_ID nic)]
                 else if fst (ServerElasticIPService_Detach P w' (srv_ID server)
                                (eip_ID (nic_AttachedElasticIP nic))) = None
                 then [Detach (srv_ID server) (eip_ID (nic_AttachedElasticIP nic)),
                       Attach (srv_ID server) (eip_ID eip) (nic_ID nic)]
                 else [Detach (srv_ID server) (eip_ID (nic_AttachedElasticIP nic))])"
    by (intro main_peers_selected [where peers = haPeerIPs]) (auto simp: filterPeers_filter)
next
  assume "located L P flagToken flagEIP w eip \<and> checkFlagIPs L flagIPs = Inr haPeerIPs
      \<and> ServerElasticIPService_Detach P w (att_ID (eip_Attachment eip)) (eip_ID eip) = (None, w')
      \<and> ServerService_List P w' = Inr insts
      \<and> (\<forall>j\<in>set insts. passed_over P w' (filterPeers haPeerIPs (eip_PrivateIP eip)) j)"
  then show "main_peers L P flagToken flagEIP flagIPs w =
            (1, \<lparr>world = w',
                 calls = [(ListElasticIPs, None),
                          (Detach (att_ID (eip_Attachment eip)) (eip_ID eip), None),
                          (ListServers, None)]
                   @ map (\<lambda>s. (ListNetworkInterfaces (srv_ID s), None))
                       (filter (\<lambda>s. srv_Status_ID s = ServerStatusRunning P) insts),
                 stderr = [INFO (found_message eip), INFO (detached_message eip),
                           ERROR ''no available instance found'']\<rparr>)"
    by (intro main_peers_none [where peers = haPeerIPs]) auto
qed

text \<open>
  With all of A, B, C running and the peer list 10.0.0.3, 10.0.0.1, 10.0.0.2, 10.0.0.1, the
  elastic IP being on A at 10.0.0.1: both occurrences of 10.0.0.1 are removed, and the
  target is B, which the provider lists before C, although C's address comes first in the
  peer list.
\<close>

theorem peers_never_select_the_failed_address_witness:
  "checkFlagIPs ipv4 ''10.0.0.3,10.0.0.1,10.0.0.2,10.0.0.1''
     = Inr [''10.0.0.3'', ''10.0.0.1'', ''10.0.0.2'', ''10.0.0.1'']
   \<and> filterPeers [''10.0.0.3'', ''10.0.0.1'', ''10.0.0.2'', ''10.0.0.1''] ''10.0.0.1''
       = [''10.0.0.3'', ''10.0.0.2'']
   \<and> pickFailOverTarget all_up
        (filterPeers [''10.0.0.3'', ''10.0.0.1'', ''10.0.0.2'', ''10.0.0.1''] ''10.0.0.1'') (start 1)
       = (Inr \<lparr>InstanceID = 2, InstanceName = ''B'', NetworkInterfaceID = 20, AttachedEIP = no_eip\<rparr>,
          \<lparr>world = 1,
           calls = [(ListServers, None), (ListNetworkInterfaces 1, None),
                    (ListNetworkInterfaces 2, None)],
           stderr = []\<rparr>)
   \<and> nic_PrivateIP nic_B = ''10.0.0.2''
   \<and> map fst (calls (snd (main_peers ipv4 all_up ''secret'' ''203.0.113.9''
                              ''10.0.0.3,10.0.0.1,10.0.0.2,10.0.0.1'' 0)))
       = [ListElasticIPs, Detach 1 7, ListServers, ListNetworkInterfaces 1,
          ListNetworkInterfaces 2, Attach 2 7 20]"
proof -
  let ?peers = "[''10.0.0.3'', ''10.0.0.1'', ''10.0.0.2'', ''10.0.0.1'']"
  let ?A = "\<lparr>srv_ID = 1, srv_Name = ''A'', srv_Status_ID = 1\<rparr>"
  let ?B = "\<lparr>srv_ID = 2, srv_Name = ''B'', srv_Status_ID = 1\<rparr>"
  let ?C = "\<lparr>srv_ID = 3, srv_Name = ''C'', srv_Status_ID = 1\<rparr>"
  have flag: "checkFlagIPs ipv4 ''10.0.0.3,10.0.0.1,10.0.0.2,10.0.0.1'' = Inr ?peers"
    by code_simp
  note claim = peers_never_select_the_failed_address
    [where peers = ?peers and banned = "''10.0.0.1''" and P = all_up and st = "start (1::nat)"]
  from claim [THEN conjunct1]
  have "filterPeers ?peers ''10.0.0.1'' = filter (\<lambda>ip. ip \<noteq> ''10.0.0.1'') ?peers" .
  then have filtered: "filterPeers ?peers ''10.0.0.1'' = [''10.0.0.3'', ''10.0.0.2'']"
    by simp
  have listing: "ServerService_List all_up (world (start (1::nat))) = Inr ([?A] @ ?B # [?C])"
    by code_simp
  have passed: "passed_over all_up (world (start (1::nat))) [''10.0.0.3'', ''10.0.0.2''] ?A"
    by code_simp
  have up: "srv_Status_ID ?B = ServerStatusRunning all_up" by code_simp
  have nics: "NetworkInterfaceService_List all_up (world (start (1::nat))) (srv_ID ?B)
                = Inr ([] @ nic_B # [])" by code_simp
  have addr: "nic_PrivateIP nic_B = ''10.0.0.2''" by code_simp
  have t: "target_of ?B nic_B
             = \<lparr>InstanceID = 2, InstanceName = ''B'', NetworkInterfaceID = 20, AttachedEIP = no_eip\<rparr>"
    by code_simp
  from claim [where ipre = "[?A]" and server = ?B and ipost = "[?C]" and npre = "[]"
                and nic = nic_B and npost = "[]",
              THEN conjunct2, THEN conjunct2, THEN conjunct1]
    listing passed up nics addr filtered
  have "pickFailOverTarget all_up (filterPeers ?peers ''10.0.0.1'') (start 1)
       = (Inr (target_of ?B nic_B),
          (start 1)\<lparr>calls := calls (start (1::nat)) @ (ListServers, None)
             # map (\<lambda>s. (ListNetworkInterfaces (srv_ID s), None))
                 (filter (\<lambda>s. srv_Status_ID s = ServerStatusRunning all_up) [?A] @ [?B])\<rparr>)"
    by simp
  moreover have "ServerStatusRunning all_up = 1" by code_simp
  ultimately have sel: "pickFailOverTarget all_up (filterPeers ?peers ''10.0.0.1'') (start 1)
       = (Inr \<lparr>InstanceID = 2, InstanceName = ''B'', NetworkInterfaceID = 20, AttachedEIP = no_eip\<rparr>,
          \<lparr>world = 1,
           calls = [(ListServers, None), (ListNetworkInterfaces 1, None),
                    (ListNetworkInterfaces 2, None)],
           stderr = []\<rparr>)"
    by (simp add: t start_def)
  have run: "map fst (calls (snd (main_peers ipv4 all_up ''secret'' ''203.0.113.9''
                              ''10.0.0.3,10.0.0.1,10.0.0.2,10.0.0.1'' 0)))
       = [ListElasticIPs, Detach 1 7, ListServers, ListNetworkInterfaces 1,
          ListNetworkInterfaces 2, Attach 2 7 20]" by code_simp
  from flag filtered sel addr run show ?thesis by blast
qed

section \<open>Idempotence\<close>

text \<open>
  C1, as stated, fails for the instance-ID entry point, which has no check of the kind
  and never considers the instance that holds the elastic IP.  With the elastic IP
  already on C at 10.0.0.3 and the candidates A, B, C, the instance the specification
  selects is C, yet the run detaches the elastic IP from C and attaches it to the
  interface of A.  With the twin, the interface the run itself selects, D's, has the
  private address 10.0.0.3 the elastic IP already has, and the run still detaches and
  attaches.
\<close>

theorem instance_ID_run_moves_an_elastic_IP_already_in_place:
  "eip_PrivateIP ha_eip_on_C = ''10.0.0.3''
   \<and> spec_target ipv4 moved 0 [1, 2, 3] 1 (eip_PrivateIP ha_eip_on_C) = Some 3
   \<and> att_ID (eip_Attachment ha_eip_on_C) = 3
   \<and> fst (main ipv4 moved ''secret'' ''203.0.113.9'' ''1,2,3'' 0) = 0
   \<and> calls (snd (main ipv4 moved ''secret'' ''203.0.113.9'' ''1,2,3'' 0))
       = [(ListElasticIPs, None), (Detach 3 7, None), (GetServer 1, None),
          (ListNetworkInterfaces 1, None), (Attach 3 7 10, None)]
   \<and> fst (pickNetworkInterface ipv4 twin 4 (eip_PrivateIP ha_eip_on_C) (start 1)) = Inr nic_twin
   \<and> nic_PrivateIP nic_twin = eip_PrivateIP ha_eip_on_C
   \<and> fst (main ipv4 twin ''secret'' ''203.0.113.9'' ''4,3'' 0) = 0
   \<and> calls (snd (main ipv4 twin ''secret'' ''203.0.113.9'' ''4,3'' 0))
       = [(ListElasticIPs, None), (Detach 3 7, None), (GetServer 4, None),
          (ListNetworkInterfaces 4, None), (Attach 3 7 41, None)]"
proof -
  have "eip_PrivateIP ha_eip_on_C = ''10.0.0.3''" by code_simp
  moreover have "spec_target ipv4 moved 0 [1, 2, 3] 1 (eip_PrivateIP ha_eip_on_C) = Some 3"
    by code_simp
  moreover have "att_ID (eip_Attachment ha_eip_on_C) = 3" by code_simp
  moreover have "fst (main ipv4 moved ''secret'' ''203.0.113.9'' ''1,2,3'' 0) = 0" by code_simp
  moreover have "calls (snd (main ipv4 moved ''secret'' ''203.0.113.9'' ''1,2,3'' 0))
       = [(ListElasticIPs, None), (Detach 3 7, None), (GetServer 1, None),
          (ListNetworkInterfaces 1, None), (Attach 3 7 10, None)]" by code_simp
  moreover have "fst (pickNetworkInterface ipv4 twin 4 (eip_PrivateIP ha_eip_on_C) (start 1))
       = Inr nic_twin" by code_simp
  moreover have "nic_PrivateIP nic_twin = eip_PrivateIP ha_eip_on_C" by code_simp
  moreover have "fst (main ipv4 twin ''secret'' ''203.0.113.9'' ''4,3'' 0) = 0" by code_simp
  moreover have "calls (snd (main ipv4 twin ''secret'' ''203.0.113.9'' ''4,3'' 0))
       = [(ListElasticIPs, None), (Detach 3 7, None), (GetServer 4, None),
          (ListNetworkInterfaces 4, None), (Attach 3 7 41, None)]" by code_simp
  ultimately show ?thesis by blast
qed

text \<open>
  C1, amended.  In every run of the \<open>-ip\<close> entry point that finds the elastic IP and in
  which the private address of the elastic IP already equals the target private address
  given on the command line, the listing of the elastic IPs is the only call, so there
  is no detach and no attach, and the run ends with status 0.  The instance-ID and the
  peer-address entry points have no such check: in every run of theirs that finds the
  elastic IP, the second call is the detach of the elastic IP from the instance that
  holds it.
\<close>

theorem already_attached_is_a_no_op_for_the_ip_entry_point:
  "(located L P flagToken flagEIP w eip \<and> checkFlagIP L flagIP = Inr privateIP
      \<and> eip_PrivateIP eip = privateIP
     \<longrightarrow> main_ip L P flagToken flagEIP flagIP w =
           (0, \<lparr>world = w, calls = [(ListElasticIPs, None)],
                stderr = [INFO (found_message eip),
                          INFO ''elastic ip already attached to target instance'']\<rparr>))
   \<and> (located L P flagToken flagEIP w eip \<and> checkFlagInstances L flagInstances = Inr ids
     \<longrightarrow> begins_with [ListElasticIPs, Detach (att_ID (eip_Attachment eip)) (eip_ID eip)]
           (snd (main L P flagToken flagEIP flagInstances w)))
   \<and> (located L P flagToken flagEIP w eip \<and> checkFlagIPs L flagIPs = Inr peers
     \<longrightarrow> begins_with [ListElasticIPs, Detach (att_ID (eip_Attachment eip)) (eip_ID eip)]
           (snd (main_peers L P flagToken flagEIP flagIPs w)))"
  by (blast intro: main_ip_already_attached main_detaches main_peers_detaches)

text \<open>
  With the elastic IP already on C at 10.0.0.3, the \<open>-ip\<close> run for 10.0.0.3 lists the
  elastic IPs and ends with status 0.
\<close>

theorem already_attached_is_a_no_op_for_the_ip_entry_point_witness:
  "located ipv4 moved ''secret'' ''203.0.113.9'' 0 ha_eip_on_C
   \<and> checkFlagIP ipv4 ''10.0.0.3'' = Inr ''10.0.0.3''
   \<and> eip_PrivateIP ha_eip_on_C = ''10.0.0.3''
   \<and> fst (main_ip ipv4 moved ''secret'' ''203.0.113.9'' ''10.0.0.3'' 0) = 0
   \<and> calls (snd (main_ip ipv4 moved ''secret'' ''203.0.113.9'' ''10.0.0.3'' 0))
       = [(ListElasticIPs, None)]"
proof -
  have loc: "located ipv4 moved ''secret'' ''203.0.113.9'' 0 ha_eip_on_C" by code_simp
  have ip: "checkFlagIP ipv4 ''10.0.0.3'' = Inr ''10.0.0.3''" by code_simp
  have same: "eip_PrivateIP ha_eip_on_C = ''10.0.0.3''" by code_simp
  note claim = already_attached_is_a_no_op_for_the_ip_entry_point
    [where L = ipv4 and P = moved and flagToken = "''secret''" and flagEIP = "''203.0.113.9''"
       and w = "0::nat" and eip = ha_eip_on_C and flagIP = "''10.0.0.3''"
       and privateIP = "''10.0.0.3''", THEN conjunct1]
  from claim loc ip same
  have "main_ip ipv4 moved ''secret'' ''203.0.113.9'' ''10.0.0.3'' 0 =
           (0, \<lparr>world = 0, calls = [(ListElasticIPs, None)],
                stderr = [INFO (found_message ha_eip_on_C),
                          INFO ''elastic ip already attached to target instance'']\<rparr>)"
    by blast
  with loc ip same show ?thesis by simp
qed

section \<open>A run that finds the elastic IP attached nowhere\<close>

text \<open>
  C6, as stated, fails.  The example's spare elastic IP is attached nowhere: its
  attachment is the instance 0 and its private address is empty.  When the provider
  refuses the detach, each of the three entry points ends with status 1 on that error,
  after two calls and without an attach.  When the provider accepts the detach, the
  instance-ID entry point still ends with status 1 and without an attach, on the empty
  private address.
\<close>

theorem unattached_elastic_IP_is_not_recovered:
  "att_ID (eip_Attachment spare_eip) = 0 \<and> eip_PrivateIP spare_eip = []
   \<and> fst (main ipv4 strict ''secret'' ''198.51.100.4'' ''1,3'' 0) = 1
   \<and> calls (snd (main ipv4 strict ''secret'' ''198.51.100.4'' ''1,3'' 0))
       = [(ListElasticIPs, None),
          (Detach 0 8, Some (ProviderError ''elastic ip is not attached''))]
   \<and> last (stderr (snd (main ipv4 strict ''secret'' ''198.51.100.4'' ''1,3'' 0)))
       = ERROR ''elastic ip is not attached''
   \<and> fst (main_ip ipv4 strict ''secret'' ''198.51.100.4'' ''10.0.0.3'' 0) = 1
   \<and> calls (snd (main_ip ipv4 strict ''secret'' ''198.51.100.4'' ''10.0.0.3'' 0))
       = [(ListElasticIPs, None),
          (Detach 0 8, Some (ProviderError ''elastic ip is not attached''))]
   \<and> fst (main_peers ipv4 strict ''secret'' ''198.51.100.4'' ''10.0.0.1,10.0.0.3'' 0) = 1
   \<and> calls (snd (main_peers ipv4 strict ''secret'' ''198.51.100.4'' ''10.0.0.1,10.0.0.3'' 0))
       = [(ListElasticIPs, None),
          (Detach 0 8, Some (ProviderError ''elastic ip is not attached''))]
   \<and> fst (main ipv4 example ''secret'' ''198.51.100.4'' ''3,1'' 0) = 1
   \<and> calls (snd (main ipv4 example ''secret'' ''198.51.100.4'' ''3,1'' 0))
       = [(ListElasticIPs, None), (Detach 0 8, None), (GetServer 3, None),
          (ListNetworkInterfaces 3, None)]
   \<and> \<not> attached (snd (main ipv4 example ''secret'' ''198.51.100.4'' ''3,1'' 0))"
proof -
  have "att_ID (eip_Attachment spare_eip) = 0" by code_simp
  moreover have "eip_PrivateIP spare_eip = []" by code_simp
  moreover have "fst (main ipv4 strict ''secret'' ''198.51.100.4'' ''1,3'' 0) = 1" by code_simp
  moreover have "calls (snd (main ipv4 strict ''secret'' ''198.51.100.4'' ''1,3'' 0))
       = [(ListElasticIPs, None),
          (Detach 0 8, Some (ProviderError ''elastic ip is not attached''))]" by code_simp
  moreover have "last (stderr (snd (main ipv4 strict ''secret'' ''198.51.100.4'' ''1,3'' 0)))
       = ERROR ''elastic ip is not attached''" by code_simp
  moreover have "fst (main_ip ipv4 strict ''secret'' ''198.51.100.4'' ''10.0.0.3'' 0) = 1"
    by code_simp
  moreover have "calls (snd (main_ip ipv4 strict ''secret'' ''198.51.100.4'' ''10.0.0.3'' 0))
       = [(ListElasticIPs, None),
          (Detach 0 8, Some (ProviderError ''elastic ip is not attached''))]" by code_simp
  moreover have "fst (main_peers ipv4 strict ''secret'' ''198.51.100.4'' ''10.0.0.1,10.0.0.3'' 0) = 1"
    by code_simp
  moreover have "calls (snd (main_peers ipv4 strict ''secret'' ''198.51.100.4'' ''10.0.0.1,10.0.0.3'' 0))
       = [(ListElasticIPs, None),
          (Detach 0 8, Some (ProviderError ''elastic ip is not attached''))]" by code_simp
  moreover have "fst (main ipv4 example ''secret'' ''198.51.100.4'' ''3,1'' 0) = 1" by code_simp
  moreover have "calls (snd (main ipv4 example ''secret'' ''198.51.100.4'' ''3,1'' 0))
       = [(ListElasticIPs, None), (Detach 0 8, None), (GetServer 3, None),
          (ListNetworkInterfaces 3, None)]" by code_simp
  moreover have "\<not> attached (snd (main ipv4 example ''secret'' ''198.51.100.4'' ''3,1'' 0))"
    by code_simp
  ultimately show ?thesis by blast
qed

text \<open>
  C6, amended.  A run that finds the elastic IP issues the detach of it whether it is
  attached or not, and an error of the provider for that detach is not tolerated: in each
  of the three entry points it ends the run with status 1, with that error as the one
  error line and no call after the failed detach.  When the provider accepts the detach,
  the \<open>-ip\<close> and the peer-address entry points go on as in any other run: their next call
  is the listing of the servers, for the selection, and once a target is selected the
  calls that follow are those of the prepare step and the attach to it.  The instance-ID
  entry point ends with status 1 and issues no attach whenever the private address
  recorded for the elastic IP does not parse.
\<close>

theorem detach_error_ends_the_run:
  "(located L P flagToken flagEIP w eip \<and> checkFlagInstances L flagInstances = Inr ids
      \<and> ServerElasticIPService_Detach P w (att_ID (eip_Attachment eip)) (eip_ID eip) = (Some msg, w')
     \<longrightarrow> main L P flagToken flagEIP flagInstances w =
           (1, \<lparr>world = w',
                calls = [(ListElasticIPs, None),
                         (Detach (att_ID (eip_Attachment eip)) (eip_ID eip),
                          Some (ProviderError msg))],
                stderr = [INFO (found_message eip), ERROR msg]\<rparr>))
   \<and> (located L P flagToken flagEIP w eip \<and> checkFlagIPs L flagIPs = Inr peers
      \<and> ServerElasticIPService_Detach P w (att_ID (eip_Attachment eip)) (eip_ID eip) = (Some msg, w')
     \<longrightarrow> main_peers L P flagToken flagEIP flagIPs w =
           (1, \<lparr>world = w',
                calls = [(ListElasticIPs, None),
                         (Detach (att_ID (eip_Attachment eip)) (eip_ID eip),
                          Some (ProviderError msg))],
                stderr = [INFO (found_message eip), ERROR msg]\<rparr>))
   \<and> (located L P flagToken flagEIP w eip \<and> checkFlagIP L flagIP = Inr privateIP
      \<and> eip_PrivateIP eip \<noteq> privateIP
      \<and> ServerElasticIPService_Detach P w (att_ID (eip_Attachment eip)) (eip_ID eip) = (Some msg, w')
     \<longrightarrow> main_ip L P flagToken flagEIP flagIP w =
           (1, \<lparr>world = w',
                calls = [(ListElasticIPs, None),
                         (Detach (att_ID (eip_Attachment eip)) (eip_ID eip),
                          Some (ProviderError msg))],
                stderr = [INFO (found_message eip), ERROR msg]\<rparr>))
   \<and> (located L P flagToken flagEIP w eip \<and> checkFlagIP L flagIP = Inr privateIP
      \<and> eip_PrivateIP eip \<noteq> privateIP
      \<and> ServerElasticIPService_Detach P w (att_ID (eip_Attachment eip)) (eip_ID eip) = (None, w')
     \<longrightarrow> begins_with
           [ListElasticIPs, Detach (att_ID (eip_Attachment eip)) (eip_ID eip), ListServers]
           (snd (main_ip L P flagToken flagEIP flagIP w)))
   \<and> (located L P flagToken flagEIP w eip \<and> checkFlagIPs L flagIPs = Inr peers
      \<and> ServerElasticIPService_Detach P w (att_ID (eip_Attachment eip)) (eip_ID eip) = (None, w')
     \<longrightarrow> begins_with
           [ListElasticIPs, Detach (att_ID (eip_Attachment eip)) (eip_ID eip), ListServers]
           (snd (main_peers L P flagToken flagEIP flagIPs w)))
   \<and> (located L P flagToken flagEIP w eip \<and> checkFlagInstances L flagInstances = Inr ids
      \<and> net_ParseIP L (eip_PrivateIP eip) = None
     \<longrightarrow> fst (main L P flagToken flagEIP flagInstances w) = 1
         \<and> \<not> list_ex (\<lambda>ev. is_Attach (fst ev))
               (calls (snd (main L P flagToken flagEIP flagInstances w))))
   \<and> (located L P flagToken flagEIP w eip \<and> checkFlagIP L flagIP = Inr privateIP
      \<and> eip_PrivateIP eip \<noteq> privateIP
      \<and> ServerElasticIPService_Detach P w (att_ID (eip_Attachment eip)) (eip_ID eip) = (None, w')
      \<and> ServerService_List P w' = Inr (ipre @ server # ipost)
      \<and> (\<forall>j\<in>set ipre. passed_over P w' [privateIP] j)
      \<and> srv_Status_ID server = ServerStatusRunning P
      \<and> NetworkInterfaceService_List P w' (srv_ID server) = Inr (npre @ nic # npost)
      \<and> (\<forall>x\<in>set npre. nic_PrivateIP x \<noteq> privateIP) \<and> nic_PrivateIP nic = privateIP
     \<longrightarrow> map fst (calls (snd (main_ip L P flagToken flagEIP flagIP w)))
           = [ListElasticIPs, Detach (att_ID (eip_Attachment eip)) (eip_ID eip), ListServers]
             @ map (\<lambda>s. ListNetworkInterfaces (srv_ID s))
                 (filter (\<lambda>s. srv_Status_ID s = ServerStatusRunning P) ipre)
             @ [ListNetworkInterfaces (srv_ID server)]
             @ (if eip_PublicIP (nic_AttachedElasticIP nic) = []
                then [Attach (srv_ID server) (eip_ID eip) (nic_ID nic)]
                else if fst (ServerElasticIPService_Detach P w' (srv_ID server)
                               (eip_ID (nic_AttachedElasticIP nic))) = None
                then [Detach (srv_ID server) (eip_ID (nic_AttachedElasticIP nic)),
                      Attach (srv_ID server) (eip_ID eip) (nic_ID nic)]
                else [Detach (srv_ID server) (eip_ID (nic_AttachedElasticIP nic))]))
   \<and> (located L P flagToken flagEIP w eip \<and> checkFlagIPs L flagIPs = Inr peers
      \<and> ServerElasticIPService_Detach P w (att_ID (eip_Attachment eip)) (eip_ID eip) = (None, w')
      \<and> ServerService_List P w' = Inr (ipre @ server # ipost)
      \<and> (\<forall>j\<in>set ipre. passed_over P w' (filterPeers peers (eip_PrivateIP eip)) j)
      \<and> srv_Status_ID server = ServerStatusRunning P
      \<and> NetworkInterfaceService_List P w' (srv_ID server) = Inr (npre @ nic # npost)
      \<and> (\<forall>x\<in>set npre. nic_PrivateIP x \<notin> set (filterPeers peers (eip_PrivateIP eip)))
      \<and> nic_PrivateIP nic \<in> set (filterPeers peers (eip_PrivateIP eip))
     \<longrightarrow> map fst (calls (snd (main_peers L P flagToken flagEIP flagIPs w)))
           = [ListElasticIPs, Detach (att_ID (eip_Attachment eip)) (eip_ID eip), ListServers]
             @ map (\<lambda>s. ListNetworkInterfaces (srv_ID s))
                 (filter (\<lambda>s. srv_Status_ID s = ServerStatusRunning P) ipre)
             @ [ListNetworkInterfaces (srv_ID server)]
             @ (if eip_PublicIP (nic_AttachedElasticIP nic) = []
                then [Attach (srv_ID server) (eip_ID eip) (nic_ID nic)]
                else if fst (ServerElasticIPService_Detach P w' (srv_ID server)
                               (eip_ID (nic_AttachedElasticIP nic))) = None
                then [Detach (srv_ID server) (eip_ID (nic_AttachedElasticIP nic)),
                      Attach (srv_ID server) (eip_ID eip) (nic_ID nic)]
                else [Detach (srv_ID server) (eip_ID (nic_AttachedElasticIP nic))]))"
proof (intro conjI impI)
  assume "located L P flagToken flagEIP w eip \<and> checkFlagInstances L flagInstances = Inr ids
      \<and> ServerElasticIPService_Detach P w (att_ID (eip_Attachment eip)) (eip_ID eip) = (Some msg, w')"
  then show "main L P flagToken flagEIP flagInstances w =
           (1, \<lparr>world = w',
                calls = [(ListElasticIPs, None),
                         (Detach (att_ID (eip_Attachment eip)) (eip_ID eip),
                          Some (ProviderError msg))],
                stderr = [INFO (found_message eip), ERROR msg]\<rparr>)"
    by (blast intro: main_detach_fails)
next
  assume "located L P flagToken flagEIP w eip \<and> checkFlagIPs L flagIPs = Inr peers
      \<and> ServerElasticIPService_Detach P w (att_ID (eip_Attachment eip)) (eip_ID eip) = (Some msg, w')"
  then show "main_peers L P flagToken flagEIP flagIPs w =
           (1, \<lparr>world = w',
                calls = [(ListElasticIPs, None),
                         (Detach (att_ID (eip_Attachment eip)) (eip_ID eip),
                          Some (ProviderError msg))],
                stderr = [INFO (found_message eip), ERROR msg]\<rparr>)"
    by (blast intro: main_peers_detach_fails)
next
  assume "located L P flagToken flagEIP w eip \<and> checkFlagIP L flagIP = Inr privateIP
      \<and> eip_PrivateIP eip \<noteq> privateIP
      \<and> ServerElasticIPService_Detach P w (att_ID (eip_Attachment eip)) (eip_ID eip) = (Some msg, w')"
  then show "main_ip L P flagToken flagEIP flagIP w =
           (1, \<lparr>world = w',
                calls = [(ListElasticIPs, None),
                         (Detach (att_ID (eip_Attachment eip)) (eip_ID eip),
                          Some (ProviderError msg))],
                stderr = [INFO (found_message eip), ERROR msg]\<rparr>)"
    by (blast intro: main_ip_detach_fails)
next
  assume "located L P flagToken flagEIP w eip \<and> checkFlagIP L flagIP = Inr privateIP
      \<and> eip_PrivateIP eip \<noteq> privateIP
      \<and> ServerElasticIPService_Detach P w (att_ID (eip_Attachment eip)) (eip_ID eip) = (None, w')"
  then show "begins_with
           [ListElasticIPs, Detach (att_ID (eip_Attachment eip)) (eip_ID eip), ListServers]
           (snd (main_ip L P flagToken flagEIP flagIP w))"
    by (blast intro: main_ip_continues)
next
  assume "located L P flagToken flagEIP w eip \<and> checkFlagIPs L flagIPs = Inr peers
      \<and> ServerElasticIPService_Detach P w (att_ID (eip_Attachment eip)) (eip_ID eip) = (None, w')"
  then show "begins_with
           [ListElasticIPs, Detach (att_ID (eip_Attachment eip)) (eip_ID eip), ListServers]
           (snd (main_peers L P flagToken flagEIP flagIPs w))"
    by (blast intro: main_peers_continues)
next
  assume h: "located L P flagToken flagEIP w eip \<and> checkFlagInstances L flagInstances = Inr ids
      \<and> net_ParseIP L (eip_PrivateIP eip) = None"
  then have u: "fst (main L P flagToken flagEIP flagInstances w) = 1
    \<and> (\<exists>outcome rest.
          calls (snd (main L P flagToken flagEIP flagInstances w))
            = (ListElasticIPs, None)
              # (Detach (att_ID (eip_Attachment eip)) (eip_ID eip), outcome) # rest
          \<and> reads rest)"
    by (intro main_unparsable) blast+
  then show "fst (main L P flagToken flagEIP flagInstances w) = 1" by blast
  from u obtain outcome rest where
    c: "calls (snd (main L P flagToken flagEIP flagInstances w))
            = (ListElasticIPs, None)
              # (Detach (att_ID (eip_Attachment eip)) (eip_ID eip), outcome) # rest"
    and r: "reads rest" by blast
  from r have "\<not> list_ex (\<lambda>ev. is_Attach (fst ev)) rest"
    by (intro list_ex_not_all reads_not_Attach)
  with c show "\<not> list_ex (\<lambda>ev. is_Attach (fst ev))
               (calls (snd (main L P flagToken flagEIP flagInstances w)))"
    by simp
next
  assume "located L P flagToken flagEIP w eip \<and> checkFlagIP L flagIP = Inr privateIP
      \<and> eip_PrivateIP eip \<noteq> privateIP
      \<and> ServerElasticIPService_Detach P w (att_ID (eip_Attachment eip)) (eip_ID eip) = (None, w')
      \<and> ServerService_List P w' = Inr (ipre @ server # ipost)
      \<and> (\<forall>j\<in>set ipre. passed_over P w' [privateIP] j)
      \<and> srv_Status_ID server = ServerStatusRunning P
      \<and> NetworkInterfaceService_List P w' (srv_ID server) = Inr (npre @ nic # npost)
      \<and> (\<forall>x\<in>set npre. nic_PrivateIP x \<noteq> privateIP) \<and> nic_PrivateIP nic = privateIP"
  then show "map fst (calls (snd (main_ip L P flagToken flagEIP flagIP w)))
           = [ListElasticIPs, Detach (att_ID (eip_Attachment eip)) (eip_ID eip), ListServers]
             @ map (\<lambda>s. ListNetworkInterfaces (srv_ID s))
                 (filter (\<lambda>s. srv_Status_ID s = ServerStatusRunning P) ipre)
             @ [ListNetworkInterfaces (srv_ID server)]
             @ (if eip_PublicIP (nic_AttachedElasticIP nic) = []
                then [Attach (srv_ID server) (eip_ID eip) (nic_ID nic)]
                else if fst (ServerElasticIPService_Detach P w' (srv_ID server)
                               (eip_ID (nic_AttachedElasticIP nic))) = None
                then [Detach (srv_ID server) (eip_ID (nic_AttachedElasticIP nic)),
                      Attach (srv_ID server) (eip_ID eip) (nic_ID nic)]
                else [Detach (srv_ID server) (eip_ID (nic_AttachedElasticIP nic))])"
    by (intro main_ip_selected) blast+
next
  assume "located L P flagToken flagEIP w eip \<and> checkFlagIPs L flagIPs = Inr peers
      \<and> ServerElasticIPService_Detach P w (att_ID (eip_Attachment eip)) (eip_ID eip) = (None, w')
      \<and> ServerService_List P w' = Inr (ipre @ server # ipost)
      \<and> (\<forall>j\<in>set ipre. passed_over P w' (filterPeers peers (eip_PrivateIP eip)) j)
      \<and> srv_Status_ID server = ServerStatusRunning P
      \<and> NetworkInterfaceService_List P w' (srv_ID server) = Inr (npre @ nic # npost)
      \<and> (\<forall>x\<in>set npre. nic_PrivateIP x \<notin> set (filterPeers peers (eip_PrivateIP eip)))
      \<and> nic_PrivateIP nic \<in> set (filterPeers peers (eip_PrivateIP eip))"
  then show "map fst (calls (snd (main_peers L P flagToken flagEIP flagIPs w)))
           = [ListElasticIPs, Detach (att_ID (eip_Attachment eip)) (eip_ID eip), ListServers]
             @ map (\<lambda>s. ListNetworkInterfaces (srv_ID s))
                 (filter (\<lambda>s. srv_Status_ID s = ServerStatusRunning P) ipre)
             @ [ListNetworkInterfaces (srv_ID server)]
             @ (if eip_PublicIP (nic_AttachedElasticIP nic) = []
                then [Attach (srv_ID server) (eip_ID eip) (nic_ID nic)]
                else if fst (ServerElasticIPService_Detach P w' (srv_ID server)
                               (eip_ID (nic_AttachedElasticIP nic))) = None
                then [Detach (srv_ID server) (eip_ID (nic_AttachedElasticIP nic)),
                      Attach (srv_ID server) (eip_ID eip) (nic_ID nic)]
                else [Detach (srv_ID server) (eip_ID (nic_AttachedElasticIP nic))])"
    by (intro main_peers_selected) blast+
qed

text \<open>
  The strict provider refuses the detach of the spare elastic IP, and the instance-ID run
  ends there.  The running example's provider accepts it, and the \<open>-ip\<close> run for
  10.0.0.3 goes on: it lists the servers, selects the interface of C and attaches the
  spare elastic IP to it.
\<close>

theorem detach_error_ends_the_run_witness:
  "located ipv4 strict ''secret'' ''198.51.100.4'' 0 spare_eip
   \<and> checkFlagInstances ipv4 ''1,3'' = Inr [1, 3]
   \<and> ServerElasticIPService_Detach strict 0 0 8 = (Some ''elastic ip is not attached'', 0)
   \<and> fst (main ipv4 strict ''secret'' ''198.51.100.4'' ''1,3'' 0) = 1
   \<and> calls (snd (main ipv4 strict ''secret'' ''198.51.100.4'' ''1,3'' 0))
       = [(ListElasticIPs, None), (Detach 0 8, Some (ProviderError ''elastic ip is not attached''))]
   \<and> located ipv4 example ''secret'' ''198.51.100.4'' 0 spare_eip
   \<and> checkFlagIP ipv4 ''10.0.0.3'' = Inr ''10.0.0.3''
   \<and> ServerElasticIPService_Detach example 0 0 8 = (None, 1)
   \<and> begins_with [ListElasticIPs, Detach 0 8, ListServers]
        (snd (main_ip ipv4 example ''secret'' ''198.51.100.4'' ''10.0.0.3'' 0))
   \<and> main_ip ipv4 example ''secret'' ''198.51.100.4'' ''10.0.0.3'' 0
       = (0, \<lparr>world = 2,
              calls = [(ListElasticIPs, None), (Detach 0 8, None), (ListServers, None),
                       (ListNetworkInterfaces 1, None), (ListNetworkInterfaces 3, None),
                       (Attach 3 8 30, None)],
              stderr = stderr (snd (main_ip ipv4 example ''secret'' ''198.51.100.4'' ''10.0.0.3'' 0))\<rparr>)"
proof -
  have loc: "located ipv4 strict ''secret'' ''198.51.100.4'' 0 spare_eip" by code_simp
  have ids: "checkFlagInstances ipv4 ''1,3'' = Inr [1, 3]" by code_simp
  have f: "att_ID (eip_Attachment spare_eip) = 0" by code_simp
  have e: "eip_ID spare_eip = 8" by code_simp
  have det: "ServerElasticIPService_Detach strict 0 0 8 = (Some ''elastic ip is not attached'', 0)"
    by code_simp
  have loc': "located ipv4 example ''secret'' ''198.51.100.4'' 0 spare_eip" by code_simp
  have ip: "checkFlagIP ipv4 ''10.0.0.3'' = Inr ''10.0.0.3''" by code_simp
  have other: "eip_PrivateIP spare_eip \<noteq> ''10.0.0.3''" by code_simp
  have det': "ServerElasticIPService_Detach example 0 0 8 = (None, 1)" by code_simp
  note refused = detach_error_ends_the_run
    [where L = ipv4 and P = strict and flagToken = "''secret''" and flagEIP = "''198.51.100.4''"
       and w = "0::nat" and eip = spare_eip and flagInstances = "''1,3''" and ids = "[1, 3]"
       and msg = "''elastic ip is not attached''" and w' = "0::nat", THEN conjunct1]
  from refused loc ids det f e
  have r: "main ipv4 strict ''secret'' ''198.51.100.4'' ''1,3'' 0 =
           (1, \<lparr>world = 0,
                calls = [(ListElasticIPs, None),
                         (Detach 0 8, Some (ProviderError ''elastic ip is not attached''))],
                stderr = [INFO (found_message spare_eip), ERROR ''elastic ip is not attached'']\<rparr>)"
    by simp
  note accepted = detach_error_ends_the_run
    [where L = ipv4 and P = example and flagToken = "''secret''" and flagEIP = "''198.51.100.4''"
       and w = "0::nat" and eip = spare_eip and flagIP = "''10.0.0.3''"
       and privateIP = "''10.0.0.3''" and w' = "1::nat",
     THEN conjunct2, THEN conjunct2, THEN conjunct2, THEN conjunct1]
  from accepted loc' ip other det' f e
  have b: "begins_with [ListElasticIPs, Detach 0 8, ListServers]
        (snd (main_ip ipv4 example ''secret'' ''198.51.100.4'' ''10.0.0.3'' 0))"
    by simp
  have c: "fst (main_ip ipv4 example ''secret'' ''198.51.100.4'' ''10.0.0.3'' 0) = 0"
    by code_simp
  have w: "world (snd (main_ip ipv4 example ''secret'' ''198.51.100.4'' ''10.0.0.3'' 0)) = 2"
    by code_simp
  have t: "calls (snd (main_ip ipv4 example ''secret'' ''198.51.100.4'' ''10.0.0.3'' 0))
      = [(ListElasticIPs, None), (Detach 0 8, None), (ListServers, None),
         (ListNetworkInterfaces 1, None), (ListNetworkInterfaces 3, None),
         (Attach 3 8 30, None)]" by code_simp
  from c w t have full: "main_ip ipv4 example ''secret'' ''198.51.100.4'' ''10.0.0.3'' 0
       = (0, \<lparr>world = 2,
              calls = [(ListElasticIPs, None), (Detach 0 8, None), (ListServers, None),
                       (ListNetworkInterfaces 1, None), (ListNetworkInterfaces 3, None),
                       (Attach 3 8 30, None)],
              stderr = stderr (snd (main_ip ipv4 example ''secret'' ''198.51.100.4'' ''10.0.0.3'' 0))\<rparr>)"
    by (cases "main_ip ipv4 example ''secret'' ''198.51.100.4'' ''10.0.0.3'' 0") auto
  from loc ids det r loc' ip det' b full show ?thesis by simp
qed

end
